theory Spec2Isabelle
  imports Main "HOL-Library.Word"
begin

unbundle bit_operations_syntax

text \<open>
  A model of the payment relay: the tenant configuration merge
  (\<^verbatim>\<open>src/app-config/index.js\<close>), the order update service
  (\<^verbatim>\<open>src/order-update/index.js\<close>), the notification service and the verify handler
  of \<^verbatim>\<open>server.js\<close>. Asynchronous functions are functions from the world to a result
  and a new world; an exception is the result \<open>Inl\<close>; the record stores, the tenant's
  HTTP endpoint and the notification providers are part of the world, and any call to
  them may throw. The digest function of the signature check is a field of the request
  context, so that the statements about the handlers hold for any digest; the HMAC-SHA256
  that Node's \<^verbatim>\<open>crypto\<close> computes is defined in the section on the signature.
\<close>

section \<open>JavaScript values\<close>

text \<open>
  The values that occur in the tenant configuration, in the documents of the record
  store and in the JSON bodies. An object is a finite map from property names to
  values; the order of its keys is not observed by any function modelled here.
  \<open>JFsServerTimestamp\<close> is the sentinel returned by
  \<^verbatim>\<open>admin.firestore.FieldValue.serverTimestamp()\<close>, \<open>JRtdbTimestamp\<close> is
  \<^verbatim>\<open>admin.database.ServerValue.TIMESTAMP\<close>. A number is whole (\<open>JNum\<close>) or a
  whole number of hundredths: \<open>JHundredths a\<close> is \<^verbatim>\<open>a / 100\<close>.
\<close>

datatype jsval =
    JUndefined
  | JNull
  | JBool bool
  | JNum int
  | JHundredths int
  | JStr string
  | JFsServerTimestamp
  | JRtdbTimestamp
  | JObj "string \<Rightarrow> jsval option"

type_synonym object = "string \<Rightarrow> jsval option"

text \<open>Truthiness, as used by \<^verbatim>\<open>!x\<close>, \<^verbatim>\<open>x || y\<close>, \<^verbatim>\<open>x && y\<close> and \<^verbatim>\<open>if (x)\<close>.\<close>

fun truthy :: "jsval \<Rightarrow> bool" where
  "truthy JUndefined = False"
| "truthy JNull = False"
| "truthy (JBool b) = b"
| "truthy (JNum n) = (n \<noteq> 0)"
| "truthy (JHundredths a) = (a \<noteq> 0)"
| "truthy (JStr s) = (s \<noteq> [])"
| "truthy JFsServerTimestamp = True"
| "truthy JRtdbTimestamp = True"
| "truthy (JObj m) = True"

text \<open>\<^verbatim>\<open>a || b\<close>\<close>

definition js_or :: "jsval \<Rightarrow> jsval \<Rightarrow> jsval" where
  "js_or a b = (if truthy a then a else b)"

text \<open>
  \<^verbatim>\<open>v?.k\<close>, and \<^verbatim>\<open>v.k\<close> for a \<open>v\<close> that is neither \<^verbatim>\<open>undefined\<close> nor
  \<^verbatim>\<open>null\<close>: the own property of an object, \<^verbatim>\<open>undefined\<close> otherwise. Inherited
  properties of primitives (such as \<^verbatim>\<open>length\<close> of a string) are never among the
  keys read by the code.
\<close>

fun js_member :: "jsval \<Rightarrow> string \<Rightarrow> jsval" where
  "js_member (JObj m) k = (case m k of Some v \<Rightarrow> v | None \<Rightarrow> JUndefined)"
| "js_member v k = JUndefined"

text \<open>The key under which \<^verbatim>\<open>{...s}\<close> puts the character at position \<open>n\<close> of a
  string: the position in decimal.\<close>

definition digit :: "nat \<Rightarrow> char" where
  "digit d = ''0123456789'' ! d"

fun index_key :: "nat \<Rightarrow> string" where
  "index_key n = (if 10 \<le> n then index_key (n div 10) @ [digit (n mod 10)] else [digit n])"

declare index_key.simps [simp del]

text \<open>A whole number as JavaScript prints it (for a magnitude below
  \<^verbatim>\<open>1e21\<close>).\<close>

definition decimal :: "int \<Rightarrow> string" where
  "decimal n = (if n < 0 then ''-'' @ index_key (nat (- n)) else index_key (nat n))"

text \<open>\<^verbatim>\<open>(a / 100).toFixed(2)\<close> for a whole number \<open>a\<close> other than 0.\<close>

definition toFixed2 :: "int \<Rightarrow> string" where
  "toFixed2 a = (if a < 0 then ''-'' else []) @ index_key (nat \<bar>a\<bar> div 100) @ ''.'' @
                [digit (nat \<bar>a\<bar> mod 100 div 10), digit (nat \<bar>a\<bar> mod 10)]"

text \<open>
  The own enumerable properties copied by \<^verbatim>\<open>{...v}\<close>: those of an object, the
  indexed characters of a string, and none for every other value (in particular for
  \<^verbatim>\<open>undefined\<close>).
\<close>

fun spread :: "jsval \<Rightarrow> object" where
  "spread (JObj m) = m"
| "spread (JStr s) = map_of (zip (map index_key [0..<length s]) (map (\<lambda>c. JStr [c]) s))"
| "spread v = Map.empty"

section \<open>Tenant configuration: \<^verbatim>\<open>src/app-config/index.js\<close>\<close>

datatype js_error = TypeError | StoreError | NetworkError

text \<open>
  \<^verbatim>\<open>mergeWithDefault(appConfig)\<close>; \<open>merged\<close> is the object literal it returns. The
  first argument of \<open>mergeWithDefault\<close> is
  \<^verbatim>\<open>loadAppConfigs().default\<close>. The object literal spreads \<^verbatim>\<open>appConfig\<close> first
  (which is harmless for \<^verbatim>\<open>undefined\<close>) and then reads
  \<^verbatim>\<open>appConfig.notifications\<close>, which throws for \<^verbatim>\<open>undefined\<close> and \<^verbatim>\<open>null\<close>.
\<close>

definition merged :: "jsval \<Rightarrow> jsval \<Rightarrow> object" where
  "merged defaultConfig appConfig =
     (spread defaultConfig ++ spread appConfig)
        (''notifications'' \<mapsto> JObj
           ((spread (js_member defaultConfig ''notifications'') ++
             spread (js_member appConfig ''notifications''))
            (''onesignal'' \<mapsto> JObj
               (spread (js_member (js_member defaultConfig ''notifications'') ''onesignal'') ++
                spread (js_member (js_member appConfig ''notifications'') ''onesignal'')))),
         ''orderUpdate'' \<mapsto> JObj
           ((spread (js_member defaultConfig ''orderUpdate'') ++
             spread (js_member appConfig ''orderUpdate''))
            (''collections'' \<mapsto> JObj
               (spread (js_member (js_member defaultConfig ''orderUpdate'') ''collections'') ++
                spread (js_member (js_member appConfig ''orderUpdate'') ''collections'')))),
         ''testMode'' \<mapsto> JObj
           (spread (js_member defaultConfig ''testMode'') ++
            spread (js_member appConfig ''testMode'')))"

definition mergeWithDefault :: "jsval \<Rightarrow> jsval \<Rightarrow> js_error + object" where
  "mergeWithDefault configs_default appConfig =
     (let defaultConfig = js_or configs_default (JObj Map.empty) in
      if appConfig = JUndefined \<or> appConfig = JNull then Inl TypeError
      else Inr (merged defaultConfig appConfig))"

text \<open>
  The per-key overlay \<^verbatim>\<open>{...d, ...a}\<close> read at one key: the value of \<open>a\<close> where
  \<open>a\<close> names the key, the value of \<open>d\<close> otherwise.
\<close>

definition overlay_at :: "jsval \<Rightarrow> jsval \<Rightarrow> string \<Rightarrow> jsval option" where
  "overlay_at d a k = (case spread a k of Some v \<Rightarrow> Some v | None \<Rightarrow> spread d k)"

text \<open>The \<^verbatim>\<open>default\<close> entry of \<^verbatim>\<open>config/apps.js\<close>, with both environment
  variables of the notification provider unset.\<close>

definition apps_default :: jsval where
  "apps_default = JObj [
     ''name'' \<mapsto> JStr ''MediFind'',
     ''notifications'' \<mapsto> JObj [
        ''enabled'' \<mapsto> JBool True,
        ''provider'' \<mapsto> JStr ''onesignal'',
        ''onesignal'' \<mapsto> JObj [
           ''appId'' \<mapsto> JStr ''b0020b77-3e0c-43c5-b92e-912b1cec1623'',
           ''restApiKey'' \<mapsto> JStr []]],
     ''firebase'' \<mapsto> JObj [
        ''usePaymentServiceFirebase'' \<mapsto> JBool False,
        ''projectId'' \<mapsto> JStr ''medifind-doctor'',
        ''serviceAccountPath'' \<mapsto> JNull],
     ''orderUpdate'' \<mapsto> JObj [
        ''enabled'' \<mapsto> JBool True,
        ''useFirebase'' \<mapsto> JBool True,
        ''collections'' \<mapsto> JObj [
           ''orders'' \<mapsto> JStr ''orders'',
           ''consultations'' \<mapsto> JStr ''consultations'',
           ''payments'' \<mapsto> JStr ''payments'',
           ''users'' \<mapsto> JStr ''users'']],
     ''testMode'' \<mapsto> JObj [
        ''autoDetect'' \<mapsto> JBool True,
        ''bookOnPaymentFailure'' \<mapsto> JBool True]]"

section \<open>The outside world: record stores, HTTP endpoints, provider calls\<close>

text \<open>
  A store (Firestore, or the Realtime Database of the same Firebase app) holds documents
  under a collection (node) name and an id. The order of the list stands for the order in
  which the backend enumerates a collection. The pair of a name and an id stands for the
  path \<^verbatim>\<open>name/id\<close>; the stores do not represent paths nested in one another, so what
  is said about the documents of a store is said for names and ids without \<^verbatim>\<open>/\<close>
  (\<open>flat_paths\<close> below). Every call that leaves the process is a \<open>call\<close>; the world
  keeps the log of the calls attempted so far.
\<close>

datatype backend = Firestore | Rtdb

type_synonym store = "((string \<times> string) \<times> object) list"

datatype call =
    StoreGet backend string string
  | StoreUpdate backend string string object
  | PaymentInsert object
  | AdminQuery backend string
  | HttpGet jsval string
  | HttpPatch jsval string object
  | OneSignalPost jsval jsval "jsval list" bool jsval bool object
  | CustomPost jsval "jsval list" bool object

text \<open>
  \<open>PaymentInsert r\<close> is \<^verbatim>\<open>database.ref('payments').push()\<close> followed by
  \<^verbatim>\<open>set(r)\<close>. \<open>OneSignalPost appId key ids ok doctor note data\<close> is the POST of
  \<^verbatim>\<open>sendOneSignalNotification\<close>: \<open>ok\<close> selects the success or the failure title and
  body template, \<open>doctor\<close> is the name put into the body and \<open>note\<close> says whether the
  failure body ends with \<^verbatim>\<open>Consultation will still be booked.\<close>
  \<open>CustomPost endpoint ids ok data\<close> is the POST of \<^verbatim>\<open>sendCustomNotification\<close>.
\<close>

record world =
  firestore :: store
  rtdb :: store
  payments :: "object list"
  remote :: "jsval \<Rightarrow> string \<Rightarrow> jsval option"
  calls :: "call list"

text \<open>
  \<open>payments\<close> are the records pushed under the \<^verbatim>\<open>payments\<close> node; \<open>remote e i\<close> is
  what the tenant's own endpoint \<open>e\<close> answers to a GET for id \<open>i\<close> (\<open>None\<close>: a
  response that is not ok).

  The context of a request: the environment variables read by the code, whether the
  module-level \<^verbatim>\<open>database\<close> handle was initialised, the clock, the digest function
  of the signature check (key, then message, to lower-case hex digest; for Node it is
  \<open>node_hmac_sha256_hex\<close> below), and \<open>fails\<close>, which decides from the calls made so
  far whether the next call throws (rejects): a backend that is down, a document id
  that the backend does not accept, a request that times out. The server exits at
  startup unless both Razorpay variables are set, so these are strings.
\<close>

record env =
  RAZORPAY_KEY_ID :: string
  RAZORPAY_KEY_SECRET :: string
  ONESIGNAL_APP_ID :: "string option"
  ONESIGNAL_REST_API_KEY :: "string option"
  database :: bool
  now_iso :: string
  hmac_sha256_hex :: "string \<Rightarrow> string \<Rightarrow> string"
  fails :: "call list \<Rightarrow> call \<Rightarrow> bool"

text \<open>Attempt a call: it is logged, and the result says whether it went through.\<close>

definition perform :: "env \<Rightarrow> call \<Rightarrow> world \<Rightarrow> bool \<times> world" where
  "perform ctx c w = (\<not> fails ctx (calls w) c, w\<lparr>calls := calls w @ [c]\<rparr>)"

definition store_of :: "backend \<Rightarrow> world \<Rightarrow> store" where
  "store_of b w = (case b of Firestore \<Rightarrow> firestore w | Rtdb \<Rightarrow> rtdb w)"

definition put_store :: "backend \<Rightarrow> store \<Rightarrow> world \<Rightarrow> world" where
  "put_store b st w = (case b of Firestore \<Rightarrow> w\<lparr>firestore := st\<rparr> | Rtdb \<Rightarrow> w\<lparr>rtdb := st\<rparr>)"

text \<open>\<^verbatim>\<open>update(fields)\<close>: the fields are merged into the document; a Realtime
  Database path that does not exist yet is created.\<close>

fun upd_doc :: "string \<times> string \<Rightarrow> object \<Rightarrow> store \<Rightarrow> store" where
  "upd_doc k f [] = [(k, f)]"
| "upd_doc k f ((k', d) # st) =
     (if k' = k then (k', d ++ f) # st else (k', d) # upd_doc k f st)"

definition store_get ::
  "env \<Rightarrow> backend \<Rightarrow> string \<Rightarrow> string \<Rightarrow> world \<Rightarrow> (js_error + object option) \<times> world" where
  "store_get ctx b c i w =
     (case perform ctx (StoreGet b c i) w of
        (ok, w') \<Rightarrow> (if ok then Inr (map_of (store_of b w') (c, i)) else Inl StoreError, w'))"

text \<open>A Firestore \<^verbatim>\<open>update\<close> of a document that does not exist is rejected.\<close>

definition store_update ::
  "env \<Rightarrow> backend \<Rightarrow> string \<Rightarrow> string \<Rightarrow> object \<Rightarrow> world \<Rightarrow> (js_error + unit) \<times> world" where
  "store_update ctx b c i f w =
     (case perform ctx (StoreUpdate b c i f) w of
        (ok, w') \<Rightarrow>
          if \<not> ok then (Inl StoreError, w')
          else if b = Firestore \<and> map_of (firestore w') (c, i) = None then (Inl StoreError, w')
          else (Inr (), put_store b (upd_doc (c, i) f (store_of b w')) w'))"

text \<open>\<^verbatim>\<open>try { block } catch (e) { console.log(...) }\<close> around a block that says whether
  it returned from the enclosing function: after the catch, control falls through.\<close>

definition try_block :: "(js_error + bool) \<times> world \<Rightarrow> bool \<times> world" where
  "try_block r = (case r of (Inl e, w) \<Rightarrow> (False, w) | (Inr b, w) \<Rightarrow> (b, w))"

text \<open>
  The value of \<^verbatim>\<open>collections.x || 'x'\<close> is passed on as it is.
  \<^verbatim>\<open>firestore.collection(v)\<close> throws unless \<open>v\<close> is a string. For the Realtime
  Database the code builds the path \<^verbatim>\<open>`${v}/${orderId}`\<close>: \<open>rtdb_text\<close> is what
  the template makes of \<open>v\<close>, and \<^verbatim>\<open>database.ref(path)\<close> throws when the path
  contains one of \<^verbatim>\<open>. # $ [ ]\<close> or a control character (paths under the
  special location \<^verbatim>\<open>.info\<close> aside). So an object (printed as
  \<^verbatim>\<open>[object Object]\<close>, if it can be printed at all) and a number with a fraction
  (printed with a \<^verbatim>\<open>.\<close>) name no node.
\<close>

fun rtdb_text :: "jsval \<Rightarrow> string option" where
  "rtdb_text (JStr s) = Some s"
| "rtdb_text (JNum n) = Some (decimal n)"
| "rtdb_text (JHundredths a) = (if 100 dvd a then Some (decimal (a div 100)) else None)"
| "rtdb_text (JBool b) = Some (if b then ''true'' else ''false'')"
| "rtdb_text JNull = Some ''null''"
| "rtdb_text JUndefined = Some ''undefined''"
| "rtdb_text v = None"

definition rtdb_path_ok :: "string \<Rightarrow> bool" where
  "rtdb_path_ok p =
     (\<forall>c \<in> set p. c \<notin> set ''.#$[]'' \<and> 32 \<le> (of_char c :: nat) \<and> (of_char c :: nat) \<noteq> 127)"

text \<open>The collection (node) that a backend addresses for the name \<open>v\<close> and the id
  \<open>i\<close>; \<open>None\<close>: building the reference throws.\<close>

definition collection_ref :: "backend \<Rightarrow> jsval \<Rightarrow> string \<Rightarrow> string option" where
  "collection_ref b v i =
     (case b of
        Firestore \<Rightarrow> (case v of JStr s \<Rightarrow> Some s | _ \<Rightarrow> None)
      | Rtdb \<Rightarrow>
          (case rtdb_text v of
             Some s \<Rightarrow> if rtdb_path_ok (s @ ''/'' @ i) then Some s else None
           | None \<Rightarrow> None))"

section \<open>Order update service: \<^verbatim>\<open>src/order-update/index.js\<close>\<close>

text \<open>
  \<^verbatim>\<open>updateData\<close> of \<^verbatim>\<open>updateOrderPaymentStatus\<close>. \<^verbatim>\<open>admin.firestore\<close> is a
  property of the \<^verbatim>\<open>firebase-admin\<close> namespace and therefore truthy, so both
  timestamps are the Firestore sentinel.
\<close>

definition updateData :: "string \<Rightarrow> string option \<Rightarrow> object" where
  "updateData paymentStatus paymentId =
     [''paymentStatus'' \<mapsto> JStr paymentStatus, ''updatedAt'' \<mapsto> JFsServerTimestamp]
     ++ (case paymentId of
           Some p \<Rightarrow> if p \<noteq> [] then [''paymentId'' \<mapsto> JStr p] else Map.empty
         | None \<Rightarrow> Map.empty)
     ++ (if paymentStatus = ''paid'' then [''paidAt'' \<mapsto> JFsServerTimestamp] else Map.empty)"

text \<open>
  The body of each of the two inner \<^verbatim>\<open>try\<close> blocks of
  \<^verbatim>\<open>updateOrderPaymentStatus\<close> (the Firestore one and the Realtime Database one have
  the same shape): look the id up in the consultations collection, then in the orders
  collection, and update the first document found. \<open>Inr True\<close>: the function returned
  after an update; \<open>Inr False\<close>: no document was found; \<open>Inl\<close>: a call threw.
  \<open>update_in\<close> is the part for one collection: \<^verbatim>\<open>get\<close> (\<^verbatim>\<open>once('value')\<close>),
  and \<^verbatim>\<open>update\<close> if the document exists.
\<close>

definition update_in ::
  "env \<Rightarrow> backend \<Rightarrow> string \<Rightarrow> string \<Rightarrow> object \<Rightarrow> world \<Rightarrow> (js_error + bool) \<times> world" where
  "update_in ctx b c i f w =
     (case store_get ctx b c i w of
        (Inl e, w1) \<Rightarrow> (Inl e, w1)
      | (Inr (Some d), w1) \<Rightarrow>
          (case store_update ctx b c i f w1 of
             (Inl e, w2) \<Rightarrow> (Inl e, w2)
           | (Inr u, w2) \<Rightarrow> (Inr True, w2))
      | (Inr None, w1) \<Rightarrow> (Inr False, w1))"

definition update_first_found ::
  "env \<Rightarrow> backend \<Rightarrow> jsval \<Rightarrow> jsval \<Rightarrow> string \<Rightarrow> object \<Rightarrow> world \<Rightarrow> (js_error + bool) \<times> world" where
  "update_first_found ctx b consultationCollection ordersCollection i f w =
     (case collection_ref b consultationCollection i of
        None \<Rightarrow> (Inl StoreError, w)
      | Some cc \<Rightarrow>
          (case update_in ctx b cc i f w of
             (Inr False, w1) \<Rightarrow>
               (case collection_ref b ordersCollection i of
                  None \<Rightarrow> (Inl StoreError, w1)
                | Some oc \<Rightarrow> update_in ctx b oc i f w1)
           | r \<Rightarrow> r))"

text \<open>The statements inside the outer \<^verbatim>\<open>try\<close> of \<^verbatim>\<open>updateOrderPaymentStatus\<close>.\<close>

definition updateOrderPaymentStatus_body ::
  "env \<Rightarrow> jsval \<Rightarrow> string \<Rightarrow> string \<Rightarrow> string option \<Rightarrow> world \<Rightarrow> (js_error + unit) \<times> world" where
  "updateOrderPaymentStatus_body ctx appConfig orderId paymentStatus paymentId w =
     (if appConfig = JUndefined \<or> appConfig = JNull then (Inl TypeError, w)
      else
        let orderUpdateConfig = js_or (js_member appConfig ''orderUpdate'') (JObj Map.empty) in
        if \<not> truthy (js_member orderUpdateConfig ''enabled'') then (Inr (), w)
        else
          let data = updateData paymentStatus paymentId in
          if truthy (js_member orderUpdateConfig ''endpoint'') \<and>
             \<not> truthy (js_member orderUpdateConfig ''useFirebase'')
          then
            (case perform ctx (HttpPatch (js_member orderUpdateConfig ''endpoint'') orderId data) w of
               (ok, w1) \<Rightarrow> (if ok then Inr () else Inl NetworkError, w1))
          else if truthy (js_member orderUpdateConfig ''useFirebase'') then
            (let collections = js_or (js_member orderUpdateConfig ''collections'') (JObj Map.empty);
                 consultationCollection =
                   js_or (js_member collections ''consultations'') (JStr ''consultations'');
                 ordersCollection = js_or (js_member collections ''orders'') (JStr ''orders'')
             in case try_block (update_first_found ctx Firestore consultationCollection
                                  ordersCollection orderId data w) of
                  (True, w1) \<Rightarrow> (Inr (), w1)
                | (False, w1) \<Rightarrow>
                    (case try_block (update_first_found ctx Rtdb consultationCollection
                                       ordersCollection orderId data w1) of
                       (r, w2) \<Rightarrow> (Inr (), w2)))
          else (Inr (), w))"

text \<open>The outer \<^verbatim>\<open>catch\<close> only logs: \<^verbatim>\<open>// Don't throw\<close>.\<close>

definition updateOrderPaymentStatus ::
  "env \<Rightarrow> jsval \<Rightarrow> string \<Rightarrow> string \<Rightarrow> string option \<Rightarrow> world \<Rightarrow> (js_error + unit) \<times> world" where
  "updateOrderPaymentStatus ctx appConfig orderId paymentStatus paymentId w =
     (case updateOrderPaymentStatus_body ctx appConfig orderId paymentStatus paymentId w of
        (Inl e, w') \<Rightarrow> (Inr (), w')
      | (Inr u, w') \<Rightarrow> (Inr u, w'))"

text \<open>
  What \<^verbatim>\<open>getOrderDetails\<close> returns for a document found: the id, then the fields,
  then (Firestore only) the time fields again, converted by \<^verbatim>\<open>toDate()\<close> where they
  are Firestore timestamps. Times are opaque here, so the conversion is the identity; the
  keys are set even where the document has no such field.
\<close>

definition rtdb_view :: "string \<Rightarrow> object \<Rightarrow> object" where
  "rtdb_view i d = [''id'' \<mapsto> JStr i] ++ d"

definition firestore_order_view :: "string \<Rightarrow> object \<Rightarrow> object" where
  "firestore_order_view i d =
     (rtdb_view i d)(''createdAt'' \<mapsto> js_member (JObj d) ''createdAt'',
                     ''updatedAt'' \<mapsto> js_member (JObj d) ''updatedAt'')"

definition firestore_consultation_view :: "string \<Rightarrow> object \<Rightarrow> object" where
  "firestore_consultation_view i d =
     (rtdb_view i d)(''scheduledTime'' \<mapsto> js_member (JObj d) ''scheduledTime'',
                     ''createdAt'' \<mapsto> js_member (JObj d) ''createdAt'',
                     ''updatedAt'' \<mapsto> js_member (JObj d) ''updatedAt'')"

definition view_of :: "backend \<Rightarrow> bool \<Rightarrow> string \<Rightarrow> object \<Rightarrow> object" where
  "view_of b consultation i d =
     (case b of
        Rtdb \<Rightarrow> rtdb_view i d
      | Firestore \<Rightarrow>
          if consultation then firestore_consultation_view i d else firestore_order_view i d)"

text \<open>The body of each inner \<^verbatim>\<open>try\<close> of \<^verbatim>\<open>getOrderDetails\<close>: \<open>Inr (Some v)\<close> is
  a value returned from the function, \<open>Inr None\<close> means that nothing was found.\<close>

definition fetch_first_found ::
  "env \<Rightarrow> backend \<Rightarrow> jsval \<Rightarrow> jsval \<Rightarrow> string \<Rightarrow> world \<Rightarrow> (js_error + object option) \<times> world" where
  "fetch_first_found ctx b consultationCollection ordersCollection i w =
     (case collection_ref b consultationCollection i of
        None \<Rightarrow> (Inl StoreError, w)
      | Some cc \<Rightarrow>
          (case store_get ctx b cc i w of
             (Inl e, w1) \<Rightarrow> (Inl e, w1)
           | (Inr (Some d), w1) \<Rightarrow> (Inr (Some (view_of b True i d)), w1)
           | (Inr None, w1) \<Rightarrow>
               (case collection_ref b ordersCollection i of
                  None \<Rightarrow> (Inl StoreError, w1)
                | Some oc \<Rightarrow>
                    (case store_get ctx b oc i w1 of
                       (Inl e, w2) \<Rightarrow> (Inl e, w2)
                     | (Inr (Some d), w2) \<Rightarrow> (Inr (Some (view_of b False i d)), w2)
                     | (Inr None, w2) \<Rightarrow> (Inr None, w2)))))"

definition try_fetch :: "(js_error + object option) \<times> world \<Rightarrow> object option \<times> world" where
  "try_fetch r = (case r of (Inl e, w) \<Rightarrow> (None, w) | (Inr v, w) \<Rightarrow> (v, w))"

text \<open>\<^verbatim>\<open>getOrderDetails(appConfig, orderId)\<close>: the order data, or \<^verbatim>\<open>null\<close>. Every
  exception ends in \<^verbatim>\<open>return null\<close>.\<close>

definition getOrderDetails :: "env \<Rightarrow> jsval \<Rightarrow> string \<Rightarrow> world \<Rightarrow> jsval \<times> world" where
  "getOrderDetails ctx appConfig orderId w =
     (if appConfig = JUndefined \<or> appConfig = JNull then (JNull, w)
      else
        let orderUpdateConfig = js_or (js_member appConfig ''orderUpdate'') (JObj Map.empty) in
        if \<not> truthy (js_member orderUpdateConfig ''enabled'') then (JNull, w)
        else
          let firebase_part = (\<lambda>w0.
            if truthy (js_member orderUpdateConfig ''useFirebase'') then
              (let collections = js_or (js_member orderUpdateConfig ''collections'') (JObj Map.empty);
                   consultationCollection =
                     js_or (js_member collections ''consultations'') (JStr ''consultations'');
                   ordersCollection = js_or (js_member collections ''orders'') (JStr ''orders'')
               in case try_fetch (fetch_first_found ctx Firestore consultationCollection
                                    ordersCollection orderId w0) of
                    (Some v, w1) \<Rightarrow> (JObj v, w1)
                  | (None, w1) \<Rightarrow>
                      (case try_fetch (fetch_first_found ctx Rtdb consultationCollection
                                         ordersCollection orderId w1) of
                         (Some v, w2) \<Rightarrow> (JObj v, w2)
                       | (None, w2) \<Rightarrow> (JNull, w2)))
            else (JNull, w0))
          in
          if truthy (js_member orderUpdateConfig ''endpoint'') \<and>
             \<not> truthy (js_member orderUpdateConfig ''useFirebase'')
          then
            (case perform ctx (HttpGet (js_member orderUpdateConfig ''endpoint'') orderId) w of
               (ok, w1) \<Rightarrow>
                 if \<not> ok then (JNull, w1)
                 else (case remote w1 (js_member orderUpdateConfig ''endpoint'') orderId of
                         Some v \<Rightarrow> (v, w1)
                       | None \<Rightarrow> firebase_part w1))
          else firebase_part w)"

section \<open>Notification service: \<^verbatim>\<open>src/notifications\<close>\<close>

text \<open>
  Recipient collection of \<^verbatim>\<open>sendPaymentNotification\<close>: the patient or user, then the
  doctor, provider or seller, then the administrators. Each \<^verbatim>\<open>push\<close> appends; nothing
  removes an id that is already in the list.
\<close>

definition patient_ids :: "jsval \<Rightarrow> jsval list" where
  "patient_ids consultationData =
     (if truthy (js_member consultationData ''patientId'')
        then [js_member consultationData ''patientId'']
      else if truthy (js_member consultationData ''userId'')
        then [js_member consultationData ''userId'']
      else [])"

definition provider_ids :: "jsval \<Rightarrow> jsval list" where
  "provider_ids consultationData =
     (if truthy (js_member consultationData ''doctorId'')
        then [js_member consultationData ''doctorId'']
      else if truthy (js_member consultationData ''providerId'')
        then [js_member consultationData ''providerId'']
      else if truthy (js_member consultationData ''sellerId'')
        then [js_member consultationData ''sellerId'']
      else [])"

text \<open>The ids of the documents of a collection whose \<^verbatim>\<open>role\<close> is \<^verbatim>\<open>'admin'\<close>.\<close>

definition admins_of :: "store \<Rightarrow> string \<Rightarrow> jsval list" where
  "admins_of st usersCollection =
     map (\<lambda>e. JStr (snd (fst e)))
       (filter (\<lambda>e. fst (fst e) = usersCollection \<and> snd e ''role'' = Some (JStr ''admin'')) st)"

text \<open>
  The administrators: from Firestore, and from the Realtime Database only if the
  Firestore query threw; none if both throw. \<^verbatim>\<open>firestore.collection(usersCollection)\<close>
  and \<^verbatim>\<open>database.ref(usersCollection)\<close> both throw for a name that is not a string,
  the second one also for a string that is not a path.
\<close>

definition admin_ids :: "env \<Rightarrow> jsval \<Rightarrow> world \<Rightarrow> jsval list \<times> world" where
  "admin_ids ctx config w =
     (let orderUpdateConfig = js_or (js_member config ''orderUpdate'') (JObj Map.empty);
          collections = js_or (js_member orderUpdateConfig ''collections'') (JObj Map.empty);
          usersCollection = js_or (js_member collections ''users'') (JStr ''users'')
      in case usersCollection of
           JStr u \<Rightarrow>
             (case perform ctx (AdminQuery Firestore u) w of
                (True, w1) \<Rightarrow> (admins_of (firestore w1) u, w1)
              | (False, w1) \<Rightarrow>
                  if \<not> rtdb_path_ok u then ([], w1)
                  else
                    (case perform ctx (AdminQuery Rtdb u) w1 of
                       (True, w2) \<Rightarrow> (admins_of (rtdb w2) u, w2)
                     | (False, w2) \<Rightarrow> ([], w2)))
         | _ \<Rightarrow> ([], w))"

definition recipients :: "env \<Rightarrow> jsval \<Rightarrow> jsval \<Rightarrow> world \<Rightarrow> jsval list \<times> world" where
  "recipients ctx config consultationData w =
     (case admin_ids ctx config w of
        (admins, w1) \<Rightarrow> (patient_ids consultationData @ provider_ids consultationData @ admins, w1))"

definition amount_value :: "int option \<Rightarrow> jsval" where
  "amount_value amount = (case amount of Some a \<Rightarrow> JNum a | None \<Rightarrow> JUndefined)"

definition notificationData ::
  "string \<Rightarrow> string \<Rightarrow> int option \<Rightarrow> jsval \<Rightarrow> jsval \<Rightarrow> object" where
  "notificationData consultationId paymentStatus amount paymentId consultationData =
     [''type'' \<mapsto> JStr (if paymentStatus = ''paid'' \<or> paymentStatus = ''completed''
                         then ''payment_success'' else ''payment_failed''),
      ''consultationId'' \<mapsto> JStr consultationId,
      ''orderId'' \<mapsto> JStr consultationId,
      ''paymentId'' \<mapsto> paymentId,
      ''amount'' \<mapsto> amount_value amount,
      ''amountInRupees'' \<mapsto>
         (case amount of
            Some a \<Rightarrow> if a \<noteq> 0 then JStr (toFixed2 a) else JStr ''0.00''
          | None \<Rightarrow> JStr ''0.00''),
      ''status'' \<mapsto> JStr paymentStatus]
     ++ spread consultationData"

text \<open>\<^verbatim>\<open>process.env.X\<close> as a value: \<^verbatim>\<open>undefined\<close> when the variable is not set.\<close>

definition env_value :: "string option \<Rightarrow> jsval" where
  "env_value v = (case v of Some s \<Rightarrow> JStr s | None \<Rightarrow> JUndefined)"

text \<open>\<^verbatim>\<open>sendOneSignalNotification\<close>; its \<^verbatim>\<open>catch\<close> rethrows.\<close>

definition sendOneSignalNotification ::
  "env \<Rightarrow> jsval \<Rightarrow> jsval list \<Rightarrow> bool \<Rightarrow> jsval \<Rightarrow> bool \<Rightarrow> object \<Rightarrow> world \<Rightarrow> (js_error + unit) \<times> world" where
  "sendOneSignalNotification ctx onesignalConfig userIds ok doctor note data w =
     (if userIds = [] then (Inr (), w)
      else
        let appId = js_or (js_member onesignalConfig ''appId'')
                      (js_or (env_value (ONESIGNAL_APP_ID ctx))
                         (JStr ''b0020b77-3e0c-43c5-b92e-912b1cec1623''));
            restApiKey = js_or (js_member onesignalConfig ''restApiKey'')
                           (js_or (env_value (ONESIGNAL_REST_API_KEY ctx)) (JStr []))
        in if \<not> truthy restApiKey then (Inr (), w)
           else (case perform ctx (OneSignalPost appId restApiKey userIds ok doctor note data) w of
                   (sent, w1) \<Rightarrow> (if sent then Inr () else Inl NetworkError, w1)))"

text \<open>The statements inside the \<^verbatim>\<open>try\<close> of \<^verbatim>\<open>sendPaymentNotification\<close>.\<close>

definition sendPaymentNotification_body ::
  "env \<Rightarrow> jsval \<Rightarrow> string \<Rightarrow> string \<Rightarrow> int option \<Rightarrow> jsval \<Rightarrow> jsval \<Rightarrow> world \<Rightarrow> (js_error + unit) \<times> world" where
  "sendPaymentNotification_body ctx config consultationId paymentStatus amount paymentId
       consultationData w =
     (if config = JUndefined \<or> config = JNull then (Inl TypeError, w)
      else
        let notificationConfig = js_or (js_member config ''notifications'') (JObj Map.empty) in
        if \<not> truthy (js_member notificationConfig ''enabled'') then (Inr (), w)
        else
          let provider = js_or (js_member notificationConfig ''provider'') (JStr ''onesignal'');
              isSuccess = (paymentStatus = ''paid'' \<or> paymentStatus = ''completed'')
          in case recipients ctx config consultationData w of
               (userIds, w1) \<Rightarrow>
                 if userIds = [] then (Inr (), w1)
                 else
                   let data = notificationData consultationId paymentStatus amount paymentId
                                consultationData
                   in if provider = JStr ''onesignal'' then
                        sendOneSignalNotification ctx
                          (js_or (js_member notificationConfig ''onesignal'') (JObj Map.empty))
                          userIds isSuccess
                          (js_or (js_member consultationData ''doctorName'')
                             (js_or (js_member consultationData ''providerName'')
                                (JStr ''provider'')))
                          (\<not> isSuccess \<and>
                           truthy (js_member (js_member config ''testMode'') ''bookOnPaymentFailure''))
                          data w1
                      else if provider = JStr ''custom'' then
                        (if truthy (js_member notificationConfig ''customEndpoint'') then
                           (case perform ctx (CustomPost
                                    (js_member notificationConfig ''customEndpoint'')
                                    userIds isSuccess data) w1 of
                              (sent, w2) \<Rightarrow> (if sent then Inr () else Inl NetworkError, w2))
                         else (Inr (), w1))
                      else (Inr (), w1))"

text \<open>The \<^verbatim>\<open>catch\<close> only logs: \<^verbatim>\<open>// Don't throw - notifications are non-critical\<close>.\<close>

definition sendPaymentNotification ::
  "env \<Rightarrow> jsval \<Rightarrow> string \<Rightarrow> string \<Rightarrow> int option \<Rightarrow> jsval \<Rightarrow> jsval \<Rightarrow> world \<Rightarrow> (js_error + unit) \<times> world" where
  "sendPaymentNotification ctx config consultationId paymentStatus amount paymentId
       consultationData w =
     (case sendPaymentNotification_body ctx config consultationId paymentStatus amount
             paymentId consultationData w of
        (Inl e, w') \<Rightarrow> (Inr (), w')
      | (Inr u, w') \<Rightarrow> (Inr u, w'))"

section \<open>HMAC-SHA256\<close>

text \<open>
  \<^verbatim>\<open>crypto.createHmac('sha256', key).update(text).digest('hex')\<close>: SHA-256 as in
  FIPS 180-4 and HMAC as in RFC 2104, over bytes. A string stands for the bytes of its
  UTF-8 encoding, which is what Node hashes for a key and a text given as strings.
\<close>

type_synonym byte = "8 word"

type_synonym hash_state =
  "32 word \<times> 32 word \<times> 32 word \<times> 32 word \<times> 32 word \<times> 32 word \<times> 32 word \<times> 32 word"

definition rotr :: "nat \<Rightarrow> 32 word \<Rightarrow> 32 word" where
  "rotr n x = drop_bit n x OR push_bit (32 - n) x"

definition Ch :: "32 word \<Rightarrow> 32 word \<Rightarrow> 32 word \<Rightarrow> 32 word" where
  "Ch x y z = (x AND y) XOR (NOT x AND z)"

definition Maj :: "32 word \<Rightarrow> 32 word \<Rightarrow> 32 word \<Rightarrow> 32 word" where
  "Maj x y z = (x AND y) XOR (x AND z) XOR (y AND z)"

definition Sigma0 :: "32 word \<Rightarrow> 32 word" where
  "Sigma0 x = rotr 2 x XOR rotr 13 x XOR rotr 22 x"

definition Sigma1 :: "32 word \<Rightarrow> 32 word" where
  "Sigma1 x = rotr 6 x XOR rotr 11 x XOR rotr 25 x"

definition sigma0 :: "32 word \<Rightarrow> 32 word" where
  "sigma0 x = rotr 7 x XOR rotr 18 x XOR drop_bit 3 x"

definition sigma1 :: "32 word \<Rightarrow> 32 word" where
  "sigma1 x = rotr 17 x XOR rotr 19 x XOR drop_bit 10 x"

text \<open>
  The constants: the round constants are the first 32 bits of the fractional parts of the
  cube roots of the first 64 primes, the initial hash value those of the square roots of
  the first 8 primes. \<open>root_floor k n\<close> is the integer part of the \<open>k\<close>-th root of
  \<open>n\<close> (below \<open>2 ^ 64\<close>), found bit by bit.
\<close>

definition is_prime :: "nat \<Rightarrow> bool" where
  "is_prime n = (1 < n \<and> (\<forall>d \<in> set [2..<n]. \<not> d dvd n))"

definition root_floor :: "nat \<Rightarrow> nat \<Rightarrow> nat" where
  "root_floor k n = foldl (\<lambda>r b. if (r + 2 ^ b) ^ k \<le> n then r + 2 ^ b else r) 0 (rev [0..<64])"

definition fraction_bits :: "nat \<Rightarrow> nat \<Rightarrow> 32 word" where
  "fraction_bits k p = word_of_nat (root_floor k (p * 2 ^ (32 * k)))"

definition K256 :: "32 word list" where
  "K256 = map (fraction_bits 3) (filter is_prime [2..<312])"

definition H256 :: hash_state where
  "H256 = (fraction_bits 2 2, fraction_bits 2 3, fraction_bits 2 5, fraction_bits 2 7,
           fraction_bits 2 11, fraction_bits 2 13, fraction_bits 2 17, fraction_bits 2 19)"

text \<open>The message schedule: \<open>schedule n ws\<close> appends \<open>n\<close> more words to the words
  \<open>ws\<close> of a block.\<close>

primrec schedule :: "nat \<Rightarrow> 32 word list \<Rightarrow> 32 word list" where
  "schedule 0 ws = ws"
| "schedule (Suc n) ws =
     schedule n (ws @ [sigma1 (ws ! (length ws - 2)) + ws ! (length ws - 7) +
                       sigma0 (ws ! (length ws - 15)) + ws ! (length ws - 16)])"

fun round256 :: "hash_state \<Rightarrow> 32 word \<times> 32 word \<Rightarrow> hash_state" where
  "round256 (a, b, c, d, e, f, g, h) (k, w) =
     (let t1 = h + Sigma1 e + Ch e f g + k + w;
          t2 = Sigma0 a + Maj a b c
      in (t1 + t2, a, b, c, d + t1, e, f, g))"

fun add_state :: "hash_state \<Rightarrow> hash_state \<Rightarrow> hash_state" where
  "add_state (a, b, c, d, e, f, g, h) (a', b', c', d', e', f', g', h') =
     (a + a', b + b', c + c', d + d', e + e', f + f', g + g', h + h')"

text \<open>Big-endian bytes to a word, and a list cut into pieces of \<open>n\<close> elements.\<close>

definition be32 :: "byte list \<Rightarrow> 32 word" where
  "be32 bs = foldl (\<lambda>acc b. push_bit 8 acc OR ucast b) 0 bs"

fun chunk :: "nat \<Rightarrow> 'a list \<Rightarrow> 'a list list" where
  "chunk n xs = (if n = 0 \<or> xs = [] then [] else take n xs # chunk n (drop n xs))"

declare chunk.simps [simp del]

definition compress :: "hash_state \<Rightarrow> byte list \<Rightarrow> hash_state" where
  "compress H block =
     add_state H (foldl round256 H (zip K256 (schedule 48 (map be32 (chunk 4 block)))))"

text \<open>Padding: the byte \<^verbatim>\<open>0x80\<close>, zero bytes up to 56 modulo 64, and the length of
  the message in bits as eight bytes.\<close>

definition length_bytes :: "nat \<Rightarrow> byte list" where
  "length_bytes x = map (\<lambda>i. word_of_nat (x div 256 ^ i)) (rev [0..<8])"

definition pad256 :: "byte list \<Rightarrow> byte list" where
  "pad256 m = m @ [0x80] @ replicate ((119 - length m mod 64) mod 64) 0 @ length_bytes (8 * length m)"

fun state_bytes :: "hash_state \<Rightarrow> byte list" where
  "state_bytes (a, b, c, d, e, f, g, h) =
     concat (map (\<lambda>x. [ucast (drop_bit 24 x), ucast (drop_bit 16 x), ucast (drop_bit 8 x), ucast x])
               [a, b, c, d, e, f, g, h])"

definition sha256 :: "byte list \<Rightarrow> byte list" where
  "sha256 m = state_bytes (foldl compress H256 (chunk 64 (pad256 m)))"

text \<open>The key is hashed if it is longer than a block, and filled up with zero bytes to
  the length of a block.\<close>

definition hmac_key_block :: "byte list \<Rightarrow> byte list" where
  "hmac_key_block key =
     (let k = (if 64 < length key then sha256 key else key) in k @ replicate (64 - length k) 0)"

definition hmac_sha256 :: "byte list \<Rightarrow> byte list \<Rightarrow> byte list" where
  "hmac_sha256 key m =
     sha256 (map (\<lambda>b. b XOR 0x5c) (hmac_key_block key) @
             sha256 (map (\<lambda>b. b XOR 0x36) (hmac_key_block key) @ m))"

definition hex_digit :: "nat \<Rightarrow> char" where
  "hex_digit n = ''0123456789abcdef'' ! n"

definition hex :: "byte list \<Rightarrow> string" where
  "hex bs = concat (map (\<lambda>b. [hex_digit (unat b div 16), hex_digit (unat b mod 16)]) bs)"

definition utf8 :: "string \<Rightarrow> byte list" where
  "utf8 s = map of_char s"

definition node_hmac_sha256_hex :: "string \<Rightarrow> string \<Rightarrow> string" where
  "node_hmac_sha256_hex key msg = hex (hmac_sha256 (utf8 key) (utf8 msg))"

section \<open>The server: \<^verbatim>\<open>server.js\<close>\<close>

text \<open>\<^verbatim>\<open>paymentData\<close>, as built by the verify handler.\<close>

record payment_data =
  pd_payment_id :: string
  pd_order_id :: string
  pd_signature :: string
  pd_amount :: "int option"
  pd_consultationId :: "string option"
  pd_notes :: jsval

text \<open>\<^verbatim>\<open>x || null\<close> for an optional number and for an optional string.\<close>

definition num_or_null :: "int option \<Rightarrow> int option" where
  "num_or_null a = (case a of Some n \<Rightarrow> if n = 0 then None else Some n | None \<Rightarrow> None)"

definition str_or_null :: "string option \<Rightarrow> string option" where
  "str_or_null s = (case s of Some t \<Rightarrow> if t = [] then None else Some t | None \<Rightarrow> None)"

definition paymentRecord :: "payment_data \<Rightarrow> object" where
  "paymentRecord paymentData =
     [''razorpayPaymentId'' \<mapsto> JStr (pd_payment_id paymentData),
      ''razorpayOrderId'' \<mapsto> JStr (pd_order_id paymentData),
      ''razorpaySignature'' \<mapsto> JStr (pd_signature paymentData),
      ''amount'' \<mapsto> (case num_or_null (pd_amount paymentData) of
                          Some a \<Rightarrow> JNum a | None \<Rightarrow> JNull),
      ''amountInRupees'' \<mapsto> (case num_or_null (pd_amount paymentData) of
                                  Some a \<Rightarrow> JHundredths a | None \<Rightarrow> JNull),
      ''status'' \<mapsto> JStr ''completed'',
      ''verified'' \<mapsto> JBool True,
      ''consultationId'' \<mapsto> (case str_or_null (pd_consultationId paymentData) of
                                  Some c \<Rightarrow> JStr c | None \<Rightarrow> JNull),
      ''notes'' \<mapsto> js_or (pd_notes paymentData) (JObj Map.empty),
      ''createdAt'' \<mapsto> JRtdbTimestamp,
      ''verifiedAt'' \<mapsto> JRtdbTimestamp]"

text \<open>
  \<^verbatim>\<open>savePaymentToDatabase(paymentData)\<close>: nothing without a database handle; otherwise
  the record is pushed under \<^verbatim>\<open>payments\<close> and, if there is a consultation id, the
  node \<^verbatim>\<open>consultations/<id>\<close> of the Realtime Database is updated (unless
  \<^verbatim>\<open>database.ref\<close> rejects the path). The \<^verbatim>\<open>catch\<close> only logs.
\<close>

definition savePaymentToDatabase :: "env \<Rightarrow> payment_data \<Rightarrow> world \<Rightarrow> (js_error + unit) \<times> world" where
  "savePaymentToDatabase ctx paymentData w =
     (if \<not> database ctx then (Inr (), w)
      else
        case perform ctx (PaymentInsert (paymentRecord paymentData)) w of
          (False, w1) \<Rightarrow> (Inr (), w1)
        | (True, w1) \<Rightarrow>
            (let w2 = w1\<lparr>payments := payments w1 @ [paymentRecord paymentData]\<rparr> in
             case str_or_null (pd_consultationId paymentData) of
               None \<Rightarrow> (Inr (), w2)
             | Some c \<Rightarrow>
                 (let fields = [''paymentStatus'' \<mapsto> JStr ''paid'',
                                ''paymentId'' \<mapsto> JStr (pd_payment_id paymentData),
                                ''paidAt'' \<mapsto> JRtdbTimestamp,
                                ''updatedAt'' \<mapsto> JRtdbTimestamp]
                  in if \<not> rtdb_path_ok (''consultations/'' @ c) then (Inr (), w2)
                     else
                       case perform ctx (StoreUpdate Rtdb ''consultations'' c fields) w2 of
                         (False, w3) \<Rightarrow> (Inr (), w3)
                       | (True, w3) \<Rightarrow>
                           (Inr (), w3\<lparr>rtdb := upd_doc (''consultations'', c) fields (rtdb w3)\<rparr>))))"

text \<open>
  The list that \<^verbatim>\<open>sendPaymentNotifications\<close> of \<^verbatim>\<open>server.js\<close> collects itself. It
  is never passed on: the recipients are collected again by
  \<^verbatim>\<open>sendPaymentNotification\<close>.
\<close>

definition server_userIds :: "jsval \<Rightarrow> jsval list" where
  "server_userIds orderData =
     (if truthy (js_member orderData ''patientId'') then [js_member orderData ''patientId'']
      else if truthy (js_member orderData ''userId'') then [js_member orderData ''userId'']
      else if truthy (js_member orderData ''customerId'') then [js_member orderData ''customerId'']
      else [])
     @ provider_ids orderData"

text \<open>\<^verbatim>\<open>sendPaymentNotifications\<close> of \<^verbatim>\<open>server.js\<close>; its \<^verbatim>\<open>catch\<close> only logs.\<close>

definition sendPaymentNotifications ::
  "env \<Rightarrow> jsval \<Rightarrow> string \<Rightarrow> string \<Rightarrow> int option \<Rightarrow> jsval \<Rightarrow> world \<Rightarrow> (js_error + unit) \<times> world" where
  "sendPaymentNotifications ctx appConfig consultationId paymentStatus amount paymentId w =
     (case getOrderDetails ctx appConfig consultationId w of
        (orderData, w1) \<Rightarrow>
          if \<not> truthy orderData then (Inr (), w1)
          else
            (case sendPaymentNotification ctx appConfig consultationId paymentStatus amount
                    paymentId orderData w1 of
               (Inl e, w2) \<Rightarrow> (Inr (), w2)
             | (Inr u, w2) \<Rightarrow> (Inr u, w2)))"

text \<open>
  A field of a JSON body as it arrives: missing, \<^verbatim>\<open>null\<close>, a boolean, a whole
  number, a string, or any other value (a number with a fraction, an array, an object):
  such a value is truthy and not a string, and it is given by the text that a template
  literal makes of it (\<open>None\<close>: the conversion throws).
\<close>

datatype field = FMissing | FNull | FBool bool | FNum int | FStr string | FOther "string option"

fun truthy_field :: "field \<Rightarrow> bool" where
  "truthy_field FMissing = False"
| "truthy_field FNull = False"
| "truthy_field (FBool b) = b"
| "truthy_field (FNum n) = (n \<noteq> 0)"
| "truthy_field (FStr s) = (s \<noteq> [])"
| "truthy_field (FOther t) = True"

text \<open>\<^verbatim>\<open>`${v}`\<close>\<close>

fun field_text :: "field \<Rightarrow> string option" where
  "field_text FMissing = Some ''undefined''"
| "field_text FNull = Some ''null''"
| "field_text (FBool b) = Some (if b then ''true'' else ''false'')"
| "field_text (FNum n) = Some (decimal n)"
| "field_text (FStr s) = Some s"
| "field_text (FOther t) = t"

text \<open>
  The JSON body of \<^verbatim>\<open>POST /api/payment/verify\<close>. \<^verbatim>\<open>razorpay_payment_id\<close> is
  the value as it arrives, since the handler calls a string method on it. The other
  fields are at the types of the documented request: \<^verbatim>\<open>razorpay_order_id\<close>,
  \<^verbatim>\<open>razorpay_signature\<close> and \<^verbatim>\<open>consultationId\<close> are strings, \<^verbatim>\<open>amount\<close>
  is a whole number of paise, \<^verbatim>\<open>isTestMode\<close> is a boolean; \<open>None\<close> is a field that is
  missing (or \<^verbatim>\<open>null\<close>). \<open>req_notes\<close> is the field \<^verbatim>\<open>notes\<close>.
\<close>

record verify_body =
  razorpay_order_id :: "string option"
  razorpay_payment_id :: field
  razorpay_signature :: "string option"
  consultationId :: "string option"
  amount :: "int option"
  req_notes :: jsval
  isTestMode :: "bool option"

record response =
  status :: nat
  body :: object

text \<open>
  A promise that is started and not awaited, with \<^verbatim>\<open>.catch(err => console.error(...))\<close>
  attached: its outcome is dropped. The model runs it to completion at the place where
  the code starts it.
\<close>

definition detached :: "(js_error + unit) \<times> world \<Rightarrow> world" where
  "detached r = snd r"

text \<open>\<^verbatim>\<open>s.startsWith(p)\<close>\<close>

definition startsWith :: "string \<Rightarrow> string \<Rightarrow> bool" where
  "startsWith s p = (take (length p) s = p)"

text \<open>The signature check of the verify handler: the hex HMAC-SHA256 of
  \<^verbatim>\<open>`${razorpay_order_id}|${razorpay_payment_id}`\<close> under the key secret, compared with
  \<^verbatim>\<open>===\<close>.\<close>

definition generatedSignature :: "env \<Rightarrow> string \<Rightarrow> string \<Rightarrow> string" where
  "generatedSignature ctx order_id payment_id =
     hmac_sha256_hex ctx (RAZORPAY_KEY_SECRET ctx) (order_id @ ''|'' @ payment_id)"

definition isSignatureValid :: "env \<Rightarrow> string \<Rightarrow> string \<Rightarrow> string \<Rightarrow> bool" where
  "isSignatureValid ctx order_id payment_id signature =
     (generatedSignature ctx order_id payment_id = signature)"

text \<open>
  \<^verbatim>\<open>isTestPayment\<close>: the first operand is
  \<^verbatim>\<open>razorpay_payment_id.startsWith('pay_test_')\<close>, which throws a
  \<^verbatim>\<open>TypeError\<close> for a value that is not a string.
\<close>

definition isTestPayment :: "env \<Rightarrow> field \<Rightarrow> bool option \<Rightarrow> js_error + bool" where
  "isTestPayment ctx payment_id test_mode =
     (case payment_id of
        FStr p \<Rightarrow>
          Inr (startsWith p ''pay_test_'' \<or> startsWith (RAZORPAY_KEY_ID ctx) ''rzp_test_'' \<or>
               (case test_mode of Some t \<Rightarrow> t | None \<Rightarrow> False))
      | _ \<Rightarrow> Inl TypeError)"

text \<open>The test-mode gate of the failure branch; \<open>is_test\<close> is the value of
  \<^verbatim>\<open>isTestPayment\<close>.\<close>

definition shouldBookOnFailure :: "object \<Rightarrow> bool" where
  "shouldBookOnFailure appConfig =
     (js_member (js_member (JObj appConfig) ''testMode'') ''bookOnPaymentFailure'' \<noteq> JBool False)"

definition softFailGate :: "object \<Rightarrow> bool \<Rightarrow> verify_body \<Rightarrow> bool" where
  "softFailGate appConfig is_test b =
     ((is_test \<or>
       truthy (js_member (js_member (JObj appConfig) ''testMode'') ''autoDetect'')) \<and>
      str_or_null (consultationId b) \<noteq> None \<and>
      shouldBookOnFailure appConfig)"

text \<open>The responses of the handler; \<open>error_response\<close> is the 500 of its
  \<^verbatim>\<open>catch\<close>, with the message of the error caught.\<close>

definition missing_details :: response where
  "missing_details = \<lparr>status = 400, body =
     [''success'' \<mapsto> JBool False,
      ''error'' \<mapsto> JStr ''Missing required payment details: razorpay_order_id, razorpay_payment_id, and razorpay_signature are required'']\<rparr>"

definition verified_response :: "env \<Rightarrow> string \<Rightarrow> string \<Rightarrow> response" where
  "verified_response ctx order_id payment_id = \<lparr>status = 200, body =
     [''success'' \<mapsto> JBool True,
      ''message'' \<mapsto> JStr ''Payment verified successfully'',
      ''payment_id'' \<mapsto> JStr payment_id,
      ''order_id'' \<mapsto> JStr order_id,
      ''verified_at'' \<mapsto> JStr (now_iso ctx)]\<rparr>"

definition soft_fail_response :: "string \<Rightarrow> response" where
  "soft_fail_response payment_id = \<lparr>status = 200, body =
     [''success'' \<mapsto> JBool False,
      ''error'' \<mapsto> JStr ''Invalid payment signature (test mode)'',
      ''payment_id'' \<mapsto> JStr payment_id,
      ''consultation_booked'' \<mapsto> JBool True,
      ''message'' \<mapsto> JStr ''Payment verification failed, but consultation has been booked (test mode)'']\<rparr>"

definition hard_fail_response :: "string \<Rightarrow> response" where
  "hard_fail_response payment_id = \<lparr>status = 400, body =
     [''success'' \<mapsto> JBool False,
      ''error'' \<mapsto> JStr ''Invalid payment signature'',
      ''payment_id'' \<mapsto> JStr payment_id]\<rparr>"

definition error_response :: "string \<Rightarrow> response" where
  "error_response message = \<lparr>status = 500, body =
     [''success'' \<mapsto> JBool False,
      ''error'' \<mapsto> js_or (JStr message) (JStr ''Failed to verify payment'')]\<rparr>"

definition server_error :: response where
  "server_error = error_response []"

text \<open>The success branch: the payment record is saved in the background, the
  linked record is updated (awaited) and the notifications are started.\<close>

definition verify_success ::
  "env \<Rightarrow> object \<Rightarrow> verify_body \<Rightarrow> string \<Rightarrow> string \<Rightarrow> string \<Rightarrow> world \<Rightarrow> response \<times> world" where
  "verify_success ctx appConfig b order_id payment_id signature w =
     (let paymentData = \<lparr>pd_payment_id = payment_id, pd_order_id = order_id,
                           pd_signature = signature, pd_amount = num_or_null (amount b),
                           pd_consultationId = str_or_null (consultationId b),
                           pd_notes = js_or (req_notes b) (JObj Map.empty)\<rparr>;
          w1 = detached (savePaymentToDatabase ctx paymentData w)
      in case str_or_null (consultationId b) of
           None \<Rightarrow> (verified_response ctx order_id payment_id, w1)
         | Some c \<Rightarrow>
             (case updateOrderPaymentStatus ctx (JObj appConfig) c ''paid'' (Some payment_id) w1 of
                (Inl e, w2) \<Rightarrow> (server_error, w2)
              | (Inr u, w2) \<Rightarrow>
                  (verified_response ctx order_id payment_id,
                   detached (sendPaymentNotifications ctx (JObj appConfig) c ''paid'' (amount b)
                               (JStr payment_id) w2))))"

text \<open>The failure branch: the test-mode soft fail, or the plain 400.\<close>

definition verify_failure ::
  "env \<Rightarrow> object \<Rightarrow> verify_body \<Rightarrow> string \<Rightarrow> bool \<Rightarrow> world \<Rightarrow> response \<times> world" where
  "verify_failure ctx appConfig b payment_id is_test w =
     (case str_or_null (consultationId b) of
        Some c \<Rightarrow>
          if softFailGate appConfig is_test b then
            (case updateOrderPaymentStatus ctx (JObj appConfig) c ''pending'' None w of
               (Inl e, w1) \<Rightarrow> (server_error, w1)
             | (Inr u, w1) \<Rightarrow>
                 (soft_fail_response payment_id,
                  detached (sendPaymentNotifications ctx (JObj appConfig) c ''failed'' (amount b)
                              (JStr payment_id) w1)))
          else (hard_fail_response payment_id, w)
      | None \<Rightarrow> (hard_fail_response payment_id, w))"

text \<open>
  \<^verbatim>\<open>app.post('/api/payment/verify', ...)\<close>, with \<^verbatim>\<open>req.appConfig\<close> as its second
  argument. After the check for missing fields the handler builds the text to sign,
  computes \<^verbatim>\<open>isSignatureValid\<close> and \<^verbatim>\<open>isTestPayment\<close>, and only then branches
  on the signature; what is thrown on the way is answered by the \<^verbatim>\<open>catch\<close>.
\<close>

definition verify :: "env \<Rightarrow> object \<Rightarrow> verify_body \<Rightarrow> world \<Rightarrow> response \<times> world" where
  "verify ctx appConfig b w =
     (case (str_or_null (razorpay_order_id b), truthy_field (razorpay_payment_id b),
            str_or_null (razorpay_signature b)) of
        (Some order_id, True, Some signature) \<Rightarrow>
          (case field_text (razorpay_payment_id b) of
             None \<Rightarrow> (error_response ''Cannot convert object to primitive value'', w)
           | Some payment_id \<Rightarrow>
               (case isTestPayment ctx (razorpay_payment_id b) (isTestMode b) of
                  Inl e \<Rightarrow>
                    (error_response ''razorpay_payment_id.startsWith is not a function'', w)
                | Inr is_test \<Rightarrow>
                    if isSignatureValid ctx order_id payment_id signature
                    then verify_success ctx appConfig b order_id payment_id signature w
                    else verify_failure ctx appConfig b payment_id is_test w))
      | _ \<Rightarrow> (missing_details, w))"

text \<open>
  The \<^verbatim>\<open>payment.failed\<close> case of the webhook handler, for comparison with the failure
  branch of the verify handler. It is reached only after the webhook's own signature was
  found valid. \<open>fp_consultationId\<close> is
  \<^verbatim>\<open>notes?.consultationId || notes?.consultation_id\<close>, and the configuration is the
  merged one of the tenant named in the notes.
\<close>

record failed_payment =
  fp_id :: string
  fp_order_id :: string
  fp_amount :: int
  fp_error_code :: jsval
  fp_error_description :: jsval
  fp_consultationId :: "string option"

definition failedPaymentRecord :: "failed_payment \<Rightarrow> object" where
  "failedPaymentRecord failedPayment =
     [''razorpayPaymentId'' \<mapsto> JStr (fp_id failedPayment),
      ''razorpayOrderId'' \<mapsto> JStr (fp_order_id failedPayment),
      ''amount'' \<mapsto> JNum (fp_amount failedPayment),
      ''amountInRupees'' \<mapsto> JHundredths (fp_amount failedPayment),
      ''status'' \<mapsto> JStr ''failed'',
      ''errorCode'' \<mapsto> fp_error_code failedPayment,
      ''errorDescription'' \<mapsto> fp_error_description failedPayment,
      ''consultationId'' \<mapsto> (case str_or_null (fp_consultationId failedPayment) of
                                  Some c \<Rightarrow> JStr c | None \<Rightarrow> JUndefined),
      ''createdAt'' \<mapsto> JRtdbTimestamp]"

definition webhook_isTestMode :: "env \<Rightarrow> object \<Rightarrow> failed_payment \<Rightarrow> bool" where
  "webhook_isTestMode ctx appConfig failedPayment =
     (startsWith (fp_id failedPayment) ''pay_test_'' \<or>
      startsWith (RAZORPAY_KEY_ID ctx) ''rzp_test_'' \<or>
      truthy (js_member (js_member (JObj appConfig) ''testMode'') ''autoDetect''))"

definition webhook_payment_failed :: "env \<Rightarrow> object \<Rightarrow> failed_payment \<Rightarrow> world \<Rightarrow> world" where
  "webhook_payment_failed ctx appConfig failedPayment w =
     (let w1 = (if database ctx then
                  (case perform ctx (PaymentInsert (failedPaymentRecord failedPayment)) w of
                     (True, w') \<Rightarrow> w'\<lparr>payments := payments w' @ [failedPaymentRecord failedPayment]\<rparr>
                   | (False, w') \<Rightarrow> w')
                else w)
      in case str_or_null (fp_consultationId failedPayment) of
           None \<Rightarrow> w1
         | Some c \<Rightarrow>
             detached (sendPaymentNotifications ctx (JObj appConfig) c ''failed''
                         (Some (fp_amount failedPayment)) (JStr (fp_id failedPayment))
                         (snd (updateOrderPaymentStatus ctx (JObj appConfig) c
                                 (if webhook_isTestMode ctx appConfig failedPayment \<and>
                                     shouldBookOnFailure appConfig
                                  then ''pending'' else ''failed'')
                                 None w1))))"

section \<open>Notions used in the statements\<close>

text \<open>\<open>logged w w'\<close>: \<open>w'\<close> is \<open>w\<close> with more calls in the log and nothing else
  changed: no document, no payment record.\<close>

definition logged :: "world \<Rightarrow> world \<Rightarrow> bool" where
  "logged w w' = (\<exists>l. w' = w\<lparr>calls := calls w @ l\<rparr>)"

text \<open>\<open>touched f st st'\<close>: every document of \<open>st'\<close> is the document of \<open>st\<close>, either
  as it was or with the fields \<open>f\<close> merged into it; no document is created or removed.
  \<open>wrote_only f w w'\<close>: this is all that happened to the two stores, and no
  payment record was added.\<close>

definition touched :: "object \<Rightarrow> store \<Rightarrow> store \<Rightarrow> bool" where
  "touched f st st' =
     (\<forall>k. map_of st' k = map_of st k \<or>
          (\<exists>d. map_of st k = Some d \<and> map_of st' k = Some (d ++ f)))"

definition wrote_only :: "object \<Rightarrow> world \<Rightarrow> world \<Rightarrow> bool" where
  "wrote_only f w w' =
     (payments w' = payments w \<and> remote w' = remote w \<and>
      touched f (firestore w) (firestore w') \<and> touched f (rtdb w) (rtdb w'))"

text \<open>
  The data that a call hands over to be written: the fields of an update, the body of a
  PATCH to the tenant's endpoint, a payment record; \<open>None\<close> for a read, a query or a
  notification. \<open>read_only w w'\<close>: \<open>w'\<close> is \<open>w\<close> with more calls in the log, none of
  which writes. \<open>sent_only f w w'\<close>: the calls made from \<open>w\<close> to \<open>w'\<close> write nothing
  but \<open>f\<close>. \<open>call_backend\<close> is the record store that a call goes to.
\<close>

definition call_data :: "call \<Rightarrow> object option" where
  "call_data c =
     (case c of
        StoreUpdate b n i f \<Rightarrow> Some f
      | HttpPatch e i f \<Rightarrow> Some f
      | PaymentInsert r \<Rightarrow> Some r
      | _ \<Rightarrow> None)"

definition read_only :: "world \<Rightarrow> world \<Rightarrow> bool" where
  "read_only w w' = (\<exists>l. w' = w\<lparr>calls := calls w @ l\<rparr> \<and> (\<forall>x \<in> set l. call_data x = None))"

definition sent_only :: "object \<Rightarrow> world \<Rightarrow> world \<Rightarrow> bool" where
  "sent_only f w w' =
     (\<exists>l. calls w' = calls w @ l \<and> (\<forall>x \<in> set l. call_data x = None \<or> call_data x = Some f))"

definition call_backend :: "call \<Rightarrow> backend option" where
  "call_backend c =
     (case c of
        StoreGet b n i \<Rightarrow> Some b
      | StoreUpdate b n i f \<Rightarrow> Some b
      | AdminQuery b n \<Rightarrow> Some b
      | _ \<Rightarrow> None)"

text \<open>The order-update settings of a merged configuration, and the values under which
  it names the consultations and the orders.\<close>

definition orderUpdate_of :: "object \<Rightarrow> jsval" where
  "orderUpdate_of appConfig = js_or (js_member (JObj appConfig) ''orderUpdate'') (JObj Map.empty)"

definition consultations_of :: "object \<Rightarrow> jsval" where
  "consultations_of appConfig =
     js_or (js_member (js_or (js_member (orderUpdate_of appConfig) ''collections'')
                         (JObj Map.empty)) ''consultations'') (JStr ''consultations'')"

definition orders_of :: "object \<Rightarrow> jsval" where
  "orders_of appConfig =
     js_or (js_member (js_or (js_member (orderUpdate_of appConfig) ''collections'')
                         (JObj Map.empty)) ''orders'') (JStr ''orders'')"

text \<open>
  Where a backend finds the linked record \<open>i\<close> of a tenant: in the consultations
  collection, or else in the orders collection, if the backend can address them.
\<close>

definition holds :: "store \<Rightarrow> string option \<Rightarrow> string \<Rightarrow> bool" where
  "holds st n i = (case n of Some c \<Rightarrow> map_of st (c, i) \<noteq> None | None \<Rightarrow> False)"

definition found_in :: "backend \<Rightarrow> object \<Rightarrow> string \<Rightarrow> store \<Rightarrow> string option" where
  "found_in b appConfig i st =
     (if holds st (collection_ref b (consultations_of appConfig) i) i
        then collection_ref b (consultations_of appConfig) i
      else if collection_ref b (consultations_of appConfig) i \<noteq> None \<and>
              holds st (collection_ref b (orders_of appConfig) i) i
        then collection_ref b (orders_of appConfig) i
      else None)"

text \<open>The fields that book a consultation whose payment failed in test mode.\<close>

definition pending_fields :: object where
  "pending_fields = [''paymentStatus'' \<mapsto> JStr ''pending'', ''updatedAt'' \<mapsto> JFsServerTimestamp]"

text \<open>The id and the names under which a backend keeps the tenant's records are single
  path segments.\<close>

definition segment :: "string option \<Rightarrow> bool" where
  "segment n = (case n of Some s \<Rightarrow> CHR ''/'' \<notin> set s | None \<Rightarrow> True)"

definition flat_paths :: "object \<Rightarrow> string \<Rightarrow> bool" where
  "flat_paths appConfig i =
     (segment (Some i) \<and>
      segment (collection_ref Firestore (consultations_of appConfig) i) \<and>
      segment (collection_ref Firestore (orders_of appConfig) i) \<and>
      segment (collection_ref Rtdb (consultations_of appConfig) i) \<and>
      segment (collection_ref Rtdb (orders_of appConfig) i))"

text \<open>The recipient list of a call to a notification provider, and the name under which a
  configuration keeps users, if it is a string.\<close>

definition call_recipients :: "call \<Rightarrow> jsval list option" where
  "call_recipients c =
     (case c of
        OneSignalPost appId key ids ok doctor note data \<Rightarrow> Some ids
      | CustomPost endpoint ids ok data \<Rightarrow> Some ids
      | _ \<Rightarrow> None)"

definition users_of :: "jsval \<Rightarrow> string option" where
  "users_of config =
     (case js_or (js_member (js_or (js_member (js_or (js_member config ''orderUpdate'')
                                                 (JObj Map.empty)) ''collections'')
                              (JObj Map.empty)) ''users'') (JStr ''users'') of
        JStr u \<Rightarrow> Some u
      | _ \<Rightarrow> None)"

section \<open>Concrete inputs\<close>

text \<open>
  The inputs at which the theorems are instantiated. The digest function is the one of
  Node. In \<open>test_env\<close> the key id is a Razorpay test key and no call fails.
\<close>

definition test_env :: env where
  "test_env = \<lparr>RAZORPAY_KEY_ID = ''rzp_test_key'', RAZORPAY_KEY_SECRET = ''secret'',
     ONESIGNAL_APP_ID = None, ONESIGNAL_REST_API_KEY = Some ''rest-key'',
     database = True, now_iso = ''2025-01-01T00:00:00.000Z'',
     hmac_sha256_hex = node_hmac_sha256_hex, fails = (\<lambda>l c. False)\<rparr>"

text \<open>A live key id; an environment in which Firestore is down.\<close>

definition live_env :: env where
  "live_env = test_env\<lparr>RAZORPAY_KEY_ID := ''rzp_live_key''\<rparr>"

definition firestore_down_env :: env where
  "firestore_down_env = test_env\<lparr>fails := (\<lambda>l c. call_backend c = Some Firestore)\<rparr>"

text \<open>
  What the middleware attaches to a request as \<^verbatim>\<open>req.appConfig\<close>: the merged
  configuration of the default tenant, of a tenant that overrides
  \<^verbatim>\<open>testMode: {bookOnPaymentFailure: false}\<close>, of a tenant that overrides
  \<^verbatim>\<open>orderUpdate: {enabled: false}\<close>, and of a tenant that has its own endpoint:
  \<^verbatim>\<open>orderUpdate: {useFirebase: false, endpoint: 'https://tenant.example/orders'}\<close>.
\<close>

definition default_config :: object where
  "default_config = merged apps_default apps_default"

definition no_booking_config :: object where
  "no_booking_config = merged apps_default
     (JObj [''testMode'' \<mapsto> JObj [''bookOnPaymentFailure'' \<mapsto> JBool False]])"

definition no_update_config :: object where
  "no_update_config = merged apps_default
     (JObj [''orderUpdate'' \<mapsto> JObj [''enabled'' \<mapsto> JBool False]])"

definition endpoint_config :: object where
  "endpoint_config = merged apps_default
     (JObj [''orderUpdate'' \<mapsto> JObj [''useFirebase'' \<mapsto> JBool False,
                                       ''endpoint'' \<mapsto> JStr ''https://tenant.example/orders'']])"

text \<open>A consultation \<^verbatim>\<open>c1\<close> in Firestore, not yet paid, and one administrator.\<close>

definition consultation_c1 :: object where
  "consultation_c1 = [''paymentStatus'' \<mapsto> JStr ''unpaid'', ''patientId'' \<mapsto> JStr ''u1'',
                      ''doctorId'' \<mapsto> JStr ''u2'']"

text \<open>A consultation whose doctor is also an administrator, and a record that names
  nobody, in a store without users.\<close>

definition consultation_by_admin :: object where
  "consultation_by_admin = [''patientId'' \<mapsto> JStr ''u1'', ''doctorId'' \<mapsto> JStr ''a1'']"

definition world_c1 :: world where
  "world_c1 = \<lparr>firestore = [((''consultations'', ''c1''), consultation_c1),
                              ((''users'', ''a1''), [''role'' \<mapsto> JStr ''admin''])],
               rtdb = [], payments = [], remote = (\<lambda>e i. None), calls = []\<rparr>"

definition empty_world :: world where
  "empty_world = \<lparr>firestore = [], rtdb = [], payments = [], remote = (\<lambda>e i. None), calls = []\<rparr>"

text \<open>The same record kept as an order of the Realtime Database.\<close>

definition world_o1 :: world where
  "world_o1 = \<lparr>firestore = [], rtdb = [((''orders'', ''c1''), consultation_c1)],
               payments = [], remote = (\<lambda>e i. None), calls = []\<rparr>"

text \<open>Requests for order \<^verbatim>\<open>order_1\<close> and payment \<^verbatim>\<open>pay_1\<close>: with the right
  signature, with a wrong one, with a wrong one and no consultation, and without a
  signature; and a request whose payment id is the number 12345, signed for the text
  that the handler builds from it.\<close>

definition good_request :: verify_body where
  "good_request = \<lparr>razorpay_order_id = Some ''order_1'', razorpay_payment_id = FStr ''pay_1'',
     razorpay_signature = Some (node_hmac_sha256_hex ''secret'' ''order_1|pay_1''),
     consultationId = Some ''c1'', amount = Some 50000, req_notes = JUndefined,
     isTestMode = None\<rparr>"

definition bad_request :: verify_body where
  "bad_request = good_request\<lparr>razorpay_signature := Some ''0000''\<rparr>"


definition unsigned_request :: verify_body where
  "unsigned_request = good_request\<lparr>razorpay_signature := Some []\<rparr>"

definition numeric_id_request :: verify_body where
  "numeric_id_request = good_request\<lparr>razorpay_payment_id := FNum 12345,
     razorpay_signature := Some (node_hmac_sha256_hex ''secret'' ''order_1|12345'')\<rparr>"

section \<open>Frame properties of the side effects\<close>

lemma read_only_refl: "read_only w w"
  unfolding read_only_def by (rule exI [of _ "[]"]) simp

lemma read_only_trans: "read_only w w1 \<Longrightarrow> read_only w1 w2 \<Longrightarrow> read_only w w2"
  unfolding read_only_def by (elim exE conjE, rule_tac x = "l @ la" in exI) auto

lemma read_only_logged: "read_only w w' \<Longrightarrow> logged w w'"
  unfolding read_only_def logged_def by auto

lemma logged_refl: "logged w w"
  unfolding logged_def by (rule exI [of _ "[]"]) simp

lemma logged_trans: "logged w w1 \<Longrightarrow> logged w1 w2 \<Longrightarrow> logged w w2"
  unfolding logged_def by (elim exE, rule_tac x = "l @ la" in exI) simp

lemma logged_fields:
  "logged w w' \<Longrightarrow>
   firestore w' = firestore w \<and> rtdb w' = rtdb w \<and> payments w' = payments w \<and>
   remote w' = remote w"
  unfolding logged_def by auto

lemma perform_logged: "perform ctx c w = (ok, w') \<Longrightarrow> logged w w'"
  unfolding perform_def logged_def by auto

lemma perform_read_only:
  "perform ctx c w = (ok, w') \<Longrightarrow> call_data c = None \<Longrightarrow> read_only w w'"
  unfolding perform_def read_only_def by (intro exI [of _ "[c]"]) auto

lemma store_get_read_only: "store_get ctx b c i w = (r, w') \<Longrightarrow> read_only w w'"
  unfolding store_get_def
  by (auto split: prod.splits dest!: perform_read_only simp: call_data_def)

lemma store_get_logged: "store_get ctx b c i w = (r, w') \<Longrightarrow> logged w w'"
  by (rule read_only_logged) (rule store_get_read_only)

lemma fetch_first_found_read_only:
  "fetch_first_found ctx b cc oc i w = (r, w') \<Longrightarrow> read_only w w'"
  unfolding fetch_first_found_def
  by (auto split: prod.splits sum.splits option.splits
           dest!: store_get_read_only intro: read_only_trans read_only_refl)

lemma try_fetch_read_only:
  "try_fetch (fetch_first_found ctx b cc oc i w) = (r, w') \<Longrightarrow> read_only w w'"
  unfolding try_fetch_def
  by (auto split: prod.splits sum.splits dest: fetch_first_found_read_only)

lemma getOrderDetails_read_only: "getOrderDetails ctx cfg i w = (r, w') \<Longrightarrow> read_only w w'"
  unfolding getOrderDetails_def Let_def
  by (auto split: if_splits prod.splits option.splits
           dest!: try_fetch_read_only perform_read_only simp: call_data_def
           intro: read_only_trans read_only_refl)

lemma admin_ids_read_only: "admin_ids ctx cfg w = (r, w') \<Longrightarrow> read_only w w'"
  unfolding admin_ids_def Let_def
  by (auto split: prod.splits bool.splits jsval.splits if_splits
           dest!: perform_read_only simp: call_data_def
           intro: read_only_trans read_only_refl)

lemma recipients_read_only: "recipients ctx cfg cd w = (r, w') \<Longrightarrow> read_only w w'"
  unfolding recipients_def by (auto split: prod.splits dest: admin_ids_read_only)

lemma sendOneSignalNotification_read_only:
  "sendOneSignalNotification ctx oc ids ok doctor note data w = (r, w') \<Longrightarrow> read_only w w'"
  unfolding sendOneSignalNotification_def Let_def
  by (auto split: if_splits prod.splits dest!: perform_read_only simp: call_data_def
           intro: read_only_refl)

lemma sendPaymentNotification_body_read_only:
  "sendPaymentNotification_body ctx cfg i ps amt pid cd w = (r, w') \<Longrightarrow> read_only w w'"
  unfolding sendPaymentNotification_body_def Let_def
  by (auto split: if_splits prod.splits
           dest!: recipients_read_only sendOneSignalNotification_read_only perform_read_only
           simp: call_data_def
           intro: read_only_trans read_only_refl)

lemma sendPaymentNotification_read_only:
  "sendPaymentNotification ctx cfg i ps amt pid cd w = (r, w') \<Longrightarrow> read_only w w'"
  unfolding sendPaymentNotification_def
  by (auto split: prod.splits sum.splits dest: sendPaymentNotification_body_read_only)

lemma sendPaymentNotifications_read_only:
  "sendPaymentNotifications ctx cfg i ps amt pid w = (r, w') \<Longrightarrow> read_only w w'"
  unfolding sendPaymentNotifications_def
  by (auto split: if_splits prod.splits sum.splits
           dest!: getOrderDetails_read_only sendPaymentNotification_read_only
           intro: read_only_trans)

lemma detached_notifications_read_only:
  "read_only w (detached (sendPaymentNotifications ctx cfg i ps amt pid w))"
  unfolding detached_def
  by (cases "sendPaymentNotifications ctx cfg i ps amt pid w")
     (simp add: sendPaymentNotifications_read_only)

lemma detached_notifications_logged:
  "logged w (detached (sendPaymentNotifications ctx cfg i ps amt pid w))"
  by (rule read_only_logged) (rule detached_notifications_read_only)

lemma sent_only_refl: "sent_only f w w"
  unfolding sent_only_def by (rule exI [of _ "[]"]) simp

lemma sent_only_trans: "sent_only f w w1 \<Longrightarrow> sent_only f w1 w2 \<Longrightarrow> sent_only f w w2"
  unfolding sent_only_def by (elim exE conjE, rule_tac x = "l @ la" in exI) auto

lemma read_only_sent_only: "read_only w w' \<Longrightarrow> sent_only f w w'"
  unfolding read_only_def sent_only_def by auto

lemma perform_sent_only:
  "perform ctx c w = (ok, w') \<Longrightarrow> call_data c = Some f \<Longrightarrow> sent_only f w w'"
  unfolding perform_def sent_only_def by (intro exI [of _ "[c]"]) auto

lemma store_update_sent_only: "store_update ctx b c i f w = (r, w') \<Longrightarrow> sent_only f w w'"
proof -
  assume a: "store_update ctx b c i f w = (r, w')"
  obtain ok w1 where p: "perform ctx (StoreUpdate b c i f) w = (ok, w1)"
    by (cases "perform ctx (StoreUpdate b c i f) w")
  have "calls w' = calls w1"
    using a p by (cases b) (auto simp: store_update_def put_store_def split: if_splits)
  moreover have "sent_only f w w1"
    using p by (rule perform_sent_only) (simp add: call_data_def)
  ultimately show ?thesis by (simp add: sent_only_def)
qed

lemma update_in_sent_only: "update_in ctx b c i f w = (r, w') \<Longrightarrow> sent_only f w w'"
  unfolding update_in_def
  by (auto split: prod.splits sum.splits option.splits
           dest!: store_get_read_only store_update_sent_only
           intro: sent_only_trans read_only_sent_only)

lemma update_first_found_sent_only:
  "update_first_found ctx b cc oc i f w = (r, w') \<Longrightarrow> sent_only f w w'"
  unfolding update_first_found_def
  by (auto split: prod.splits sum.splits option.splits bool.splits
           dest!: update_in_sent_only intro: sent_only_trans sent_only_refl)

lemma try_update_sent_only:
  "try_block (update_first_found ctx b cc oc i f w) = (r, w') \<Longrightarrow> sent_only f w w'"
  unfolding try_block_def
  by (auto split: prod.splits sum.splits dest: update_first_found_sent_only)

lemma updateOrderPaymentStatus_body_sent_only:
  "updateOrderPaymentStatus_body ctx cfg i ps pid w = (r, w') \<Longrightarrow>
   sent_only (updateData ps pid) w w'"
  unfolding updateOrderPaymentStatus_body_def Let_def
  by (auto split: if_splits prod.splits bool.splits
           dest!: try_update_sent_only perform_sent_only simp: call_data_def
           intro: sent_only_refl sent_only_trans)

lemma updateOrderPaymentStatus_sent_only:
  "updateOrderPaymentStatus ctx cfg i ps pid w = (r, w') \<Longrightarrow>
   sent_only (updateData ps pid) w w'"
  unfolding updateOrderPaymentStatus_def
  by (auto split: prod.splits sum.splits dest: updateOrderPaymentStatus_body_sent_only)

lemma map_of_upd_doc:
  "map_of (upd_doc k f st) k' =
   (if k' = k then Some (case map_of st k of Some d \<Rightarrow> d ++ f | None \<Rightarrow> f) else map_of st k')"
  by (induction st) auto

lemma touched_refl: "touched f st st"
  by (simp add: touched_def)

lemma map_add_twice: "d ++ f ++ f = d ++ f"
  by (rule ext) (simp add: map_add_def split: option.splits)

lemma touched_trans: "touched f st st1 \<Longrightarrow> touched f st1 st2 \<Longrightarrow> touched f st st2"
  unfolding touched_def
proof (intro allI)
  fix k
  assume a: "\<forall>k. map_of st1 k = map_of st k \<or> (\<exists>d. map_of st k = Some d \<and> map_of st1 k = Some (d ++ f))"
    and b: "\<forall>k. map_of st2 k = map_of st1 k \<or> (\<exists>d. map_of st1 k = Some d \<and> map_of st2 k = Some (d ++ f))"
  from a [rule_format, of k] b [rule_format, of k]
  show "map_of st2 k = map_of st k \<or> (\<exists>d. map_of st k = Some d \<and> map_of st2 k = Some (d ++ f))"
    by (elim disjE exE conjE) (auto simp: map_add_twice)
qed

lemma touched_upd_doc: "map_of st k = Some d \<Longrightarrow> touched f st (upd_doc k f st)"
  by (simp add: touched_def map_of_upd_doc)

lemma wrote_only_refl: "wrote_only f w w"
  by (simp add: wrote_only_def touched_refl)

lemma wrote_only_trans: "wrote_only f w w1 \<Longrightarrow> wrote_only f w1 w2 \<Longrightarrow> wrote_only f w w2"
  unfolding wrote_only_def by (auto intro: touched_trans)

lemma logged_wrote_only: "logged w w' \<Longrightarrow> wrote_only f w w'"
  by (auto simp: wrote_only_def touched_refl dest: logged_fields)

lemma store_update_wrote_only:
  assumes "store_update ctx b c i f w = (r, w')" "map_of (store_of b w) (c, i) \<noteq> None"
  shows "wrote_only f w w'"
proof -
  obtain ok w1 where p: "perform ctx (StoreUpdate b c i f) w = (ok, w1)"
    by (cases "perform ctx (StoreUpdate b c i f) w")
  have l: "logged w w1" using p by (rule perform_logged)
  note lf = logged_fields [OF l]
  have s1: "store_of b w1 = store_of b w"
    using lf by (simp add: store_of_def split: backend.splits)
  from assms(2) obtain d where d: "map_of (store_of b w) (c, i) = Some d" by auto
  show ?thesis
  proof (cases "w' = w1")
    case True
    then show ?thesis using l by (simp add: logged_wrote_only)
  next
    case False
    with assms(1) p have w': "w' = put_store b (upd_doc (c, i) f (store_of b w)) w1"
      by (auto simp: store_update_def s1 split: if_splits)
    show ?thesis
      using lf touched_upd_doc [OF d, of f]
      by (cases b) (simp_all add: w' wrote_only_def put_store_def store_of_def touched_refl)
  qed
qed

lemma store_get_found:
  "store_get ctx b c i w = (Inr x, w1) \<Longrightarrow> x = map_of (store_of b w1) (c, i)"
  unfolding store_get_def by (auto split: prod.splits if_splits)

lemma guarded_update:
  assumes "store_get ctx b c i w = (Inr (Some d), w1)" "store_update ctx b c i f w1 = (r, w2)"
  shows "wrote_only f w w2"
proof -
  have "map_of (store_of b w1) (c, i) \<noteq> None"
    using store_get_found [OF assms(1)] by (metis option.distinct(1))
  then have "wrote_only f w1 w2"
    using assms(2) by (intro store_update_wrote_only)
  moreover have "wrote_only f w w1"
    using assms(1) by (intro logged_wrote_only store_get_logged)
  ultimately show ?thesis by (rule wrote_only_trans [rotated])
qed

lemma update_in_wrote_only:
  assumes "update_in ctx b c i f w = (r, w')"
  shows "wrote_only f w w'"
proof -
  obtain r1 w1 where g1: "store_get ctx b c i w = (r1, w1)"
    by (cases "store_get ctx b c i w")
  have l1: "wrote_only f w w1"
    using g1 by (intro logged_wrote_only store_get_logged)
  show ?thesis
  proof (cases r1)
    case (Inl e)
    with assms g1 have "w' = w1" by (simp add: update_in_def)
    with l1 show ?thesis by simp
  next
    case (Inr x)
    show ?thesis
    proof (cases x)
      case (Some d)
      obtain ru w2 where u: "store_update ctx b c i f w1 = (ru, w2)"
        by (cases "store_update ctx b c i f w1")
      with assms g1 Inr Some have "w' = w2"
        by (simp add: update_in_def split: sum.splits)
      with guarded_update [OF g1 [unfolded Inr Some] u] show ?thesis by simp
    next
      case None
      with assms g1 Inr have "w' = w1" by (simp add: update_in_def)
      with l1 show ?thesis by simp
    qed
  qed
qed

lemma update_first_found_wrote_only:
  "update_first_found ctx b cc oc i f w = (r, w') \<Longrightarrow> wrote_only f w w'"
  unfolding update_first_found_def
  by (auto split: prod.splits sum.splits option.splits bool.splits
           dest!: update_in_wrote_only intro: wrote_only_trans wrote_only_refl)

lemma try_update_wrote_only:
  "try_block (update_first_found ctx b cc oc i f w) = (r, w') \<Longrightarrow> wrote_only f w w'"
  unfolding try_block_def
  by (auto split: prod.splits sum.splits dest: update_first_found_wrote_only)

lemma updateOrderPaymentStatus_body_wrote_only:
  "updateOrderPaymentStatus_body ctx cfg i ps pid w = (r, w') \<Longrightarrow>
   wrote_only (updateData ps pid) w w'"
  unfolding updateOrderPaymentStatus_body_def Let_def
  by (auto split: if_splits prod.splits bool.splits
           dest!: try_update_wrote_only perform_logged
           intro: wrote_only_refl wrote_only_trans logged_wrote_only)

lemma updateOrderPaymentStatus_wrote_only:
  "updateOrderPaymentStatus ctx cfg i ps pid w = (r, w') \<Longrightarrow>
   wrote_only (updateData ps pid) w w'"
  unfolding updateOrderPaymentStatus_def
  by (auto split: prod.splits sum.splits dest: updateOrderPaymentStatus_body_wrote_only)

lemma updateOrderPaymentStatus_returns:
  "fst (updateOrderPaymentStatus ctx cfg i ps pid w) = Inr ()"
  by (simp add: updateOrderPaymentStatus_def split: prod.splits sum.splits)

lemma updateOrderPaymentStatus_result:
  "updateOrderPaymentStatus ctx cfg i ps pid w =
   (Inr (), snd (updateOrderPaymentStatus ctx cfg i ps pid w))"
  by (simp add: prod_eq_iff updateOrderPaymentStatus_returns)

section \<open>The branches of the verify handler\<close>

lemma verify_present:
  assumes "str_or_null (razorpay_order_id b) = Some order_id"
    "razorpay_payment_id b = FStr payment_id" "payment_id \<noteq> []"
    "str_or_null (razorpay_signature b) = Some signature"
  shows "verify ctx appConfig b w =
     (if isSignatureValid ctx order_id payment_id signature
      then verify_success ctx appConfig b order_id payment_id signature w
      else verify_failure ctx appConfig b payment_id
             (startsWith payment_id ''pay_test_'' \<or>
              startsWith (RAZORPAY_KEY_ID ctx) ''rzp_test_'' \<or> isTestMode b = Some True) w)"
proof -
  have "(case isTestMode b of Some t \<Rightarrow> t | None \<Rightarrow> False) = (isTestMode b = Some True)"
    by (cases "isTestMode b") auto
  then show ?thesis
    by (simp add: verify_def assms isTestPayment_def)
qed

lemma verify_success_response:
  "fst (verify_success ctx appConfig b order_id payment_id signature w) =
   verified_response ctx order_id payment_id"
proof (cases "str_or_null (consultationId b)")
  case None
  then show ?thesis by (simp add: verify_success_def Let_def)
next
  case (Some c)
  then show ?thesis
    unfolding verify_success_def Let_def
    by (subst updateOrderPaymentStatus_result) simp
qed

lemma verify_missing:
  assumes "str_or_null (razorpay_order_id b) = None \<or>
           \<not> truthy_field (razorpay_payment_id b) \<or>
           str_or_null (razorpay_signature b) = None"
  shows "verify ctx appConfig b w = (missing_details, w)"
  using assms by (auto simp add: verify_def split: option.splits bool.splits)


lemma verify_failure_gate_closed:
  assumes "\<not> softFailGate appConfig t b"
  shows "verify_failure ctx appConfig b payment_id t w = (hard_fail_response payment_id, w)"
  using assms by (simp add: verify_failure_def split: option.splits)

lemma verify_failure_soft:
  assumes "softFailGate appConfig t b" "str_or_null (consultationId b) = Some c"
  shows "verify_failure ctx appConfig b payment_id t w =
     (soft_fail_response payment_id,
      detached (sendPaymentNotifications ctx (JObj appConfig) c ''failed'' (amount b)
                  (JStr payment_id)
                  (snd (updateOrderPaymentStatus ctx (JObj appConfig) c ''pending'' None w))))"
  using assms unfolding verify_failure_def
  by (subst updateOrderPaymentStatus_result) simp

lemma verify_failure_soft_wrote_only:
  assumes "softFailGate appConfig t b" "str_or_null (consultationId b) = Some c"
  shows "wrote_only (updateData ''pending'' None) w (snd (verify_failure ctx appConfig b payment_id t w))"
proof -
  let ?w1 = "snd (updateOrderPaymentStatus ctx (JObj appConfig) c ''pending'' None w)"
  have "wrote_only (updateData ''pending'' None) w ?w1"
    by (rule updateOrderPaymentStatus_wrote_only [of ctx _ c _ _ w "Inr ()"])
       (rule updateOrderPaymentStatus_result)
  moreover have "wrote_only (updateData ''pending'' None) ?w1
      (detached (sendPaymentNotifications ctx (JObj appConfig) c ''failed'' (amount b)
         (JStr payment_id) ?w1))"
    by (intro logged_wrote_only detached_notifications_logged)
  ultimately show ?thesis
    unfolding verify_failure_soft [OF assms] snd_conv by (rule wrote_only_trans)
qed

lemma verify_failure_soft_sent_only:
  assumes "softFailGate appConfig t b" "str_or_null (consultationId b) = Some c"
  shows "sent_only (updateData ''pending'' None) w (snd (verify_failure ctx appConfig b payment_id t w))"
proof -
  let ?w1 = "snd (updateOrderPaymentStatus ctx (JObj appConfig) c ''pending'' None w)"
  have "sent_only (updateData ''pending'' None) w ?w1"
    by (rule updateOrderPaymentStatus_sent_only [of ctx _ c _ _ w "Inr ()"])
       (rule updateOrderPaymentStatus_result)
  moreover have "sent_only (updateData ''pending'' None) ?w1
      (detached (sendPaymentNotifications ctx (JObj appConfig) c ''failed'' (amount b)
         (JStr payment_id) ?w1))"
    by (intro read_only_sent_only detached_notifications_read_only)
  ultimately show ?thesis
    unfolding verify_failure_soft [OF assms] snd_conv by (rule sent_only_trans)
qed

section \<open>The order update when a backend is up, and when it is down\<close>

lemma store_of_put_store:
  "store_of b' (put_store b st w) = (if b' = b then st else store_of b' w)"
  by (cases b; cases b') (simp_all add: store_of_def put_store_def)

lemma store_of_calls: "store_of b (w\<lparr>calls := l\<rparr>) = store_of b w"
  by (cases b) (simp_all add: store_of_def)

lemma update_in_up:
  assumes up: "\<And>l x. call_backend x = Some b \<Longrightarrow> \<not> fails ctx l x"
  shows "fst (update_in ctx b c i f w) = Inr (map_of (store_of b w) (c, i) \<noteq> None)"
    and "store_of b' (snd (update_in ctx b c i f w)) =
           (if b' = b \<and> map_of (store_of b w) (c, i) \<noteq> None
            then upd_doc (c, i) f (store_of b w) else store_of b' w)"
proof -
  have g: "\<not> fails ctx l (StoreGet b c i)" and u: "\<not> fails ctx l (StoreUpdate b c i f)" for l
    by (rule up, simp add: call_backend_def)+
  have fs: "b = Firestore \<Longrightarrow> firestore w = store_of b w"
    by (simp add: store_of_def)
  show "fst (update_in ctx b c i f w) = Inr (map_of (store_of b w) (c, i) \<noteq> None)"
    using g [of "calls w"] u [of "calls w @ [StoreGet b c i]"]
    by (cases "map_of (store_of b w) (c, i)")
       (auto simp: update_in_def store_get_def store_update_def perform_def store_of_calls
          store_of_def split: backend.splits)
  show "store_of b' (snd (update_in ctx b c i f w)) =
           (if b' = b \<and> map_of (store_of b w) (c, i) \<noteq> None
            then upd_doc (c, i) f (store_of b w) else store_of b' w)"
    using g [of "calls w"] u [of "calls w @ [StoreGet b c i]"]
    by (cases "map_of (store_of b w) (c, i)")
       (auto simp: update_in_def store_get_def store_update_def perform_def store_of_calls
          store_of_put_store store_of_def put_store_def split: backend.splits)
qed

lemma update_in_down:
  assumes down: "\<And>l x. call_backend x = Some b \<Longrightarrow> fails ctx l x"
  shows "update_in ctx b c i f w = (Inl StoreError, w\<lparr>calls := calls w @ [StoreGet b c i]\<rparr>)"
proof -
  have "fails ctx (calls w) (StoreGet b c i)"
    by (rule down) (simp add: call_backend_def)
  then show ?thesis
    by (simp add: update_in_def store_get_def perform_def)
qed

lemma update_first_found_up:
  assumes up: "\<And>l x. call_backend x = Some b \<Longrightarrow> \<not> fails ctx l x"
  shows "fst (try_block (update_first_found ctx b (consultations_of cfg) (orders_of cfg) i f w)) =
           (found_in b cfg i (store_of b w) \<noteq> None)"
    and "store_of b' (snd (try_block (update_first_found ctx b (consultations_of cfg)
                                         (orders_of cfg) i f w))) =
           (case found_in b cfg i (store_of b w) of
              Some k \<Rightarrow> if b' = b then upd_doc (k, i) f (store_of b w) else store_of b' w
            | None \<Rightarrow> store_of b' w)"
proof -
  let ?cc = "collection_ref b (consultations_of cfg) i"
  let ?oc = "collection_ref b (orders_of cfg) i"
  let ?st = "store_of b w"
  note ui = update_in_up [of b ctx, OF up]
  have first: "update_in ctx b cc i f w =
      (Inr (map_of ?st (cc, i) \<noteq> None), snd (update_in ctx b cc i f w))" for cc
    by (simp add: prod_eq_iff ui(1))
  have second: "update_in ctx b oc i f w1 =
      (Inr (map_of (store_of b w1) (oc, i) \<noteq> None), snd (update_in ctx b oc i f w1))" for oc w1
    by (simp add: prod_eq_iff ui(1))
  have miss: "map_of ?st (cc, i) = None \<Longrightarrow>
      store_of b'' (snd (update_in ctx b cc i f w)) = store_of b'' w" for cc b''
    by (simp add: ui(2))
  show "fst (try_block (update_first_found ctx b (consultations_of cfg) (orders_of cfg) i f w)) =
           (found_in b cfg i (store_of b w) \<noteq> None)"
  proof (cases ?cc)
    case None
    then show ?thesis
      by (simp add: update_first_found_def try_block_def found_in_def holds_def)
  next
    case cc: (Some cc)
    show ?thesis
    proof (cases "map_of ?st (cc, i)")
      case (Some d)
      then show ?thesis
        unfolding update_first_found_def cc option.case
        by (subst first) (simp add: try_block_def found_in_def holds_def cc)
    next
      case None
      show ?thesis
      proof (cases ?oc)
        case oc: None
        then show ?thesis
          unfolding update_first_found_def cc option.case
          by (subst first) (simp add: try_block_def found_in_def holds_def cc None)
      next
        case oc: (Some oc)
        show ?thesis
          unfolding update_first_found_def cc oc option.case
          by (subst first, simp add: None, subst second)
             (simp add: try_block_def found_in_def holds_def cc oc None miss)
      qed
    qed
  qed
  show "store_of b' (snd (try_block (update_first_found ctx b (consultations_of cfg)
                                         (orders_of cfg) i f w))) =
           (case found_in b cfg i (store_of b w) of
              Some k \<Rightarrow> if b' = b then upd_doc (k, i) f (store_of b w) else store_of b' w
            | None \<Rightarrow> store_of b' w)"
  proof (cases ?cc)
    case None
    then show ?thesis
      by (simp add: update_first_found_def try_block_def found_in_def holds_def)
  next
    case cc: (Some cc)
    show ?thesis
    proof (cases "map_of ?st (cc, i)")
      case (Some d)
      then show ?thesis
        unfolding update_first_found_def cc option.case
        by (subst first) (simp add: try_block_def found_in_def holds_def cc ui(2))
    next
      case None
      show ?thesis
      proof (cases ?oc)
        case oc: None
        then show ?thesis
          unfolding update_first_found_def cc option.case
          by (subst first) (simp add: try_block_def found_in_def holds_def cc None miss)
      next
        case oc: (Some oc)
        show ?thesis
          unfolding update_first_found_def cc oc option.case
          by (subst first, simp add: None, subst second)
             (auto simp add: try_block_def found_in_def holds_def cc oc None miss ui(2))
      qed
    qed
  qed
qed

lemma update_first_found_down:
  assumes down: "\<And>l x. call_backend x = Some b \<Longrightarrow> fails ctx l x"
  shows "\<not> fst (try_block (update_first_found ctx b cc oc i f w))"
    and "logged w (snd (try_block (update_first_found ctx b cc oc i f w)))"
proof -
  note d = update_in_down [of b ctx, OF down]
  show "\<not> fst (try_block (update_first_found ctx b cc oc i f w))"
    by (simp add: update_first_found_def try_block_def d split: option.splits)
  show "logged w (snd (try_block (update_first_found ctx b cc oc i f w)))"
  proof (cases "collection_ref b cc i")
    case None
    then show ?thesis
      by (simp add: update_first_found_def try_block_def logged_refl)
  next
    case (Some n)
    then show ?thesis
      unfolding logged_def
      by (intro exI [of _ "[StoreGet b n i]"]) (simp add: update_first_found_def try_block_def d)
  qed
qed

lemma updateOrderPaymentStatus_firebase:
  assumes en: "truthy (js_member (orderUpdate_of appConfig) ''enabled'')"
    and fb: "truthy (js_member (orderUpdate_of appConfig) ''useFirebase'')"
  shows "snd (updateOrderPaymentStatus ctx (JObj appConfig) i ps pid w) =
     (let r = try_block (update_first_found ctx Firestore (consultations_of appConfig)
                           (orders_of appConfig) i (updateData ps pid) w)
      in if fst r then snd r
         else snd (try_block (update_first_found ctx Rtdb (consultations_of appConfig)
                                (orders_of appConfig) i (updateData ps pid) (snd r))))"
  using en fb
  unfolding updateOrderPaymentStatus_def updateOrderPaymentStatus_body_def
    consultations_of_def orders_of_def orderUpdate_of_def Let_def
  by (simp split: prod.splits bool.splits)

lemma updateOrderPaymentStatus_up:
  assumes en: "truthy (js_member (orderUpdate_of appConfig) ''enabled'')"
    and fb: "truthy (js_member (orderUpdate_of appConfig) ''useFirebase'')"
    and up: "\<And>l x. \<not> fails ctx l x"
  shows "firestore (snd (updateOrderPaymentStatus ctx (JObj appConfig) i ps pid w)) =
           (case found_in Firestore appConfig i (firestore w) of
              Some k \<Rightarrow> upd_doc (k, i) (updateData ps pid) (firestore w)
            | None \<Rightarrow> firestore w)"
    and "rtdb (snd (updateOrderPaymentStatus ctx (JObj appConfig) i ps pid w)) =
           (case found_in Firestore appConfig i (firestore w) of
              Some k \<Rightarrow> rtdb w
            | None \<Rightarrow>
                (case found_in Rtdb appConfig i (rtdb w) of
                   Some k \<Rightarrow> upd_doc (k, i) (updateData ps pid) (rtdb w)
                 | None \<Rightarrow> rtdb w))"
proof -
  let ?r = "try_block (update_first_found ctx Firestore (consultations_of appConfig)
                           (orders_of appConfig) i (updateData ps pid) w)"
  note f = update_first_found_up [of Firestore ctx, OF up]
  note r = update_first_found_up [of Rtdb ctx, OF up]
  have s: "firestore v = store_of Firestore v" "rtdb v = store_of Rtdb v" for v
    by (simp_all add: store_of_def)
  show "firestore (snd (updateOrderPaymentStatus ctx (JObj appConfig) i ps pid w)) =
           (case found_in Firestore appConfig i (firestore w) of
              Some k \<Rightarrow> upd_doc (k, i) (updateData ps pid) (firestore w)
            | None \<Rightarrow> firestore w)"
    unfolding updateOrderPaymentStatus_firebase [OF en fb] Let_def s
    by (simp add: f r split: option.splits)
  show "rtdb (snd (updateOrderPaymentStatus ctx (JObj appConfig) i ps pid w)) =
           (case found_in Firestore appConfig i (firestore w) of
              Some k \<Rightarrow> rtdb w
            | None \<Rightarrow>
                (case found_in Rtdb appConfig i (rtdb w) of
                   Some k \<Rightarrow> upd_doc (k, i) (updateData ps pid) (rtdb w)
                 | None \<Rightarrow> rtdb w))"
    unfolding updateOrderPaymentStatus_firebase [OF en fb] Let_def s
    by (simp add: f r split: option.splits)
qed

lemma updateOrderPaymentStatus_firestore_down:
  assumes en: "truthy (js_member (orderUpdate_of appConfig) ''enabled'')"
    and fb: "truthy (js_member (orderUpdate_of appConfig) ''useFirebase'')"
    and down: "\<And>l x. fails ctx l x = (call_backend x = Some Firestore)"
  shows "firestore (snd (updateOrderPaymentStatus ctx (JObj appConfig) i ps pid w)) = firestore w"
    and "rtdb (snd (updateOrderPaymentStatus ctx (JObj appConfig) i ps pid w)) =
           (case found_in Rtdb appConfig i (rtdb w) of
              Some k \<Rightarrow> upd_doc (k, i) (updateData ps pid) (rtdb w)
            | None \<Rightarrow> rtdb w)"
proof -
  let ?r = "try_block (update_first_found ctx Firestore (consultations_of appConfig)
                           (orders_of appConfig) i (updateData ps pid) w)"
  have d: "\<not> fst ?r" and l: "logged w (snd ?r)"
    by (rule update_first_found_down, simp add: down)+
  note lf = logged_fields [OF l]
  have up: "call_backend x = Some Rtdb \<Longrightarrow> \<not> fails ctx l x" for l x
    by (simp add: down)
  note r = update_first_found_up [of Rtdb ctx, OF up]
  have s: "firestore v = store_of Firestore v" "rtdb v = store_of Rtdb v" for v
    by (simp_all add: store_of_def)
  have s': "store_of b (snd ?r) = store_of b w" for b
    using lf by (cases b) (simp_all add: store_of_def)
  show "firestore (snd (updateOrderPaymentStatus ctx (JObj appConfig) i ps pid w)) = firestore w"
    unfolding updateOrderPaymentStatus_firebase [OF en fb] Let_def s
    by (simp add: d r s' split: option.splits)
  show "rtdb (snd (updateOrderPaymentStatus ctx (JObj appConfig) i ps pid w)) =
           (case found_in Rtdb appConfig i (rtdb w) of
              Some k \<Rightarrow> upd_doc (k, i) (updateData ps pid) (rtdb w)
            | None \<Rightarrow> rtdb w)"
    unfolding updateOrderPaymentStatus_firebase [OF en fb] Let_def s
    by (simp add: d r s' split: option.splits)
qed

lemma updateOrderPaymentStatus_endpoint:
  assumes en: "truthy (js_member (orderUpdate_of appConfig) ''enabled'')"
    and ep: "truthy (js_member (orderUpdate_of appConfig) ''endpoint'')"
    and fb: "\<not> truthy (js_member (orderUpdate_of appConfig) ''useFirebase'')"
  shows "snd (updateOrderPaymentStatus ctx (JObj appConfig) i ps pid w) =
           w\<lparr>calls := calls w @ [HttpPatch (js_member (orderUpdate_of appConfig) ''endpoint'') i
                                    (updateData ps pid)]\<rparr>"
  using assms
  unfolding updateOrderPaymentStatus_def updateOrderPaymentStatus_body_def orderUpdate_of_def
    Let_def perform_def
  by simp

lemma updateOrderPaymentStatus_idle:
  assumes "\<not> truthy (js_member (orderUpdate_of appConfig) ''enabled'') \<or>
           \<not> truthy (js_member (orderUpdate_of appConfig) ''endpoint'') \<and>
           \<not> truthy (js_member (orderUpdate_of appConfig) ''useFirebase'')"
  shows "snd (updateOrderPaymentStatus ctx (JObj appConfig) i ps pid w) = w"
  using assms
  unfolding updateOrderPaymentStatus_def updateOrderPaymentStatus_body_def orderUpdate_of_def
    Let_def
  by auto

lemma getOrderDetails_idle:
  assumes "\<not> truthy (js_member (orderUpdate_of appConfig) ''enabled'') \<or>
           \<not> truthy (js_member (orderUpdate_of appConfig) ''endpoint'') \<and>
           \<not> truthy (js_member (orderUpdate_of appConfig) ''useFirebase'')"
  shows "getOrderDetails ctx (JObj appConfig) i w = (JNull, w)"
  using assms
  unfolding getOrderDetails_def orderUpdate_of_def Let_def
  by auto

section \<open>The digest\<close>

lemma hex_length: "length (hex bs) = 2 * length bs"
  by (induction bs) (simp_all add: hex_def)

lemma sha256_length: "length (sha256 m) = 32"
  unfolding sha256_def
  by (cases "foldl compress H256 (chunk 64 (pad256 m))" rule: state_bytes.cases) simp

lemma node_hmac_length: "length (node_hmac_sha256_hex key msg) = 64"
  by (simp add: node_hmac_sha256_hex_def hex_length hmac_sha256_def sha256_length)

lemma node_hmac_neq: "length s \<noteq> 64 \<Longrightarrow> node_hmac_sha256_hex key msg \<noteq> s"
  using node_hmac_length [of key msg] by auto



lemma decimal_12345: "decimal 12345 = ''12345''"
  by (simp add: decimal_def index_key.simps digit_def)

section \<open>The merged configurations of the concrete tenants\<close>

text \<open>Merging the default entry with itself gives the default entry back; the two
  overrides change one nested object each.\<close>

lemma obj_upd_same: "m k = Some v \<Longrightarrow> m(k \<mapsto> v) = m"
  by (rule ext) simp

lemma map_add_same: "(m :: object) ++ m = m"
  by (rule ext) (simp add: map_add_def split: option.splits)

lemma default_config_eq: "default_config = spread apps_default"
proof (rule ext)
  fix k
  let ?os = "[''appId'' \<mapsto> JStr ''b0020b77-3e0c-43c5-b92e-912b1cec1623'',
              ''restApiKey'' \<mapsto> JStr []]"
  let ?n = "[''enabled'' \<mapsto> JBool True, ''provider'' \<mapsto> JStr ''onesignal'',
             ''onesignal'' \<mapsto> JObj ?os]"
  let ?c = "[''orders'' \<mapsto> JStr ''orders'', ''consultations'' \<mapsto> JStr ''consultations'',
             ''payments'' \<mapsto> JStr ''payments'', ''users'' \<mapsto> JStr ''users'']"
  let ?u = "[''enabled'' \<mapsto> JBool True, ''useFirebase'' \<mapsto> JBool True,
             ''collections'' \<mapsto> JObj ?c]"
  have n: "js_member apps_default ''notifications'' = JObj ?n"
    and u: "js_member apps_default ''orderUpdate'' = JObj ?u"
    by (simp_all add: apps_default_def)
  have n': "(?n ++ ?n)(''onesignal'' \<mapsto> JObj (?os ++ ?os)) = ?n"
    unfolding map_add_same by (rule obj_upd_same) simp
  have u': "(?u ++ ?u)(''collections'' \<mapsto> JObj (?c ++ ?c)) = ?u"
    unfolding map_add_same by (rule obj_upd_same) simp
  have m: "merged apps_default apps_default =
     (spread apps_default)(''notifications'' \<mapsto> JObj ?n, ''orderUpdate'' \<mapsto> JObj ?u,
        ''testMode'' \<mapsto> js_member apps_default ''testMode'')"
    unfolding merged_def n u js_member.simps spread.simps option.case
    unfolding n' u' map_add_same
    by (simp add: apps_default_def)
  show "default_config k = spread apps_default k"
    unfolding default_config_def m by (simp add: apps_default_def)
qed

lemma no_booking_config_eq:
  "no_booking_config = (spread apps_default)(''testMode'' \<mapsto>
     JObj [''autoDetect'' \<mapsto> JBool True, ''bookOnPaymentFailure'' \<mapsto> JBool False])"
proof -
  let ?os = "[''appId'' \<mapsto> JStr ''b0020b77-3e0c-43c5-b92e-912b1cec1623'',
              ''restApiKey'' \<mapsto> JStr []]"
  let ?n = "[''enabled'' \<mapsto> JBool True, ''provider'' \<mapsto> JStr ''onesignal'',
             ''onesignal'' \<mapsto> JObj ?os]"
  let ?c = "[''orders'' \<mapsto> JStr ''orders'', ''consultations'' \<mapsto> JStr ''consultations'',
             ''payments'' \<mapsto> JStr ''payments'', ''users'' \<mapsto> JStr ''users'']"
  let ?u = "[''enabled'' \<mapsto> JBool True, ''useFirebase'' \<mapsto> JBool True,
             ''collections'' \<mapsto> JObj ?c]"
  let ?a = "JObj [''testMode'' \<mapsto> JObj [''bookOnPaymentFailure'' \<mapsto> JBool False]]"
  have n: "js_member apps_default ''notifications'' = JObj ?n"
    and u: "js_member apps_default ''orderUpdate'' = JObj ?u"
    and t: "js_member apps_default ''testMode'' =
            JObj [''autoDetect'' \<mapsto> JBool True, ''bookOnPaymentFailure'' \<mapsto> JBool True]"
    by (simp_all add: apps_default_def)
  have a: "js_member ?a ''notifications'' = JUndefined" "js_member ?a ''orderUpdate'' = JUndefined"
    "js_member ?a ''testMode'' = JObj [''bookOnPaymentFailure'' \<mapsto> JBool False]"
    by simp_all
  have n': "?n(''onesignal'' \<mapsto> JObj ?os) = ?n"
    by (rule obj_upd_same) simp
  have u': "?u(''collections'' \<mapsto> JObj ?c) = ?u"
    by (rule obj_upd_same) simp
  show ?thesis
    unfolding no_booking_config_def merged_def n u t a js_member.simps spread.simps option.case
      map_add_empty n' u'
    by (rule ext) (simp add: apps_default_def)
qed

lemma no_update_config_eq:
  "no_update_config = (spread apps_default)(''orderUpdate'' \<mapsto>
     JObj [''enabled'' \<mapsto> JBool False, ''useFirebase'' \<mapsto> JBool True,
           ''collections'' \<mapsto> JObj [''orders'' \<mapsto> JStr ''orders'',
              ''consultations'' \<mapsto> JStr ''consultations'',
              ''payments'' \<mapsto> JStr ''payments'', ''users'' \<mapsto> JStr ''users'']])"
proof -
  let ?os = "[''appId'' \<mapsto> JStr ''b0020b77-3e0c-43c5-b92e-912b1cec1623'',
              ''restApiKey'' \<mapsto> JStr []]"
  let ?n = "[''enabled'' \<mapsto> JBool True, ''provider'' \<mapsto> JStr ''onesignal'',
             ''onesignal'' \<mapsto> JObj ?os]"
  let ?c = "[''orders'' \<mapsto> JStr ''orders'', ''consultations'' \<mapsto> JStr ''consultations'',
             ''payments'' \<mapsto> JStr ''payments'', ''users'' \<mapsto> JStr ''users'']"
  let ?u = "[''enabled'' \<mapsto> JBool True, ''useFirebase'' \<mapsto> JBool True,
             ''collections'' \<mapsto> JObj ?c]"
  let ?t = "[''autoDetect'' \<mapsto> JBool True, ''bookOnPaymentFailure'' \<mapsto> JBool True]"
  let ?a = "JObj [''orderUpdate'' \<mapsto> JObj [''enabled'' \<mapsto> JBool False]]"
  have n: "js_member apps_default ''notifications'' = JObj ?n"
    and u: "js_member apps_default ''orderUpdate'' = JObj ?u"
    and t: "js_member apps_default ''testMode'' = JObj ?t"
    by (simp_all add: apps_default_def)
  have a: "js_member ?a ''notifications'' = JUndefined" "js_member ?a ''testMode'' = JUndefined"
    "js_member ?a ''orderUpdate'' = JObj [''enabled'' \<mapsto> JBool False]"
    by simp_all
  have n': "?n(''onesignal'' \<mapsto> JObj ?os) = ?n"
    by (rule obj_upd_same) simp
  have o: "[''useFirebase'' \<mapsto> JBool True, ''enabled'' \<mapsto> JBool False,
            ''collections'' \<mapsto> JObj ?c] =
           [''enabled'' \<mapsto> JBool False, ''useFirebase'' \<mapsto> JBool True,
            ''collections'' \<mapsto> JObj ?c]"
    by (rule ext) simp
  show ?thesis
    unfolding no_update_config_def merged_def n u t a js_member.simps spread.simps option.case
      map_add_empty n'
    by (rule ext) (simp add: apps_default_def o)
qed

lemma endpoint_config_eq:
  "endpoint_config = (spread apps_default)(''orderUpdate'' \<mapsto>
     JObj [''enabled'' \<mapsto> JBool True, ''useFirebase'' \<mapsto> JBool False,
           ''endpoint'' \<mapsto> JStr ''https://tenant.example/orders'',
           ''collections'' \<mapsto> JObj [''orders'' \<mapsto> JStr ''orders'',
              ''consultations'' \<mapsto> JStr ''consultations'',
              ''payments'' \<mapsto> JStr ''payments'', ''users'' \<mapsto> JStr ''users'']])"
proof -
  let ?os = "[''appId'' \<mapsto> JStr ''b0020b77-3e0c-43c5-b92e-912b1cec1623'',
              ''restApiKey'' \<mapsto> JStr []]"
  let ?n = "[''enabled'' \<mapsto> JBool True, ''provider'' \<mapsto> JStr ''onesignal'',
             ''onesignal'' \<mapsto> JObj ?os]"
  let ?c = "[''orders'' \<mapsto> JStr ''orders'', ''consultations'' \<mapsto> JStr ''consultations'',
             ''payments'' \<mapsto> JStr ''payments'', ''users'' \<mapsto> JStr ''users'']"
  let ?u = "[''enabled'' \<mapsto> JBool True, ''useFirebase'' \<mapsto> JBool True,
             ''collections'' \<mapsto> JObj ?c]"
  let ?t = "[''autoDetect'' \<mapsto> JBool True, ''bookOnPaymentFailure'' \<mapsto> JBool True]"
  let ?e = "[''useFirebase'' \<mapsto> JBool False,
             ''endpoint'' \<mapsto> JStr ''https://tenant.example/orders'']"
  let ?a = "JObj [''orderUpdate'' \<mapsto> JObj ?e]"
  have n: "js_member apps_default ''notifications'' = JObj ?n"
    and u: "js_member apps_default ''orderUpdate'' = JObj ?u"
    and t: "js_member apps_default ''testMode'' = JObj ?t"
    by (simp_all add: apps_default_def)
  have a: "js_member ?a ''notifications'' = JUndefined" "js_member ?a ''testMode'' = JUndefined"
    "js_member ?a ''orderUpdate'' = JObj ?e"
    by simp_all
  have n': "?n(''onesignal'' \<mapsto> JObj ?os) = ?n"
    by (rule obj_upd_same) simp
  have o: "(?u ++ ?e)(''collections'' \<mapsto> JObj ?c) =
           [''enabled'' \<mapsto> JBool True, ''useFirebase'' \<mapsto> JBool False,
            ''endpoint'' \<mapsto> JStr ''https://tenant.example/orders'',
            ''collections'' \<mapsto> JObj ?c]"
    by (rule ext) simp
  show ?thesis
    unfolding endpoint_config_def merged_def n u t a js_member.simps spread.simps option.case
      map_add_empty n'
    by (rule ext) (simp add: apps_default_def o)
qed

section \<open>Facts about the concrete inputs\<close>

lemma good_request_fields:
  "str_or_null (razorpay_order_id good_request) = Some ''order_1''"
  "razorpay_payment_id good_request = FStr ''pay_1''"
  "str_or_null (razorpay_signature good_request) =
     Some (node_hmac_sha256_hex ''secret'' ''order_1|pay_1'')"
  "str_or_null (consultationId good_request) = Some ''c1''"
  by (simp_all add: good_request_def str_or_null_def node_hmac_neq)

lemma bad_request_fields:
  "str_or_null (razorpay_order_id bad_request) = Some ''order_1''"
  "razorpay_payment_id bad_request = FStr ''pay_1''"
  "str_or_null (razorpay_signature bad_request) = Some ''0000''"
  "str_or_null (consultationId bad_request) = Some ''c1''"
  by (simp_all add: bad_request_def good_request_def str_or_null_def)

lemma good_signature:
  "isSignatureValid test_env ''order_1'' ''pay_1'' (node_hmac_sha256_hex ''secret'' ''order_1|pay_1'')"
  by (simp add: isSignatureValid_def generatedSignature_def test_env_def)

lemma bad_signature: "\<not> isSignatureValid test_env ''order_1'' ''pay_1'' ''0000''"
  by (simp add: isSignatureValid_def generatedSignature_def test_env_def node_hmac_neq)

lemma test_gate: "softFailGate default_config True bad_request"
  by (simp add: softFailGate_def shouldBookOnFailure_def default_config_eq apps_default_def
        bad_request_fields)

lemmas run_defs =
  verify_def verify_success_def verify_failure_def softFailGate_def isTestPayment_def
  shouldBookOnFailure_def startsWith_def isSignatureValid_def generatedSignature_def
  node_hmac_neq str_or_null_def num_or_null_def detached_def
  savePaymentToDatabase_def perform_def
  updateOrderPaymentStatus_def updateOrderPaymentStatus_body_def update_first_found_def
  update_in_def collection_ref_def rtdb_path_ok_def
  try_block_def store_get_def store_update_def store_of_def put_store_def js_or_def
  sendPaymentNotifications_def getOrderDetails_def fetch_first_found_def try_fetch_def
  sendPaymentNotification_def sendPaymentNotification_body_def recipients_def admin_ids_def
  admins_of_def patient_ids_def provider_ids_def sendOneSignalNotification_def env_value_def
  view_of_def firestore_consultation_view_def firestore_order_view_def rtdb_view_def
  test_env_def default_config_eq apps_default_def good_request_def bad_request_def
  world_c1_def consultation_c1_def Let_def

lemma all_fail_run:
  "payments (snd (verify (test_env\<lparr>fails := (\<lambda>l c. True)\<rparr>) default_config good_request world_c1)) = [] \<and>
   firestore (snd (verify (test_env\<lparr>fails := (\<lambda>l c. True)\<rparr>) default_config good_request world_c1)) = firestore world_c1 \<and>
   length (calls (snd (verify (test_env\<lparr>fails := (\<lambda>l c. True)\<rparr>) default_config good_request world_c1))) = 5"
  by (simp add: run_defs)

lemma no_fail_run:
  "map (\<lambda>r. r ''status'') (payments (snd (verify test_env default_config good_request world_c1))) = [Some (JStr ''completed'')] \<and>
   map_of (firestore (snd (verify test_env default_config good_request world_c1))) (''consultations'', ''c1'') =
     Some (consultation_c1 ++ updateData ''paid'' (Some ''pay_1'')) \<and>
   length (calls (snd (verify test_env default_config good_request world_c1))) = 7"
  by (simp add: run_defs paymentRecord_def)

section \<open>Missing fields\<close>

text \<open>
  Claim C5. A verify request in which \<^verbatim>\<open>razorpay_order_id\<close>,
  \<^verbatim>\<open>razorpay_payment_id\<close> or \<^verbatim>\<open>razorpay_signature\<close> is missing or empty (or, for
  the payment id, any other falsy value) is answered with the HTTP 400 \<open>missing_details\<close>, whatever the digest function, the configuration
  and the stores are: the world is returned as it was, so no document is read or written,
  no payment record is added and the call log is unchanged (no record-store call and no
  notification call is made).
\<close>

theorem verify_missing_details:
  assumes "razorpay_order_id b \<in> {None, Some []} \<or>
           razorpay_payment_id b \<in> {FMissing, FNull, FStr []} \<or>
           \<not> truthy_field (razorpay_payment_id b) \<or>
           razorpay_signature b \<in> {None, Some []}"
  shows "verify ctx appConfig b w = (missing_details, w) \<and> status missing_details = 400 \<and>
         calls (snd (verify ctx appConfig b w)) = calls w"
proof -
  have "str_or_null (razorpay_order_id b) = None \<or>
        \<not> truthy_field (razorpay_payment_id b) \<or>
        str_or_null (razorpay_signature b) = None"
    using assms by (auto simp: str_or_null_def)
  then have "verify ctx appConfig b w = (missing_details, w)"
    by (rule verify_missing)
  then show ?thesis by (simp add: missing_details_def)
qed

theorem verify_missing_details_witness:
  "razorpay_signature unsigned_request = Some [] \<and>
   verify test_env default_config unsigned_request world_c1 = (missing_details, world_c1) \<and>
   calls (snd (verify test_env default_config unsigned_request world_c1)) = []"
proof -
  have h: "razorpay_signature unsigned_request = Some []"
    by (simp add: unsigned_request_def)
  then have "razorpay_order_id unsigned_request \<in> {None, Some []} \<or>
      razorpay_payment_id unsigned_request \<in> {FMissing, FNull, FStr []} \<or>
      \<not> truthy_field (razorpay_payment_id unsigned_request) \<or>
      razorpay_signature unsigned_request \<in> {None, Some []}"
    by simp
  from verify_missing_details [OF this, of test_env default_config world_c1] h
  show ?thesis by (simp add: world_c1_def)
qed

section \<open>No linked record, no soft fail\<close>





section \<open>Hard fail\<close>

text \<open>
  Claim C6. On the hard-fail path of the verify handler (all three fields present, the
  payment id a string, the signature invalid, the soft-fail gate not satisfied for the value \<open>is_test\<close> of
  \<^verbatim>\<open>isTestPayment\<close>) the world is returned as it was: no
  field of the linked record, and of any other document, is written, and no call is made.
  The response is the HTTP 400 with the error \<^verbatim>\<open>Invalid payment signature\<close> and has
  neither a \<^verbatim>\<open>consultation_booked\<close> nor a \<^verbatim>\<open>recordBooked\<close> key.
\<close>

theorem verify_hard_fail_unchanged:
  assumes "str_or_null (razorpay_order_id b) = Some order_id"
    and "razorpay_payment_id b = FStr payment_id" and "payment_id \<noteq> []"
    and "str_or_null (razorpay_signature b) = Some signature"
    and "\<not> isSignatureValid ctx order_id payment_id signature"
    and "isTestPayment ctx (razorpay_payment_id b) (isTestMode b) = Inr is_test"
    and "\<not> softFailGate appConfig is_test b"
  shows "fst (verify ctx appConfig b w) = hard_fail_response payment_id \<and>
         snd (verify ctx appConfig b w) = w \<and>
         status (hard_fail_response payment_id) = 400 \<and>
         body (hard_fail_response payment_id) ''error'' = Some (JStr ''Invalid payment signature'') \<and>
         body (hard_fail_response payment_id) ''consultation_booked'' = None \<and>
         body (hard_fail_response payment_id) ''recordBooked'' = None"
proof -
  have "is_test = (startsWith payment_id ''pay_test_'' \<or>
                   startsWith (RAZORPAY_KEY_ID ctx) ''rzp_test_'' \<or> isTestMode b = Some True)"
    using assms(2,6) by (cases "isTestMode b") (auto simp: isTestPayment_def)
  then have "verify ctx appConfig b w = (hard_fail_response payment_id, w)"
    using assms by (simp add: verify_present verify_failure_gate_closed)
  then show ?thesis by (simp add: hard_fail_response_def)
qed

theorem verify_hard_fail_unchanged_witness:
  "js_member (js_member (JObj no_booking_config) ''testMode'') ''bookOnPaymentFailure'' = JBool False \<and>
   isTestPayment test_env (razorpay_payment_id bad_request) (isTestMode bad_request) = Inr True \<and>
   \<not> softFailGate no_booking_config True bad_request \<and>
   fst (verify test_env no_booking_config bad_request world_c1) = hard_fail_response ''pay_1'' \<and>
   snd (verify test_env no_booking_config bad_request world_c1) = world_c1 \<and>
   map_of (firestore (snd (verify test_env no_booking_config bad_request world_c1)))
     (''consultations'', ''c1'') = Some consultation_c1"
proof -
  have f: "js_member (js_member (JObj no_booking_config) ''testMode'') ''bookOnPaymentFailure'' = JBool False"
    by (simp add: no_booking_config_eq)
  then have g: "\<not> softFailGate no_booking_config True bad_request"
    by (simp add: softFailGate_def shouldBookOnFailure_def)
  have t: "isTestPayment test_env (razorpay_payment_id bad_request) (isTestMode bad_request) = Inr True"
    by (simp add: isTestPayment_def bad_request_fields startsWith_def test_env_def)
  have p: "''pay_1'' \<noteq> []" by simp
  from verify_hard_fail_unchanged [OF bad_request_fields(1,2) p bad_request_fields(3)
      bad_signature t g, of world_c1] f g t
  show ?thesis by (simp add: world_c1_def)
qed

section \<open>Store failures do not change the response\<close>

text \<open>
  Claim C7. For a verify request with a valid signature (all three fields present, the
  payment id a string) the response is the HTTP 200
  \<open>verified_response\<close>, with \<^verbatim>\<open>success: true\<close> and no \<^verbatim>\<open>error\<close> key, whichever
  calls to the record store (the payment insert, the reads and updates of the linked
  record, the queries of the notification path) throw: \<open>f\<close> is an arbitrary assignment of
  failures to calls.
\<close>

theorem verify_store_failures_swallowed:
  assumes "str_or_null (razorpay_order_id b) = Some order_id"
    and "razorpay_payment_id b = FStr payment_id" and "payment_id \<noteq> []"
    and "str_or_null (razorpay_signature b) = Some signature"
    and "isSignatureValid ctx order_id payment_id signature"
  shows "fst (verify (ctx\<lparr>fails := f\<rparr>) appConfig b w) = verified_response ctx order_id payment_id \<and>
         status (verified_response ctx order_id payment_id) = 200 \<and>
         body (verified_response ctx order_id payment_id) ''success'' = Some (JBool True) \<and>
         body (verified_response ctx order_id payment_id) ''error'' = None"
proof -
  have v: "isSignatureValid (ctx\<lparr>fails := f\<rparr>) order_id payment_id signature"
    using assms(5) by (simp add: isSignatureValid_def generatedSignature_def)
  have "fst (verify (ctx\<lparr>fails := f\<rparr>) appConfig b w) =
        verified_response (ctx\<lparr>fails := f\<rparr>) order_id payment_id"
    using assms(1-4) v by (simp add: verify_present verify_success_response)
  then show ?thesis by (simp add: verified_response_def)
qed

theorem verify_store_failures_swallowed_witness:
  "isSignatureValid test_env ''order_1'' ''pay_1''
     (node_hmac_sha256_hex ''secret'' ''order_1|pay_1'') \<and>
   fst (verify (test_env\<lparr>fails := (\<lambda>l c. True)\<rparr>) default_config good_request world_c1) =
     verified_response test_env ''order_1'' ''pay_1'' \<and>
   fst (verify (test_env\<lparr>fails := (\<lambda>l c. case c of StoreUpdate b k i d \<Rightarrow> True | _ \<Rightarrow> False)\<rparr>)
          default_config good_request world_c1) =
     verified_response test_env ''order_1'' ''pay_1'' \<and>
   payments (snd (verify (test_env\<lparr>fails := (\<lambda>l c. True)\<rparr>) default_config good_request
      world_c1)) = [] \<and>
   firestore (snd (verify (test_env\<lparr>fails := (\<lambda>l c. True)\<rparr>) default_config good_request
      world_c1)) = firestore world_c1"
  using verify_store_failures_swallowed [OF good_request_fields(1,2) _ good_request_fields(3)
          good_signature, of "\<lambda>l c. True" default_config world_c1]
        verify_store_failures_swallowed [OF good_request_fields(1,2) _ good_request_fields(3)
          good_signature,
          of "\<lambda>l c. case c of StoreUpdate b k i d \<Rightarrow> True | _ \<Rightarrow> False" default_config world_c1]
        good_signature all_fail_run
  by simp

section \<open>A valid signature is never downgraded\<close>

lemma perform_key_id [simp]: "perform (ctx\<lparr>RAZORPAY_KEY_ID := k\<rparr>) = perform ctx"
  by (simp cong: prod.case_cong sum.case_cong option.case_cong bool.case_cong jsval.case_cong if_cong add: Let_def fun_eq_iff perform_def)

lemma store_get_key_id [simp]: "store_get (ctx\<lparr>RAZORPAY_KEY_ID := k\<rparr>) = store_get ctx"
  by (simp cong: prod.case_cong sum.case_cong option.case_cong bool.case_cong jsval.case_cong if_cong add: Let_def fun_eq_iff store_get_def)

lemma store_update_key_id [simp]: "store_update (ctx\<lparr>RAZORPAY_KEY_ID := k\<rparr>) = store_update ctx"
  by (simp cong: prod.case_cong sum.case_cong option.case_cong bool.case_cong jsval.case_cong if_cong add: Let_def fun_eq_iff store_update_def)

lemma update_in_key_id [simp]: "update_in (ctx\<lparr>RAZORPAY_KEY_ID := k\<rparr>) = update_in ctx"
  by (simp cong: prod.case_cong sum.case_cong option.case_cong bool.case_cong if_cong add: Let_def fun_eq_iff update_in_def)

lemma update_first_found_key_id [simp]:
  "update_first_found (ctx\<lparr>RAZORPAY_KEY_ID := k\<rparr>) = update_first_found ctx"
  by (simp cong: prod.case_cong sum.case_cong option.case_cong bool.case_cong jsval.case_cong if_cong add: Let_def fun_eq_iff update_first_found_def)

lemma updateOrderPaymentStatus_key_id [simp]:
  "updateOrderPaymentStatus (ctx\<lparr>RAZORPAY_KEY_ID := k\<rparr>) = updateOrderPaymentStatus ctx"
  by (simp cong: prod.case_cong sum.case_cong option.case_cong bool.case_cong jsval.case_cong if_cong add: Let_def fun_eq_iff updateOrderPaymentStatus_def updateOrderPaymentStatus_body_def)

lemma fetch_first_found_key_id [simp]:
  "fetch_first_found (ctx\<lparr>RAZORPAY_KEY_ID := k\<rparr>) = fetch_first_found ctx"
  by (simp cong: prod.case_cong sum.case_cong option.case_cong bool.case_cong jsval.case_cong if_cong add: Let_def fun_eq_iff fetch_first_found_def)

lemma getOrderDetails_key_id [simp]:
  "getOrderDetails (ctx\<lparr>RAZORPAY_KEY_ID := k\<rparr>) = getOrderDetails ctx"
  by (simp cong: prod.case_cong sum.case_cong option.case_cong bool.case_cong jsval.case_cong if_cong add: Let_def fun_eq_iff getOrderDetails_def)

lemma recipients_key_id [simp]: "recipients (ctx\<lparr>RAZORPAY_KEY_ID := k\<rparr>) = recipients ctx"
  by (simp cong: prod.case_cong sum.case_cong option.case_cong bool.case_cong jsval.case_cong if_cong add: Let_def fun_eq_iff recipients_def admin_ids_def)

lemma sendOneSignalNotification_key_id [simp]:
  "sendOneSignalNotification (ctx\<lparr>RAZORPAY_KEY_ID := k\<rparr>) = sendOneSignalNotification ctx"
  by (simp cong: prod.case_cong sum.case_cong option.case_cong bool.case_cong jsval.case_cong if_cong add: Let_def fun_eq_iff sendOneSignalNotification_def)

lemma sendPaymentNotifications_key_id [simp]:
  "sendPaymentNotifications (ctx\<lparr>RAZORPAY_KEY_ID := k\<rparr>) = sendPaymentNotifications ctx"
  by (simp cong: prod.case_cong sum.case_cong option.case_cong bool.case_cong jsval.case_cong if_cong add: Let_def fun_eq_iff sendPaymentNotifications_def sendPaymentNotification_def
        sendPaymentNotification_body_def)

lemma savePaymentToDatabase_key_id [simp]:
  "savePaymentToDatabase (ctx\<lparr>RAZORPAY_KEY_ID := k\<rparr>) = savePaymentToDatabase ctx"
  by (simp cong: prod.case_cong sum.case_cong option.case_cong bool.case_cong jsval.case_cong if_cong add: Let_def fun_eq_iff savePaymentToDatabase_def)

lemma verify_success_key_id:
  "verify_success (ctx\<lparr>RAZORPAY_KEY_ID := k\<rparr>) = verify_success ctx"
  by (simp cong: prod.case_cong sum.case_cong option.case_cong bool.case_cong jsval.case_cong if_cong add: Let_def fun_eq_iff verify_success_def verified_response_def)

lemma js_member_testMode [simp]:
  "k \<noteq> ''testMode'' \<Longrightarrow> js_member (JObj (m(''testMode'' := tm))) k = js_member (JObj m) k"
  by simp

lemma updateOrderPaymentStatus_testMode:
  "updateOrderPaymentStatus ctx (JObj (m(''testMode'' := tm))) =
   updateOrderPaymentStatus ctx (JObj m)"
  by (simp cong: prod.case_cong sum.case_cong option.case_cong bool.case_cong jsval.case_cong if_cong add: Let_def fun_eq_iff updateOrderPaymentStatus_def updateOrderPaymentStatus_body_def)

lemma getOrderDetails_testMode:
  "getOrderDetails ctx (JObj (m(''testMode'' := tm))) = getOrderDetails ctx (JObj m)"
  by (simp cong: prod.case_cong sum.case_cong option.case_cong bool.case_cong jsval.case_cong if_cong add: Let_def fun_eq_iff getOrderDetails_def)

lemma recipients_testMode:
  "recipients ctx (JObj (m(''testMode'' := tm))) = recipients ctx (JObj m)"
  by (simp cong: prod.case_cong sum.case_cong option.case_cong bool.case_cong jsval.case_cong if_cong add: Let_def fun_eq_iff recipients_def admin_ids_def)

lemma sendPaymentNotification_paid_testMode:
  "sendPaymentNotification ctx (JObj (m(''testMode'' := tm))) c ''paid'' =
   sendPaymentNotification ctx (JObj m) c ''paid''"
  by (simp cong: prod.case_cong sum.case_cong option.case_cong bool.case_cong jsval.case_cong if_cong add: Let_def fun_eq_iff sendPaymentNotification_def sendPaymentNotification_body_def
        recipients_testMode)

lemma sendPaymentNotifications_paid_testMode:
  "sendPaymentNotifications ctx (JObj (m(''testMode'' := tm))) c ''paid'' =
   sendPaymentNotifications ctx (JObj m) c ''paid''"
  by (simp cong: prod.case_cong sum.case_cong option.case_cong bool.case_cong jsval.case_cong if_cong add: Let_def fun_eq_iff sendPaymentNotifications_def getOrderDetails_testMode
        sendPaymentNotification_paid_testMode)

lemma verify_success_testMode:
  "verify_success ctx (m(''testMode'' := tm)) (b\<lparr>isTestMode := t\<rparr>) = verify_success ctx m b"
  by (simp cong: prod.case_cong sum.case_cong option.case_cong bool.case_cong jsval.case_cong if_cong add: Let_def fun_eq_iff verify_success_def updateOrderPaymentStatus_testMode
        sendPaymentNotifications_paid_testMode)

lemma numeric_id_request_fields:
  "str_or_null (razorpay_order_id numeric_id_request) = Some ''order_1''"
  "razorpay_payment_id numeric_id_request = FNum 12345"
  "str_or_null (razorpay_signature numeric_id_request) =
     Some (node_hmac_sha256_hex ''secret'' ''order_1|12345'')"
  by (simp_all add: numeric_id_request_def good_request_def str_or_null_def node_hmac_neq)

text \<open>
  Claim C3, as stated, fails. The handler computes \<^verbatim>\<open>isTestPayment\<close> before it
  branches on the signature, and the first operand of that expression calls
  \<^verbatim>\<open>startsWith\<close> on the payment id. For the request whose payment id is the number
  12345, signed for the text \<^verbatim>\<open>order_1|12345\<close> that the handler builds, the
  signature check of the handler succeeds and the answer is the HTTP 500 of the
  \<^verbatim>\<open>catch\<close>; with the same id sent as a string the answer is the success response.
\<close>

theorem verify_valid_signature_counterexample:
  "razorpay_payment_id numeric_id_request = FNum 12345 \<and>
   field_text (razorpay_payment_id numeric_id_request) = Some ''12345'' \<and>
   razorpay_signature numeric_id_request = Some (node_hmac_sha256_hex ''secret'' ''order_1|12345'') \<and>
   isSignatureValid test_env ''order_1'' ''12345'' (node_hmac_sha256_hex ''secret'' ''order_1|12345'') \<and>
   verify test_env default_config numeric_id_request world_c1 =
     (error_response ''razorpay_payment_id.startsWith is not a function'', world_c1) \<and>
   status (fst (verify test_env default_config numeric_id_request world_c1)) = 500 \<and>
   body (fst (verify test_env default_config numeric_id_request world_c1)) ''success'' =
     Some (JBool False) \<and>
   fst (verify test_env default_config (numeric_id_request\<lparr>razorpay_payment_id := FStr ''12345''\<rparr>)
          world_c1) = verified_response test_env ''order_1'' ''12345''"
proof -
  have v: "isSignatureValid test_env ''order_1'' ''12345''
             (node_hmac_sha256_hex ''secret'' ''order_1|12345'')"
    by (simp add: isSignatureValid_def generatedSignature_def test_env_def)
  have r: "verify test_env default_config numeric_id_request world_c1 =
     (error_response ''razorpay_payment_id.startsWith is not a function'', world_c1)"
    by (simp add: verify_def numeric_id_request_fields decimal_12345 isTestPayment_def)
  have "fst (verify test_env default_config
               (numeric_id_request\<lparr>razorpay_payment_id := FStr ''12345''\<rparr>) world_c1) =
        verified_response test_env ''order_1'' ''12345''"
    using v by (simp add: verify_present [where order_id = "''order_1''" and payment_id = "''12345''"
          and signature = "node_hmac_sha256_hex ''secret'' ''order_1|12345''"]
        numeric_id_request_fields verify_success_response)
  moreover have "razorpay_signature numeric_id_request =
      Some (node_hmac_sha256_hex ''secret'' ''order_1|12345'')"
    by (simp add: numeric_id_request_def)
  ultimately show ?thesis
    using v r by (simp add: numeric_id_request_fields decimal_12345 error_response_def js_or_def)
qed

text \<open>
  Claim C3, amended. A verify request with a valid signature whose payment id is a
  string takes the success branch and is answered with \<open>verified_response\<close>, and nothing
  of what the handler does or answers depends on a test-mode input: replacing the key id
  (test or live credential), the tenant's \<^verbatim>\<open>testMode\<close> object (by any value, or
  removing it) and the request's \<^verbatim>\<open>isTestMode\<close> flag changes neither the response
  nor the resulting world. The payment id is an arbitrary string, so this includes ids
  of the test pattern.
\<close>

theorem verify_valid_signature_ignores_test_mode:
  assumes "str_or_null (razorpay_order_id b) = Some order_id"
    and "razorpay_payment_id b = FStr payment_id" and "payment_id \<noteq> []"
    and "str_or_null (razorpay_signature b) = Some signature"
    and "isSignatureValid ctx order_id payment_id signature"
  shows "verify ctx appConfig b w = verify_success ctx appConfig b order_id payment_id signature w \<and>
         fst (verify ctx appConfig b w) = verified_response ctx order_id payment_id \<and>
         verify (ctx\<lparr>RAZORPAY_KEY_ID := k\<rparr>) (appConfig(''testMode'' := tm))
           (b\<lparr>isTestMode := t\<rparr>) w = verify ctx appConfig b w"
proof -
  have v: "isSignatureValid (ctx\<lparr>RAZORPAY_KEY_ID := k\<rparr>) order_id payment_id signature"
    using assms(5) by (simp add: isSignatureValid_def generatedSignature_def)
  have s: "verify ctx appConfig b w = verify_success ctx appConfig b order_id payment_id signature w"
    using assms by (simp add: verify_present)
  have "verify (ctx\<lparr>RAZORPAY_KEY_ID := k\<rparr>) (appConfig(''testMode'' := tm)) (b\<lparr>isTestMode := t\<rparr>) w =
        verify_success (ctx\<lparr>RAZORPAY_KEY_ID := k\<rparr>) (appConfig(''testMode'' := tm))
          (b\<lparr>isTestMode := t\<rparr>) order_id payment_id signature w"
    using assms(1-4) v by (simp add: verify_present)
  also have "\<dots> = verify_success ctx appConfig b order_id payment_id signature w"
    by (simp only: verify_success_key_id verify_success_testMode)
  finally show ?thesis
    using s by (simp add: verify_success_response)
qed

theorem verify_valid_signature_ignores_test_mode_witness:
  "isSignatureValid live_env ''order_1'' ''pay_1'' (node_hmac_sha256_hex ''secret'' ''order_1|pay_1'') \<and>
   isTestPayment test_env (FStr ''pay_1'') (Some True) = Inr True \<and>
   softFailGate default_config True (good_request\<lparr>isTestMode := Some True\<rparr>) \<and>
   fst (verify test_env default_config (good_request\<lparr>isTestMode := Some True\<rparr>) world_c1) =
     verified_response live_env ''order_1'' ''pay_1'' \<and>
   verify test_env default_config (good_request\<lparr>isTestMode := Some True\<rparr>) world_c1 =
     verify live_env no_booking_config good_request world_c1"
proof -
  have v: "isSignatureValid live_env ''order_1'' ''pay_1''
             (node_hmac_sha256_hex ''secret'' ''order_1|pay_1'')"
    using good_signature
    by (simp add: isSignatureValid_def generatedSignature_def live_env_def)
  have g: "softFailGate default_config True (good_request\<lparr>isTestMode := Some True\<rparr>)"
    by (simp add: softFailGate_def shouldBookOnFailure_def default_config_eq
          apps_default_def good_request_fields)
  have i: "isTestPayment test_env (FStr ''pay_1'') (Some True) = Inr True"
    by (simp add: isTestPayment_def)
  have e: "live_env\<lparr>RAZORPAY_KEY_ID := ''rzp_test_key''\<rparr> = test_env"
    by (simp add: live_env_def test_env_def)
  have c: "no_booking_config(''testMode'' := default_config ''testMode'') = default_config"
    by (rule ext) (simp add: no_booking_config_eq default_config_eq)
  have p: "''pay_1'' \<noteq> []" by simp
  from verify_valid_signature_ignores_test_mode [OF good_request_fields(1,2) p
      good_request_fields(3) v,
      where k = "''rzp_test_key''" and appConfig = no_booking_config
        and tm = "default_config ''testMode''" and t = "Some True" and w = world_c1]
  show ?thesis using v g i by (simp add: e c verify_success_response)
qed

section \<open>Test-mode soft fail\<close>

lemma updateData_pending: "updateData ''pending'' None = pending_fields"
  by (simp add: updateData_def pending_fields_def)

lemma upd_doc_pending:
  "map_of st (k, c) = Some d \<Longrightarrow>
   map_of (upd_doc (k, c) pending_fields st) (k, c) =
     Some (d(''paymentStatus'' \<mapsto> JStr ''pending'', ''updatedAt'' \<mapsto> JFsServerTimestamp))"
  by (simp add: map_of_upd_doc pending_fields_def)

lemma notifications_stores:
  "firestore (detached (sendPaymentNotifications ctx cfg c ps amt pid w)) = firestore w"
  "rtdb (detached (sendPaymentNotifications ctx cfg c ps amt pid w)) = rtdb w"
  using logged_fields [OF detached_notifications_logged [of w ctx cfg c ps amt pid]] by simp_all

lemma verify_failure_soft_idle:
  assumes "softFailGate appConfig t b" "str_or_null (consultationId b) = Some c"
    and "\<not> truthy (js_member (orderUpdate_of appConfig) ''enabled'') \<or>
         \<not> truthy (js_member (orderUpdate_of appConfig) ''endpoint'') \<and>
         \<not> truthy (js_member (orderUpdate_of appConfig) ''useFirebase'')"
  shows "snd (verify_failure ctx appConfig b payment_id t w) = w"
  unfolding verify_failure_soft [OF assms(1,2)] snd_conv
    updateOrderPaymentStatus_idle [OF assms(3)]
  by (simp add: detached_def sendPaymentNotifications_def getOrderDetails_idle [OF assms(3)])

lemma verify_failure_soft_endpoint:
  assumes "softFailGate appConfig t b" "str_or_null (consultationId b) = Some c"
    and "truthy (js_member (orderUpdate_of appConfig) ''enabled'')"
    and "truthy (js_member (orderUpdate_of appConfig) ''endpoint'')"
    and "\<not> truthy (js_member (orderUpdate_of appConfig) ''useFirebase'')"
  shows "\<exists>l. snd (verify_failure ctx appConfig b payment_id t w) =
           w\<lparr>calls := calls w @ HttpPatch (js_member (orderUpdate_of appConfig) ''endpoint'') c
                                   pending_fields # l\<rparr>"
proof -
  let ?w1 = "w\<lparr>calls := calls w @ [HttpPatch (js_member (orderUpdate_of appConfig) ''endpoint'') c
                                       pending_fields]\<rparr>"
  have "logged ?w1 (detached (sendPaymentNotifications ctx (JObj appConfig) c ''failed''
                      (amount b) (JStr payment_id) ?w1))"
    by (rule detached_notifications_logged)
  then obtain l where "detached (sendPaymentNotifications ctx (JObj appConfig) c ''failed''
                      (amount b) (JStr payment_id) ?w1) = ?w1\<lparr>calls := calls ?w1 @ l\<rparr>"
    unfolding logged_def by blast
  then show ?thesis
    unfolding verify_failure_soft [OF assms(1,2)] snd_conv
      updateOrderPaymentStatus_endpoint [OF assms(3-5)] updateData_pending
    by (intro exI [of _ l]) simp
qed

text \<open>
  Claim C1, as stated, fails for a tenant with \<^verbatim>\<open>orderUpdate: {enabled: false}\<close>: all
  its conditions hold and the response is the soft fail, but the linked record keeps
  \<^verbatim>\<open>paymentStatus: 'unpaid'\<close>.
\<close>

theorem verify_soft_fail_counterexample:
  "\<not> isSignatureValid test_env ''order_1'' ''pay_1'' ''0000'' \<and>
   str_or_null (consultationId bad_request) = Some ''c1'' \<and>
   shouldBookOnFailure no_update_config \<and>
   isTestPayment test_env (razorpay_payment_id bad_request) (isTestMode bad_request) = Inr True \<and>
   fst (verify test_env no_update_config bad_request world_c1) = soft_fail_response ''pay_1'' \<and>
   map_of (firestore (snd (verify test_env no_update_config bad_request world_c1)))
     (''consultations'', ''c1'') = Some consultation_c1 \<and>
   consultation_c1 ''paymentStatus'' = Some (JStr ''unpaid'')"
proof -
  have s: "shouldBookOnFailure no_update_config"
    by (simp add: shouldBookOnFailure_def no_update_config_eq default_config_eq apps_default_def)
  have t: "isTestPayment test_env (razorpay_payment_id bad_request) (isTestMode bad_request) = Inr True"
    by (simp add: isTestPayment_def bad_request_fields startsWith_def test_env_def)
  have t': "(startsWith ''pay_1'' ''pay_test_'' \<or>
             startsWith (RAZORPAY_KEY_ID test_env) ''rzp_test_'' \<or>
             isTestMode bad_request = Some True) = True"
    by (simp add: startsWith_def test_env_def)
  have g: "softFailGate no_update_config True bad_request"
    using s by (simp add: softFailGate_def bad_request_fields)
  have e: "\<not> truthy (js_member (orderUpdate_of no_update_config) ''enabled'') \<or>
           \<not> truthy (js_member (orderUpdate_of no_update_config) ''endpoint'') \<and>
           \<not> truthy (js_member (orderUpdate_of no_update_config) ''useFirebase'')"
    by (simp add: orderUpdate_of_def no_update_config_eq js_or_def)
  have v: "verify test_env no_update_config bad_request world_c1 =
           verify_failure test_env no_update_config bad_request ''pay_1'' True world_c1"
    using bad_signature
    by (simp add: verify_present [OF bad_request_fields(1,2) _ bad_request_fields(3)] t')
  have w: "snd (verify test_env no_update_config bad_request world_c1) = world_c1"
    unfolding v using g bad_request_fields(4) e by (rule verify_failure_soft_idle)
  have r: "fst (verify test_env no_update_config bad_request world_c1) = soft_fail_response ''pay_1''"
    unfolding v verify_failure_soft [OF g bad_request_fields(4)] by simp
  have m: "map_of (firestore world_c1) (''consultations'', ''c1'') = Some consultation_c1"
    by (simp add: world_c1_def)
  have p: "consultation_c1 ''paymentStatus'' = Some (JStr ''unpaid'')"
    by (simp add: consultation_c1_def)
  show ?thesis
    using s t bad_signature bad_request_fields(4) r
    by (simp add: w m p)
qed

text \<open>
  Claim C1, amended. For a verify request with an invalid signature, a
  \<^verbatim>\<open>consultationId\<close>, a tenant whose \<^verbatim>\<open>testMode.bookOnPaymentFailure\<close> is not
  \<^verbatim>\<open>false\<close>, and a test-mode trigger (test payment id, test key id, \<^verbatim>\<open>isTestMode\<close>,
  or the tenant's \<^verbatim>\<open>autoDetect\<close>), the handler takes the soft-fail branch: the response
  has \<^verbatim>\<open>success: false\<close> and \<^verbatim>\<open>consultation_booked: true\<close>. Whatever it hands over
  to be written, to a record store or to the tenant's endpoint, is
  \<^verbatim>\<open>paymentStatus: 'pending'\<close> with \<^verbatim>\<open>updatedAt\<close> (\<open>sent_only\<close>): never
  \<^verbatim>\<open>'failed'\<close>, and no payment record; in the stores these fields are merged into
  existing documents and nothing else changes (\<open>wrote_only\<close>). What is written depends on
  the tenant's \<^verbatim>\<open>orderUpdate\<close> settings:

    \<^item> not enabled, or enabled with neither an endpoint nor \<^verbatim>\<open>useFirebase\<close>: nothing is
      written and no call is made, the linked record is left as it was;

    \<^item> an endpoint and not \<^verbatim>\<open>useFirebase\<close>: the fields are sent to the endpoint with a
      PATCH for the consultation id, and the stores are left as they were;

    \<^item> \<^verbatim>\<open>useFirebase\<close>, and no call fails: the linked record is looked for in the
      consultations and then the orders collection of Firestore, and if it is in neither
      (or Firestore cannot address them), in the consultations and then the orders node of
      the Realtime Database; the first record found gets the fields, and if there is none,
      nothing is written;

    \<^item> \<^verbatim>\<open>useFirebase\<close>, and the calls to Firestore fail while the others do not:
      Firestore is left as it was and the record is looked for in the Realtime Database
      as before.

  When a call fails in another way, the update may be lost; the response is the same.
\<close>

theorem verify_soft_fail:
  assumes "str_or_null (razorpay_order_id b) = Some order_id"
    and "razorpay_payment_id b = FStr payment_id" and "payment_id \<noteq> []"
    and "str_or_null (razorpay_signature b) = Some signature"
    and "\<not> isSignatureValid ctx order_id payment_id signature"
    and "str_or_null (consultationId b) = Some c"
    and "shouldBookOnFailure appConfig"
    and "startsWith payment_id ''pay_test_'' \<or> startsWith (RAZORPAY_KEY_ID ctx) ''rzp_test_'' \<or>
         isTestMode b = Some True \<or>
         truthy (js_member (js_member (JObj appConfig) ''testMode'') ''autoDetect'')"
  shows "fst (verify ctx appConfig b w) = soft_fail_response payment_id \<and>
         body (soft_fail_response payment_id) ''success'' = Some (JBool False) \<and>
         body (soft_fail_response payment_id) ''consultation_booked'' = Some (JBool True) \<and>
         sent_only pending_fields w (snd (verify ctx appConfig b w)) \<and>
         (flat_paths appConfig c \<longrightarrow> wrote_only pending_fields w (snd (verify ctx appConfig b w))) \<and>
         (\<not> truthy (js_member (orderUpdate_of appConfig) ''enabled'') \<or>
          \<not> truthy (js_member (orderUpdate_of appConfig) ''endpoint'') \<and>
          \<not> truthy (js_member (orderUpdate_of appConfig) ''useFirebase'') \<longrightarrow>
            snd (verify ctx appConfig b w) = w) \<and>
         (truthy (js_member (orderUpdate_of appConfig) ''enabled'') \<and>
          truthy (js_member (orderUpdate_of appConfig) ''endpoint'') \<and>
          \<not> truthy (js_member (orderUpdate_of appConfig) ''useFirebase'') \<longrightarrow>
            (\<exists>l. snd (verify ctx appConfig b w) =
               w\<lparr>calls := calls w @ HttpPatch (js_member (orderUpdate_of appConfig) ''endpoint'') c
                                       pending_fields # l\<rparr>)) \<and>
         (truthy (js_member (orderUpdate_of appConfig) ''enabled'') \<and>
          truthy (js_member (orderUpdate_of appConfig) ''useFirebase'') \<and>
          flat_paths appConfig c \<and> (\<forall>l x. \<not> fails ctx l x) \<longrightarrow>
            firestore (snd (verify ctx appConfig b w)) =
              (case found_in Firestore appConfig c (firestore w) of
                 Some k \<Rightarrow> upd_doc (k, c) pending_fields (firestore w)
               | None \<Rightarrow> firestore w) \<and>
            rtdb (snd (verify ctx appConfig b w)) =
              (case found_in Firestore appConfig c (firestore w) of
                 Some k \<Rightarrow> rtdb w
               | None \<Rightarrow>
                   (case found_in Rtdb appConfig c (rtdb w) of
                      Some k \<Rightarrow> upd_doc (k, c) pending_fields (rtdb w)
                    | None \<Rightarrow> rtdb w))) \<and>
         (truthy (js_member (orderUpdate_of appConfig) ''enabled'') \<and>
          truthy (js_member (orderUpdate_of appConfig) ''useFirebase'') \<and>
          flat_paths appConfig c \<and> (\<forall>l x. fails ctx l x = (call_backend x = Some Firestore)) \<longrightarrow>
            firestore (snd (verify ctx appConfig b w)) = firestore w \<and>
            rtdb (snd (verify ctx appConfig b w)) =
              (case found_in Rtdb appConfig c (rtdb w) of
                 Some k \<Rightarrow> upd_doc (k, c) pending_fields (rtdb w)
               | None \<Rightarrow> rtdb w)) \<and>
         (\<forall>st k d. map_of st (k, c) = Some d \<longrightarrow>
            map_of (upd_doc (k, c) pending_fields st) (k, c) =
              Some (d(''paymentStatus'' \<mapsto> JStr ''pending'', ''updatedAt'' \<mapsto> JFsServerTimestamp)))"
proof -
  let ?t = "startsWith payment_id ''pay_test_'' \<or> startsWith (RAZORPAY_KEY_ID ctx) ''rzp_test_'' \<or>
            isTestMode b = Some True"
  let ?w1 = "snd (updateOrderPaymentStatus ctx (JObj appConfig) c ''pending'' None w)"
  have g: "softFailGate appConfig ?t b"
    using assms(6-8) by (auto simp add: softFailGate_def)
  have v: "verify ctx appConfig b w = verify_failure ctx appConfig b payment_id ?t w"
    using assms(1-5) by (simp add: verify_present)
  note soft = verify_failure_soft [OF g assms(6), where w = w and ctx = ctx and payment_id = payment_id]
  have 1: "fst (verify ctx appConfig b w) = soft_fail_response payment_id"
    unfolding v soft by simp
  have 2: "body (soft_fail_response payment_id) ''success'' = Some (JBool False)"
    "body (soft_fail_response payment_id) ''consultation_booked'' = Some (JBool True)"
    by (simp_all add: soft_fail_response_def)
  have 3: "sent_only pending_fields w (snd (verify ctx appConfig b w))"
    unfolding v using verify_failure_soft_sent_only [OF g assms(6), where w = w and ctx = ctx and payment_id = payment_id]
    by (simp add: updateData_pending)
  have 4: "wrote_only pending_fields w (snd (verify ctx appConfig b w))"
    unfolding v using verify_failure_soft_wrote_only [OF g assms(6), where w = w and ctx = ctx and payment_id = payment_id]
    by (simp add: updateData_pending)
  have 5: "snd (verify ctx appConfig b w) = w"
    if "\<not> truthy (js_member (orderUpdate_of appConfig) ''enabled'') \<or>
        \<not> truthy (js_member (orderUpdate_of appConfig) ''endpoint'') \<and>
        \<not> truthy (js_member (orderUpdate_of appConfig) ''useFirebase'')"
    unfolding v using g assms(6) that by (rule verify_failure_soft_idle)
  have 6: "\<exists>l. snd (verify ctx appConfig b w) =
               w\<lparr>calls := calls w @ HttpPatch (js_member (orderUpdate_of appConfig) ''endpoint'') c
                                       pending_fields # l\<rparr>"
    if "truthy (js_member (orderUpdate_of appConfig) ''enabled'')"
      "truthy (js_member (orderUpdate_of appConfig) ''endpoint'')"
      "\<not> truthy (js_member (orderUpdate_of appConfig) ''useFirebase'')"
    unfolding v using g assms(6) that by (rule verify_failure_soft_endpoint)
  have st: "firestore (snd (verify ctx appConfig b w)) = firestore ?w1"
    "rtdb (snd (verify ctx appConfig b w)) = rtdb ?w1"
    unfolding v soft snd_conv by (rule notifications_stores)+
  have 7: "firestore (snd (verify ctx appConfig b w)) =
              (case found_in Firestore appConfig c (firestore w) of
                 Some k \<Rightarrow> upd_doc (k, c) pending_fields (firestore w)
               | None \<Rightarrow> firestore w) \<and>
            rtdb (snd (verify ctx appConfig b w)) =
              (case found_in Firestore appConfig c (firestore w) of
                 Some k \<Rightarrow> rtdb w
               | None \<Rightarrow>
                   (case found_in Rtdb appConfig c (rtdb w) of
                      Some k \<Rightarrow> upd_doc (k, c) pending_fields (rtdb w)
                    | None \<Rightarrow> rtdb w))"
    if "truthy (js_member (orderUpdate_of appConfig) ''enabled'')"
      "truthy (js_member (orderUpdate_of appConfig) ''useFirebase'')"
      "\<forall>l x. \<not> fails ctx l x"
    unfolding st
    using updateOrderPaymentStatus_up [OF that(1,2), of ctx c "''pending''" None w,
        unfolded updateData_pending] that(3)
    by simp
  have 8: "firestore (snd (verify ctx appConfig b w)) = firestore w \<and>
            rtdb (snd (verify ctx appConfig b w)) =
              (case found_in Rtdb appConfig c (rtdb w) of
                 Some k \<Rightarrow> upd_doc (k, c) pending_fields (rtdb w)
               | None \<Rightarrow> rtdb w)"
    if "truthy (js_member (orderUpdate_of appConfig) ''enabled'')"
      "truthy (js_member (orderUpdate_of appConfig) ''useFirebase'')"
      "\<forall>l x. fails ctx l x = (call_backend x = Some Firestore)"
    unfolding st
    using updateOrderPaymentStatus_firestore_down [OF that(1,2), of ctx c "''pending''" None w,
        unfolded updateData_pending] that(3)
    by simp
  have 9: "\<forall>st k d. map_of st (k, c) = Some d \<longrightarrow>
            map_of (upd_doc (k, c) pending_fields st) (k, c) =
              Some (d(''paymentStatus'' \<mapsto> JStr ''pending'', ''updatedAt'' \<mapsto> JFsServerTimestamp))"
    by (simp add: upd_doc_pending)
  show ?thesis
    using 1 2 3 4 5 6 7 8 9 by blast
qed

lemma default_config_orderUpdate:
  "truthy (js_member (orderUpdate_of default_config) ''enabled'')"
  "truthy (js_member (orderUpdate_of default_config) ''useFirebase'')"
  "consultations_of default_config = JStr ''consultations''"
  "orders_of default_config = JStr ''orders''"
  by (simp_all add: consultations_of_def orders_of_def orderUpdate_of_def default_config_eq
        apps_default_def js_or_def)

lemma default_config_refs:
  "collection_ref b (JStr ''consultations'') ''c1'' = Some ''consultations''"
  "collection_ref b (JStr ''orders'') ''c1'' = Some ''orders''"
  by (cases b; simp add: collection_ref_def rtdb_path_ok_def)+

lemma default_config_flat: "flat_paths default_config ''c1''"
  by (simp add: flat_paths_def segment_def default_config_orderUpdate default_config_refs)

lemma endpoint_config_orderUpdate:
  "truthy (js_member (orderUpdate_of endpoint_config) ''enabled'')"
  "truthy (js_member (orderUpdate_of endpoint_config) ''endpoint'')"
  "\<not> truthy (js_member (orderUpdate_of endpoint_config) ''useFirebase'')"
  "js_member (orderUpdate_of endpoint_config) ''endpoint'' = JStr ''https://tenant.example/orders''"
  by (simp_all add: orderUpdate_of_def endpoint_config_eq js_or_def)

theorem verify_soft_fail_witness:
  "\<not> isSignatureValid test_env ''order_1'' ''pay_1'' ''0000'' \<and>
   str_or_null (consultationId bad_request) = Some ''c1'' \<and>
   shouldBookOnFailure default_config \<and>
   startsWith (RAZORPAY_KEY_ID test_env) ''rzp_test_'' \<and>
   flat_paths default_config ''c1'' \<and>
   fst (verify test_env default_config bad_request world_c1) = soft_fail_response ''pay_1'' \<and>
   firestore (snd (verify test_env default_config bad_request world_c1)) =
     upd_doc (''consultations'', ''c1'') pending_fields (firestore world_c1) \<and>
   map_of (firestore (snd (verify test_env default_config bad_request world_c1)))
     (''consultations'', ''c1'') =
     Some (consultation_c1(''paymentStatus'' \<mapsto> JStr ''pending'',
                           ''updatedAt'' \<mapsto> JFsServerTimestamp)) \<and>
   rtdb (snd (verify test_env default_config bad_request world_c1)) = [] \<and>
   firestore (snd (verify firestore_down_env default_config bad_request world_o1)) = [] \<and>
   map_of (rtdb (snd (verify firestore_down_env default_config bad_request world_o1)))
     (''orders'', ''c1'') =
     Some (consultation_c1(''paymentStatus'' \<mapsto> JStr ''pending'',
                           ''updatedAt'' \<mapsto> JFsServerTimestamp)) \<and>
   hd (calls (snd (verify test_env endpoint_config bad_request world_c1))) =
     HttpPatch (JStr ''https://tenant.example/orders'') ''c1'' pending_fields \<and>
   firestore (snd (verify test_env endpoint_config bad_request world_c1)) = firestore world_c1"
proof -
  have s: "shouldBookOnFailure default_config"
    by (simp add: shouldBookOnFailure_def default_config_eq apps_default_def)
  have s': "shouldBookOnFailure endpoint_config"
    by (simp add: shouldBookOnFailure_def endpoint_config_eq apps_default_def)
  have k: "startsWith (RAZORPAY_KEY_ID test_env) ''rzp_test_''"
    "startsWith (RAZORPAY_KEY_ID firestore_down_env) ''rzp_test_''"
    by (simp_all add: startsWith_def test_env_def firestore_down_env_def)
  have bad': "\<not> isSignatureValid firestore_down_env ''order_1'' ''pay_1'' ''0000''"
    using bad_signature
    by (simp add: isSignatureValid_def generatedSignature_def firestore_down_env_def)
  have up: "\<forall>l x. \<not> fails test_env l x"
    by (simp add: test_env_def)
  have down: "\<forall>l x. fails firestore_down_env l x = (call_backend x = Some Firestore)"
    by (simp add: firestore_down_env_def)
  have p: "''pay_1'' \<noteq> []" by simp
  have f1: "found_in Firestore default_config ''c1'' (firestore world_c1) = Some ''consultations''"
    by (simp add: found_in_def holds_def default_config_orderUpdate default_config_refs world_c1_def)
  have f2: "found_in Rtdb default_config ''c1'' (rtdb world_o1) = Some ''orders''"
    by (simp add: found_in_def holds_def default_config_orderUpdate default_config_refs world_o1_def)
  have d1: "map_of (firestore world_c1) (''consultations'', ''c1'') = Some consultation_c1"
    by (simp add: world_c1_def)
  have d2: "map_of (rtdb world_o1) (''orders'', ''c1'') = Some consultation_c1"
    by (simp add: world_o1_def)
  have e: "rtdb world_c1 = []" "firestore world_o1 = []" "calls world_c1 = []"
    by (simp_all add: world_c1_def world_o1_def)
  note a = verify_soft_fail [OF bad_request_fields(1,2) p bad_request_fields(3) bad_signature
      bad_request_fields(4) s disjI2 [OF disjI1 [OF k(1)]], of world_c1]
  note b = verify_soft_fail [OF bad_request_fields(1,2) p bad_request_fields(3) bad'
      bad_request_fields(4) s disjI2 [OF disjI1 [OF k(2)]], of world_o1]
  note c = verify_soft_fail [OF bad_request_fields(1,2) p bad_request_fields(3) bad_signature
      bad_request_fields(4) s' disjI2 [OF disjI1 [OF k(1)]], of world_c1]
  have a7: "firestore (snd (verify test_env default_config bad_request world_c1)) =
              upd_doc (''consultations'', ''c1'') pending_fields (firestore world_c1)"
    "rtdb (snd (verify test_env default_config bad_request world_c1)) = []"
    using a default_config_orderUpdate(1,2) default_config_flat up by (simp_all add: f1 e)
  have a9: "map_of (upd_doc (''consultations'', ''c1'') pending_fields (firestore world_c1))
              (''consultations'', ''c1'') =
            Some (consultation_c1(''paymentStatus'' \<mapsto> JStr ''pending'',
                                  ''updatedAt'' \<mapsto> JFsServerTimestamp))"
    using a d1 by blast
  have b8: "firestore (snd (verify firestore_down_env default_config bad_request world_o1)) = []"
    "rtdb (snd (verify firestore_down_env default_config bad_request world_o1)) =
       upd_doc (''orders'', ''c1'') pending_fields (rtdb world_o1)"
    using b default_config_orderUpdate(1,2) default_config_flat down by (simp_all add: f2 e)
  have b9: "map_of (upd_doc (''orders'', ''c1'') pending_fields (rtdb world_o1)) (''orders'', ''c1'') =
            Some (consultation_c1(''paymentStatus'' \<mapsto> JStr ''pending'',
                                  ''updatedAt'' \<mapsto> JFsServerTimestamp))"
    using b d2 by blast
  obtain l where c6: "snd (verify test_env endpoint_config bad_request world_c1) =
      world_c1\<lparr>calls := calls world_c1 @
        HttpPatch (js_member (orderUpdate_of endpoint_config) ''endpoint'') ''c1'' pending_fields # l\<rparr>"
    using c endpoint_config_orderUpdate(1-3) by blast
  have r: "fst (verify test_env default_config bad_request world_c1) = soft_fail_response ''pay_1''"
    using a by blast
  show ?thesis
    using s k(1) bad_signature bad_request_fields(4) default_config_flat r
    by (simp add: a7 a9 b8 b9 c6 e endpoint_config_orderUpdate(4))
qed

section \<open>Payment records\<close>

lemma savePaymentToDatabase_payments:
  "payments (snd (savePaymentToDatabase ctx pd w)) =
   (if database ctx \<and> \<not> fails ctx (calls w) (PaymentInsert (paymentRecord pd))
    then payments w @ [paymentRecord pd] else payments w)"
  by (simp add: savePaymentToDatabase_def perform_def Let_def split: option.splits bool.splits)

lemma updateOrderPaymentStatus_payments:
  "payments (snd (updateOrderPaymentStatus ctx cfg i ps pid w)) = payments w"
  using updateOrderPaymentStatus_wrote_only [OF updateOrderPaymentStatus_result]
  by (simp add: wrote_only_def)

lemma verify_success_payments:
  "payments (snd (verify_success ctx appConfig b order_id payment_id signature w)) =
   payments (snd (savePaymentToDatabase ctx
      \<lparr>pd_payment_id = payment_id, pd_order_id = order_id, pd_signature = signature,
         pd_amount = num_or_null (amount b), pd_consultationId = str_or_null (consultationId b),
         pd_notes = js_or (req_notes b) (JObj Map.empty)\<rparr> w))"
proof (cases "str_or_null (consultationId b)")
  case None
  then show ?thesis by (simp add: verify_success_def Let_def detached_def)
next
  case (Some c)
  have n: "payments (detached (sendPaymentNotifications ctx cfg c ps amt pid w1)) = payments w1"
    for cfg ps amt pid w1
    using logged_fields [OF detached_notifications_logged] by blast
  show ?thesis
    unfolding verify_success_def Let_def
    by (subst updateOrderPaymentStatus_result)
       (simp add: Some n [unfolded detached_def] updateOrderPaymentStatus_payments detached_def)
qed

lemma verify_failure_payments:
  "payments (snd (verify_failure ctx appConfig b payment_id t w)) = payments w"
proof (cases "softFailGate appConfig t b")
  case False
  then show ?thesis by (simp add: verify_failure_gate_closed)
next
  case True
  then obtain c where c: "str_or_null (consultationId b) = Some c"
    by (auto simp: softFailGate_def)
  from verify_failure_soft_wrote_only [OF True c] show ?thesis
    by (simp add: wrote_only_def)
qed

text \<open>
  Claim C4, as the code has it. The verify handler adds a payment record only on the
  success branch, through \<^verbatim>\<open>savePaymentToDatabase\<close>: when the signature is valid, the
  \<^verbatim>\<open>database\<close> handle is configured and the insert does not throw, exactly one record
  is appended to the payments, with \<^verbatim>\<open>status: 'completed'\<close> and \<^verbatim>\<open>verified: true\<close>;
  without a database handle, or when the insert throws, nothing is appended. On both
  failure branches (soft fail and hard fail) the payments are left as they were: the
  handler records no \<^verbatim>\<open>failed\<close> attempt.
\<close>

theorem verify_payment_attempts:
  assumes "str_or_null (razorpay_order_id b) = Some order_id"
    and "razorpay_payment_id b = FStr payment_id" and "payment_id \<noteq> []"
    and "str_or_null (razorpay_signature b) = Some signature"
  defines "attempt \<equiv> paymentRecord
      \<lparr>pd_payment_id = payment_id, pd_order_id = order_id, pd_signature = signature,
         pd_amount = num_or_null (amount b), pd_consultationId = str_or_null (consultationId b),
         pd_notes = js_or (req_notes b) (JObj Map.empty)\<rparr>"
  shows "(isSignatureValid ctx order_id payment_id signature \<and> database ctx \<and>
            \<not> fails ctx (calls w) (PaymentInsert attempt) \<longrightarrow>
            payments (snd (verify ctx appConfig b w)) = payments w @ [attempt]) \<and>
         (isSignatureValid ctx order_id payment_id signature \<and>
            (\<not> database ctx \<or> fails ctx (calls w) (PaymentInsert attempt)) \<longrightarrow>
            payments (snd (verify ctx appConfig b w)) = payments w) \<and>
         (\<not> isSignatureValid ctx order_id payment_id signature \<longrightarrow>
            payments (snd (verify ctx appConfig b w)) = payments w) \<and>
         attempt ''status'' = Some (JStr ''completed'') \<and>
         attempt ''verified'' = Some (JBool True) \<and>
         attempt ''razorpayPaymentId'' = Some (JStr payment_id)"
proof -
  have "attempt ''status'' = Some (JStr ''completed'') \<and>
        attempt ''verified'' = Some (JBool True) \<and>
        attempt ''razorpayPaymentId'' = Some (JStr payment_id)"
    by (simp add: attempt_def paymentRecord_def)
  then show ?thesis
    unfolding verify_present [OF assms(1-4)]
    by (simp add: verify_success_payments verify_failure_payments
          savePaymentToDatabase_payments attempt_def [symmetric])
qed

theorem verify_payment_attempts_witness:
  "isSignatureValid test_env ''order_1'' ''pay_1''
     (node_hmac_sha256_hex ''secret'' ''order_1|pay_1'') \<and>
   database test_env \<and>
   map (\<lambda>r. (r ''status'', r ''verified'', r ''razorpayPaymentId''))
     (payments (snd (verify test_env default_config good_request world_c1))) =
     [(Some (JStr ''completed''), Some (JBool True), Some (JStr ''pay_1''))]"
proof -
  have d: "database test_env" and f: "\<not> fails test_env l x" for l x
    by (simp_all add: test_env_def)
  have p: "payments world_c1 = []"
    by (simp add: world_c1_def)
  have q: "''pay_1'' \<noteq> []" by simp
  from verify_payment_attempts [OF good_request_fields(1,2) q good_request_fields(3),
      of test_env world_c1 default_config]
  show ?thesis
    using good_signature d f by (simp add: p)
qed

text \<open>
  The claim as stated fails on the soft-fail path: the response is the soft fail and the
  payments are still empty.
\<close>

theorem verify_payment_attempts_counterexample:
  "\<not> isSignatureValid test_env ''order_1'' ''pay_1'' ''0000'' \<and>
   isTestPayment test_env (razorpay_payment_id bad_request) (isTestMode bad_request) = Inr True \<and>
   softFailGate default_config True bad_request \<and>
   fst (verify test_env default_config bad_request world_c1) = soft_fail_response ''pay_1'' \<and>
   payments (snd (verify test_env default_config bad_request world_c1)) = []"
proof -
  have t: "isTestPayment test_env (razorpay_payment_id bad_request) (isTestMode bad_request) = Inr True"
    by (simp add: isTestPayment_def bad_request_fields startsWith_def test_env_def)
  have t': "(startsWith ''pay_1'' ''pay_test_'' \<or>
             startsWith (RAZORPAY_KEY_ID test_env) ''rzp_test_'' \<or>
             isTestMode bad_request = Some True) = True"
    by (simp add: startsWith_def test_env_def)
  have v: "verify test_env default_config bad_request world_c1 =
           verify_failure test_env default_config bad_request ''pay_1'' True world_c1"
    using bad_signature
    by (simp add: verify_present [OF bad_request_fields(1,2) _ bad_request_fields(3)] t')
  have r: "fst (verify test_env default_config bad_request world_c1) = soft_fail_response ''pay_1''"
    unfolding v verify_failure_soft [OF test_gate bad_request_fields(4)] by simp
  have p: "payments world_c1 = []"
    by (simp add: world_c1_def)
  show ?thesis
    using bad_signature test_gate r t by (simp add: v verify_failure_payments p)
qed

section \<open>Recipients of a notification\<close>

lemma admin_ids_result:
  "fst (admin_ids ctx config w) =
   (case users_of config of
      None \<Rightarrow> []
    | Some u \<Rightarrow>
        if \<not> fails ctx (calls w) (AdminQuery Firestore u)
          then admins_of (firestore w) u
        else if rtdb_path_ok u \<and>
                \<not> fails ctx (calls w @ [AdminQuery Firestore u]) (AdminQuery Rtdb u)
          then admins_of (rtdb w) u
        else [])"
  by (simp add: admin_ids_def users_of_def perform_def Let_def split: bool.splits jsval.splits)

lemma admin_ids_calls:
  "admin_ids ctx config w = (r, w') \<Longrightarrow>
   \<forall>c\<in>set (calls w'). c \<in> set (calls w) \<or> call_recipients c = None"
  by (auto simp: admin_ids_def perform_def Let_def call_recipients_def
           split: if_splits bool.splits prod.splits jsval.splits)

lemma recipients_calls:
  "recipients ctx config cd w = (r, w') \<Longrightarrow>
   \<forall>c\<in>set (calls w'). c \<in> set (calls w) \<or> call_recipients c = None"
  by (auto simp: recipients_def split: prod.splits dest!: admin_ids_calls)

lemma sendOneSignalNotification_calls:
  "sendOneSignalNotification ctx oc ids ok doctor note data w = (r, w') \<Longrightarrow>
   \<forall>c\<in>set (calls w'). c \<in> set (calls w) \<or> (call_recipients c = Some ids \<and> ids \<noteq> [])"
  by (auto simp: sendOneSignalNotification_def perform_def Let_def call_recipients_def
           split: if_splits)

lemma sendPaymentNotification_body_calls:
  assumes "sendPaymentNotification_body ctx config i ps amt pid cd w = (r, w')"
  shows "\<forall>c\<in>set (calls w'). c \<in> set (calls w) \<or> call_recipients c = None \<or>
           (call_recipients c = Some (fst (recipients ctx config cd w)) \<and>
            fst (recipients ctx config cd w) \<noteq> [])"
proof -
  obtain ids w1 where rc: "recipients ctx config cd w = (ids, w1)"
    by (cases "recipients ctx config cd w")
  note a = recipients_calls [OF rc]
  have b: "\<forall>c\<in>set (calls w'). c \<in> set (calls w) \<or> c \<in> set (calls w1) \<or>
             (call_recipients c = Some ids \<and> ids \<noteq> [])"
    using assms rc
    by (auto simp: sendPaymentNotification_body_def Let_def perform_def call_recipients_def
             split: if_splits dest!: sendOneSignalNotification_calls)
  show ?thesis
    using a b by (auto simp: rc)
qed

lemma sendPaymentNotification_calls:
  "\<forall>c\<in>set (calls (snd (sendPaymentNotification ctx config i ps amt pid cd w))).
      c \<in> set (calls w) \<or> call_recipients c = None \<or>
      (call_recipients c = Some (fst (recipients ctx config cd w)) \<and>
       fst (recipients ctx config cd w) \<noteq> [])"
proof -
  obtain r w' where b: "sendPaymentNotification_body ctx config i ps amt pid cd w = (r, w')"
    by (cases "sendPaymentNotification_body ctx config i ps amt pid cd w")
  have "snd (sendPaymentNotification ctx config i ps amt pid cd w) = w'"
    by (simp add: sendPaymentNotification_def b split: sum.splits)
  then show ?thesis
    using sendPaymentNotification_body_calls [OF b] by simp
qed

lemma admins_of_are_admins:
  "a \<in> set (admins_of st users) \<Longrightarrow>
   \<exists>i d. a = JStr i \<and> map_of st (users, i) \<noteq> None \<and> ((users, i), d) \<in> set st \<and>
         d ''role'' = Some (JStr ''admin'')"
  by (auto simp: admins_of_def weak_map_of_SomeI)

lemma admins_of_complete:
  "((users, i), d) \<in> set st \<Longrightarrow> d ''role'' = Some (JStr ''admin'') \<Longrightarrow>
   JStr i \<in> set (admins_of st users)"
  by (force simp: admins_of_def)

lemma recipients_eval:
  "fst (recipients test_env (JObj default_config) (JObj consultation_c1) world_c1) =
     [JStr ''u1'', JStr ''u2'', JStr ''a1'']"
  "fst (recipients test_env (JObj default_config) (JObj Map.empty) empty_world) = []"
  "fst (recipients test_env (JObj default_config) (JObj consultation_by_admin) world_c1) =
     [JStr ''u1'', JStr ''a1'', JStr ''a1'']"
  by (simp_all add: recipients_def admin_ids_def perform_def admins_of_def patient_ids_def
        provider_ids_def rtdb_path_ok_def js_or_def Let_def test_env_def default_config_eq
        apps_default_def consultation_c1_def consultation_by_admin_def world_c1_def
        empty_world_def)

text \<open>
  Claim C9, as the code has it. The recipients of a payment notification are collected in
  a fixed order and without deduplication: the record's \<^verbatim>\<open>patientId\<close>, or else its
  \<^verbatim>\<open>userId\<close>; then its \<^verbatim>\<open>doctorId\<close>, or else \<^verbatim>\<open>providerId\<close>, or else
  \<^verbatim>\<open>sellerId\<close>; then the id of every document of the users collection whose
  \<^verbatim>\<open>role\<close> is \<^verbatim>\<open>'admin'\<close>, read from Firestore, or from the Realtime Database if
  the Firestore query throws (none if both throw, and none if the configured name of
  the users collection is not a string, or not a path of the Realtime Database when that
  is asked). Every call to a notification provider
  that \<^verbatim>\<open>sendPaymentNotification\<close> makes carries exactly this list, and the list is
  then not empty: with no recipient, no provider is called.
\<close>

theorem recipients_in_order:
  "fst (recipients ctx config cd w) =
     patient_ids cd @ provider_ids cd @ fst (admin_ids ctx config w) \<and>
   patient_ids cd =
     (if truthy (js_member cd ''patientId'') then [js_member cd ''patientId'']
      else if truthy (js_member cd ''userId'') then [js_member cd ''userId''] else []) \<and>
   provider_ids cd =
     (if truthy (js_member cd ''doctorId'') then [js_member cd ''doctorId'']
      else if truthy (js_member cd ''providerId'') then [js_member cd ''providerId'']
      else if truthy (js_member cd ''sellerId'') then [js_member cd ''sellerId''] else []) \<and>
   fst (admin_ids ctx config w) =
     (case users_of config of
        None \<Rightarrow> []
      | Some u \<Rightarrow>
          if \<not> fails ctx (calls w) (AdminQuery Firestore u)
            then admins_of (firestore w) u
          else if rtdb_path_ok u \<and>
                  \<not> fails ctx (calls w @ [AdminQuery Firestore u]) (AdminQuery Rtdb u)
            then admins_of (rtdb w) u
          else []) \<and>
   (\<forall>st u a. a \<in> set (admins_of st u) \<longrightarrow>
      (\<exists>i d. a = JStr i \<and> ((u, i), d) \<in> set st \<and> d ''role'' = Some (JStr ''admin''))) \<and>
   (\<forall>st u i d. ((u, i), d) \<in> set st \<and> d ''role'' = Some (JStr ''admin'') \<longrightarrow>
      JStr i \<in> set (admins_of st u)) \<and>
   (\<forall>c\<in>set (calls (snd (sendPaymentNotification ctx config i ps amt pid cd w))).
      c \<in> set (calls w) \<or> call_recipients c = None \<or>
      (call_recipients c = Some (fst (recipients ctx config cd w)) \<and>
       fst (recipients ctx config cd w) \<noteq> []))"
proof -
  have 1: "fst (recipients ctx config cd w) =
     patient_ids cd @ provider_ids cd @ fst (admin_ids ctx config w)"
    by (simp add: recipients_def split: prod.splits)
  have 5: "\<forall>st u a. a \<in> set (admins_of st u) \<longrightarrow>
      (\<exists>i d. a = JStr i \<and> ((u, i), d) \<in> set st \<and> d ''role'' = Some (JStr ''admin''))"
    using admins_of_are_admins by blast
  have 6: "\<forall>st u i d. ((u, i), d) \<in> set st \<and> d ''role'' = Some (JStr ''admin'') \<longrightarrow>
      JStr i \<in> set (admins_of st u)"
    using admins_of_complete by blast
  show ?thesis
    by (intro conjI 1 5 6 admin_ids_result sendPaymentNotification_calls)
       (simp_all add: patient_ids_def provider_ids_def)
qed

theorem recipients_in_order_witness:
  "fst (recipients test_env (JObj default_config) (JObj consultation_c1) world_c1) =
     [JStr ''u1'', JStr ''u2'', JStr ''a1''] \<and>
   fst (recipients test_env (JObj default_config) (JObj Map.empty) empty_world) = [] \<and>
   filter (\<lambda>c. call_recipients c \<noteq> None)
     (calls (snd (sendPaymentNotification test_env (JObj default_config) ''c1'' ''paid''
                    (Some 50000) (JStr ''pay_1'') (JObj Map.empty) empty_world))) = []"
proof -
  have e: "calls empty_world = []"
    by (simp add: empty_world_def)
  from recipients_in_order [of test_env "JObj default_config" "JObj Map.empty" empty_world
      "''c1''" "''paid''" "Some 50000" "JStr ''pay_1''"]
  have "\<forall>c\<in>set (calls (snd (sendPaymentNotification test_env (JObj default_config) ''c1''
                    ''paid'' (Some 50000) (JStr ''pay_1'') (JObj Map.empty) empty_world))).
          call_recipients c = None"
    by (simp add: e recipients_eval(2))
  then show ?thesis
    by (simp add: recipients_eval filter_empty_conv)
qed

text \<open>
  The list is not deduplicated: for a consultation whose doctor is also an administrator
  the doctor's id is collected twice, and the provider is called with the list as it is.
\<close>

theorem recipients_in_order_counterexample:
  "fst (recipients test_env (JObj default_config) (JObj consultation_by_admin) world_c1) =
     [JStr ''u1'', JStr ''a1'', JStr ''a1''] \<and>
   \<not> distinct (fst (recipients test_env (JObj default_config) (JObj consultation_by_admin)
                     world_c1)) \<and>
   map call_recipients
     (calls (snd (sendPaymentNotification test_env (JObj default_config) ''c1'' ''paid''
                    (Some 50000) (JStr ''pay_1'') (JObj consultation_by_admin) world_c1))) =
     [None, Some [JStr ''u1'', JStr ''a1'', JStr ''a1'']]"
proof -
  have "map call_recipients
     (calls (snd (sendPaymentNotification test_env (JObj default_config) ''c1'' ''paid''
                    (Some 50000) (JStr ''pay_1'') (JObj consultation_by_admin) world_c1))) =
     [None, Some [JStr ''u1'', JStr ''a1'', JStr ''a1'']]"
    by (simp add: run_defs call_recipients_def consultation_by_admin_def)
  then show ?thesis
    by (simp add: recipients_eval)
qed

section \<open>The signature check\<close>




section \<open>The webhook's failed payments, for comparison\<close>

text \<open>
  The \<^verbatim>\<open>payment.failed\<close> event of the webhook is the path that does what the failure
  branch of the verify handler leaves alone: outside test mode it writes
  \<^verbatim>\<open>paymentStatus: 'failed'\<close> to the linked record, and it records the failed payment.
\<close>

lemma webhook_payment_failed_writes_failed:
  assumes c: "str_or_null (fp_consultationId failedPayment) = Some c"
    and gate: "\<not> (webhook_isTestMode ctx appConfig failedPayment \<and> shouldBookOnFailure appConfig)"
    and en: "truthy (js_member (orderUpdate_of appConfig) ''enabled'')"
    and fb: "truthy (js_member (orderUpdate_of appConfig) ''useFirebase'')"
    and k: "found_in Firestore appConfig c (firestore w) = Some k"
    and d: "map_of (firestore w) (k, c) = Some d"
    and ok: "\<And>l x. \<not> fails ctx l x"
  shows "map_of (firestore (webhook_payment_failed ctx appConfig failedPayment w)) (k, c) =
           Some (d ++ updateData ''failed'' None) \<and>
         updateData ''failed'' None ''paymentStatus'' = Some (JStr ''failed'')"
proof -
  let ?w1 = "if database ctx then
                  (case perform ctx (PaymentInsert (failedPaymentRecord failedPayment)) w of
                     (True, w') \<Rightarrow> w'\<lparr>payments := payments w' @ [failedPaymentRecord failedPayment]\<rparr>
                   | (False, w') \<Rightarrow> w')
                else w"
  have f1: "firestore ?w1 = firestore w"
    by (simp add: perform_def ok)
  let ?w2 = "snd (updateOrderPaymentStatus ctx (JObj appConfig) c ''failed'' None ?w1)"
  have "firestore ?w2 = upd_doc (k, c) (updateData ''failed'' None) (firestore w)"
    unfolding updateOrderPaymentStatus_up(1) [OF en fb ok] f1 k by simp
  then have "map_of (firestore ?w2) (k, c) = Some (d ++ updateData ''failed'' None)"
    by (simp add: map_of_upd_doc d)
  moreover have "firestore (detached (sendPaymentNotifications ctx (JObj appConfig) c ''failed''
       (Some (fp_amount failedPayment)) (JStr (fp_id failedPayment)) ?w2)) = firestore ?w2"
    using logged_fields [OF detached_notifications_logged] by blast
  moreover have "(if webhook_isTestMode ctx appConfig failedPayment \<and> shouldBookOnFailure appConfig
                  then ''pending'' else ''failed'') = ''failed''"
    using gate by simp
  moreover have "updateData ''failed'' None ''paymentStatus'' = Some (JStr ''failed'')"
    by (simp add: updateData_def)
  ultimately show ?thesis
    unfolding webhook_payment_failed_def Let_def c by (simp only: option.case)
qed

lemma webhook_payment_failed_inserts:
  assumes "database ctx" "\<not> fails ctx (calls w) (PaymentInsert (failedPaymentRecord failedPayment))"
  shows "payments (webhook_payment_failed ctx appConfig failedPayment w) =
           payments w @ [failedPaymentRecord failedPayment] \<and>
         failedPaymentRecord failedPayment ''status'' = Some (JStr ''failed'')"
proof -
  have n: "payments (detached (sendPaymentNotifications ctx cfg c ps amt pid w1)) = payments w1"
    for cfg c ps amt pid w1
    using logged_fields [OF detached_notifications_logged] by blast
  show ?thesis
    using assms
    by (simp add: webhook_payment_failed_def Let_def perform_def n
          updateOrderPaymentStatus_payments failedPaymentRecord_def split: option.splits)
qed

section \<open>Configuration merge\<close>

lemma overlay_at_add: "(spread d ++ spread a) k = overlay_at d a k"
  by (simp add: overlay_at_def map_add_def split: option.splits)

lemma merged_top:
  "k \<noteq> ''notifications'' \<Longrightarrow> k \<noteq> ''orderUpdate'' \<Longrightarrow> k \<noteq> ''testMode'' \<Longrightarrow>
   merged D a k = overlay_at D a k"
  unfolding merged_def overlay_at_add [symmetric] by simp

lemma merged_notifications:
  "merged D a ''notifications'' = Some (JObj
           ((spread (js_member D ''notifications'') ++
             spread (js_member a ''notifications''))
            (''onesignal'' \<mapsto> JObj
               (spread (js_member (js_member D ''notifications'') ''onesignal'') ++
                spread (js_member (js_member a ''notifications'') ''onesignal'')))))"
  unfolding merged_def by simp

lemma merged_orderUpdate:
  "merged D a ''orderUpdate'' = Some (JObj
           ((spread (js_member D ''orderUpdate'') ++
             spread (js_member a ''orderUpdate''))
            (''collections'' \<mapsto> JObj
               (spread (js_member (js_member D ''orderUpdate'') ''collections'') ++
                spread (js_member (js_member a ''orderUpdate'') ''collections'')))))"
  unfolding merged_def by simp

lemma merged_testMode:
  "merged D a ''testMode'' = Some (JObj
           (spread (js_member D ''testMode'') ++ spread (js_member a ''testMode'')))"
  unfolding merged_def by simp

lemma spread_undefined_None: "spread a k = None \<Longrightarrow> spread (js_member a k) = Map.empty"
  by (cases a) (simp_all split: option.splits)

lemma merged_notifications_other:
  "k \<noteq> ''onesignal'' \<Longrightarrow>
   spread (js_member (JObj (merged D a)) ''notifications'') k =
   overlay_at (js_member D ''notifications'') (js_member a ''notifications'') k"
  by (simp add: merged_notifications overlay_at_add [symmetric])

lemma merged_onesignal:
  "js_member (js_member (JObj (merged D a)) ''notifications'') ''onesignal'' =
   JObj (spread (js_member (js_member D ''notifications'') ''onesignal'') ++
         spread (js_member (js_member a ''notifications'') ''onesignal''))"
  by (simp add: merged_notifications)

lemma merged_orderUpdate_other:
  "k \<noteq> ''collections'' \<Longrightarrow>
   spread (js_member (JObj (merged D a)) ''orderUpdate'') k =
   overlay_at (js_member D ''orderUpdate'') (js_member a ''orderUpdate'') k"
  by (simp add: merged_orderUpdate overlay_at_add [symmetric])

lemma merged_collections:
  "js_member (js_member (JObj (merged D a)) ''orderUpdate'') ''collections'' =
   JObj (spread (js_member (js_member D ''orderUpdate'') ''collections'') ++
         spread (js_member (js_member a ''orderUpdate'') ''collections''))"
  by (simp add: merged_orderUpdate)

lemma merged_nested_omitted:
  assumes "spread a k1 = None" "js_member D k1 = JObj n" "n k2 = Some (JObj os)"
  shows "(spread (js_member D k1) ++ spread (js_member a k1))
            (k2 \<mapsto> JObj (spread (js_member (js_member D k1) k2) ++
                           spread (js_member (js_member a k1) k2))) = n"
proof -
  have e: "spread (js_member a k1) = Map.empty"
    using assms(1) by (rule spread_undefined_None)
  have u: "js_member a k1 = JUndefined"
    using assms(1) by (cases a) (simp_all split: option.splits)
  show ?thesis
    by (simp add: e u assms(2,3) obj_upd_same)
qed

lemma merged_inner_omitted:
  assumes "spread (js_member a k1) k2 = None" "js_member (js_member D k1) k2 = JObj os"
  shows "spread (js_member (js_member D k1) k2) ++ spread (js_member (js_member a k1) k2) = os"
  using assms by (simp add: spread_undefined_None)

lemma merged_notifications_omitted:
  assumes "spread a ''notifications'' = None" "js_member D ''notifications'' = JObj n"
    "n ''onesignal'' = Some (JObj os)"
  shows "merged D a ''notifications'' = Some (JObj n)"
  unfolding merged_notifications
  by (simp only: merged_nested_omitted [OF assms])

lemma merged_orderUpdate_omitted:
  assumes "spread a ''orderUpdate'' = None" "js_member D ''orderUpdate'' = JObj u"
    "u ''collections'' = Some (JObj c)"
  shows "merged D a ''orderUpdate'' = Some (JObj u)"
  unfolding merged_orderUpdate
  by (simp only: merged_nested_omitted [OF assms])

lemma merged_onesignal_omitted:
  assumes "spread (js_member a ''notifications'') ''onesignal'' = None"
    "js_member (js_member D ''notifications'') ''onesignal'' = JObj os"
  shows "js_member (js_member (JObj (merged D a)) ''notifications'') ''onesignal'' = JObj os"
  unfolding merged_onesignal
  by (simp only: merged_inner_omitted [OF assms])

lemma merged_collections_omitted:
  assumes "spread (js_member a ''orderUpdate'') ''collections'' = None"
    "js_member (js_member D ''orderUpdate'') ''collections'' = JObj c"
  shows "js_member (js_member (JObj (merged D a)) ''orderUpdate'') ''collections'' = JObj c"
  unfolding merged_collections
  by (simp only: merged_inner_omitted [OF assms])

lemma merged_testMode_omitted:
  "spread a ''testMode'' = None \<Longrightarrow> js_member D ''testMode'' = JObj t \<Longrightarrow>
   merged D a ''testMode'' = Some (JObj t)"
  by (simp add: merged_testMode spread_undefined_None)

lemma provider_only:
  "n ''onesignal'' = Some (JObj os) \<Longrightarrow>
   (n ++ [''provider'' \<mapsto> JStr ''custom''])(''onesignal'' \<mapsto> JObj os) =
   n(''provider'' \<mapsto> JStr ''custom'')"
  by (intro ext) (simp add: map_add_def)

text \<open>
  Claim C8. \<open>mergeWithDefault\<close> overlays the tenant's partial configuration on the
  default one key by key, separately for each of the nested objects
  \<^verbatim>\<open>notifications\<close>, \<^verbatim>\<open>notifications.onesignal\<close>, \<^verbatim>\<open>orderUpdate\<close>,
  \<^verbatim>\<open>orderUpdate.collections\<close> and \<^verbatim>\<open>testMode\<close> (and for the top level): a key
  named by the partial configuration takes the partial's value, any other key keeps the
  default's value. A nested object that the partial configuration omits is the default's
  nested object, unchanged. For the override
  \<^verbatim>\<open>{notifications: {provider: 'custom'}}\<close> the result's \<^verbatim>\<open>notifications\<close> is the
  default's with only \<^verbatim>\<open>provider\<close> replaced, and its \<^verbatim>\<open>onesignal\<close> is the
  default's \<^verbatim>\<open>onesignal\<close>.
\<close>

theorem mergeWithDefault_overlay:
  fixes d appConfig :: jsval
  defines "D \<equiv> js_or d (JObj Map.empty)"
  assumes obj: "appConfig \<noteq> JUndefined" "appConfig \<noteq> JNull"
  shows "\<exists>r. mergeWithDefault d appConfig = Inr r \<and>
     (\<forall>k. k \<notin> {''notifications'', ''orderUpdate'', ''testMode''} \<longrightarrow>
           r k = overlay_at D appConfig k) \<and>
     (\<forall>k. k \<noteq> ''onesignal'' \<longrightarrow>
           spread (js_member (JObj r) ''notifications'') k =
           overlay_at (js_member D ''notifications'') (js_member appConfig ''notifications'') k) \<and>
     (\<forall>k. spread (js_member (js_member (JObj r) ''notifications'') ''onesignal'') k =
           overlay_at (js_member (js_member D ''notifications'') ''onesignal'')
                      (js_member (js_member appConfig ''notifications'') ''onesignal'') k) \<and>
     (\<forall>k. k \<noteq> ''collections'' \<longrightarrow>
           spread (js_member (JObj r) ''orderUpdate'') k =
           overlay_at (js_member D ''orderUpdate'') (js_member appConfig ''orderUpdate'') k) \<and>
     (\<forall>k. spread (js_member (js_member (JObj r) ''orderUpdate'') ''collections'') k =
           overlay_at (js_member (js_member D ''orderUpdate'') ''collections'')
                      (js_member (js_member appConfig ''orderUpdate'') ''collections'') k) \<and>
     (\<forall>k. spread (js_member (JObj r) ''testMode'') k =
           overlay_at (js_member D ''testMode'') (js_member appConfig ''testMode'') k) \<and>
     (\<forall>n os. spread appConfig ''notifications'' = None \<and> js_member D ''notifications'' = JObj n \<and>
            n ''onesignal'' = Some (JObj os) \<longrightarrow> r ''notifications'' = Some (JObj n)) \<and>
     (\<forall>os. spread (js_member appConfig ''notifications'') ''onesignal'' = None \<and>
            js_member (js_member D ''notifications'') ''onesignal'' = JObj os \<longrightarrow>
            js_member (js_member (JObj r) ''notifications'') ''onesignal'' = JObj os) \<and>
     (\<forall>u c. spread appConfig ''orderUpdate'' = None \<and> js_member D ''orderUpdate'' = JObj u \<and>
            u ''collections'' = Some (JObj c) \<longrightarrow> r ''orderUpdate'' = Some (JObj u)) \<and>
     (\<forall>c. spread (js_member appConfig ''orderUpdate'') ''collections'' = None \<and>
            js_member (js_member D ''orderUpdate'') ''collections'' = JObj c \<longrightarrow>
            js_member (js_member (JObj r) ''orderUpdate'') ''collections'' = JObj c) \<and>
     (\<forall>t. spread appConfig ''testMode'' = None \<and> js_member D ''testMode'' = JObj t \<longrightarrow>
            r ''testMode'' = Some (JObj t)) \<and>
     (\<forall>n os. appConfig = JObj [''notifications'' \<mapsto> JObj [''provider'' \<mapsto> JStr ''custom'']] \<and>
            js_member D ''notifications'' = JObj n \<and> n ''onesignal'' = Some (JObj os) \<longrightarrow>
            r ''notifications'' = Some (JObj (n(''provider'' \<mapsto> JStr ''custom''))) \<and>
            js_member (js_member (JObj r) ''notifications'') ''onesignal'' = JObj os)"
proof -
  let ?r = "merged D appConfig"
  have r: "mergeWithDefault d appConfig = Inr ?r"
    by (simp add: mergeWithDefault_def Let_def obj D_def)
  have c1: "\<forall>k. k \<notin> {''notifications'', ''orderUpdate'', ''testMode''} \<longrightarrow>
           ?r k = overlay_at D appConfig k"
    by (simp add: merged_top)
  have c2: "\<forall>k. k \<noteq> ''onesignal'' \<longrightarrow>
           spread (js_member (JObj ?r) ''notifications'') k =
           overlay_at (js_member D ''notifications'') (js_member appConfig ''notifications'') k"
    by (intro allI impI) (rule merged_notifications_other)
  have c3: "\<forall>k. spread (js_member (js_member (JObj ?r) ''notifications'') ''onesignal'') k =
           overlay_at (js_member (js_member D ''notifications'') ''onesignal'')
                      (js_member (js_member appConfig ''notifications'') ''onesignal'') k"
    by (simp only: merged_onesignal spread.simps overlay_at_add) simp
  have c4: "\<forall>k. k \<noteq> ''collections'' \<longrightarrow>
           spread (js_member (JObj ?r) ''orderUpdate'') k =
           overlay_at (js_member D ''orderUpdate'') (js_member appConfig ''orderUpdate'') k"
    by (intro allI impI) (rule merged_orderUpdate_other)
  have c5: "\<forall>k. spread (js_member (js_member (JObj ?r) ''orderUpdate'') ''collections'') k =
           overlay_at (js_member (js_member D ''orderUpdate'') ''collections'')
                      (js_member (js_member appConfig ''orderUpdate'') ''collections'') k"
    by (simp only: merged_collections spread.simps overlay_at_add) simp
  have c6: "\<forall>k. spread (js_member (JObj ?r) ''testMode'') k =
           overlay_at (js_member D ''testMode'') (js_member appConfig ''testMode'') k"
    by (simp add: merged_testMode overlay_at_add)
  have c7: "\<forall>n os. spread appConfig ''notifications'' = None \<and> js_member D ''notifications'' = JObj n \<and>
            n ''onesignal'' = Some (JObj os) \<longrightarrow> ?r ''notifications'' = Some (JObj n)"
    by (intro allI impI, elim conjE) (rule merged_notifications_omitted)
  have c8: "\<forall>os. spread (js_member appConfig ''notifications'') ''onesignal'' = None \<and>
            js_member (js_member D ''notifications'') ''onesignal'' = JObj os \<longrightarrow>
            js_member (js_member (JObj ?r) ''notifications'') ''onesignal'' = JObj os"
    by (intro allI impI, elim conjE) (rule merged_onesignal_omitted)
  have c9: "\<forall>u c. spread appConfig ''orderUpdate'' = None \<and> js_member D ''orderUpdate'' = JObj u \<and>
            u ''collections'' = Some (JObj c) \<longrightarrow> ?r ''orderUpdate'' = Some (JObj u)"
    by (intro allI impI, elim conjE) (rule merged_orderUpdate_omitted)
  have c10: "\<forall>c. spread (js_member appConfig ''orderUpdate'') ''collections'' = None \<and>
            js_member (js_member D ''orderUpdate'') ''collections'' = JObj c \<longrightarrow>
            js_member (js_member (JObj ?r) ''orderUpdate'') ''collections'' = JObj c"
    by (intro allI impI, elim conjE) (rule merged_collections_omitted)
  have c11: "\<forall>t. spread appConfig ''testMode'' = None \<and> js_member D ''testMode'' = JObj t \<longrightarrow>
            ?r ''testMode'' = Some (JObj t)"
    by (intro allI impI, elim conjE) (rule merged_testMode_omitted)
  have c12: "\<forall>n os. appConfig = JObj [''notifications'' \<mapsto> JObj [''provider'' \<mapsto> JStr ''custom'']] \<and>
            js_member D ''notifications'' = JObj n \<and> n ''onesignal'' = Some (JObj os) \<longrightarrow>
            ?r ''notifications'' = Some (JObj (n(''provider'' \<mapsto> JStr ''custom''))) \<and>
            js_member (js_member (JObj ?r) ''notifications'') ''onesignal'' = JObj os"
  proof (intro allI impI, elim conjE)
    fix n os
    assume a: "appConfig = JObj [''notifications'' \<mapsto> JObj [''provider'' \<mapsto> JStr ''custom'']]"
      and n: "js_member D ''notifications'' = JObj n" and os: "n ''onesignal'' = Some (JObj os)"
    show "?r ''notifications'' = Some (JObj (n(''provider'' \<mapsto> JStr ''custom''))) \<and>
            js_member (js_member (JObj ?r) ''notifications'') ''onesignal'' = JObj os"
      using provider_only [of n os] os by (simp add: merged_notifications a n)
  qed
  show ?thesis
    unfolding r
    by (intro exI [of _ ?r] conjI refl c1 c2 c3 c4 c5 c6 c7 c8 c9 c10 c11 c12)
qed

theorem mergeWithDefault_overlay_witness:
  "\<exists>r. mergeWithDefault apps_default
          (JObj [''notifications'' \<mapsto> JObj [''provider'' \<mapsto> JStr ''custom'']]) = Inr r \<and>
       js_member (js_member (JObj r) ''notifications'') ''onesignal'' =
         js_member (js_member apps_default ''notifications'') ''onesignal'' \<and>
       js_member (js_member (JObj r) ''notifications'') ''provider'' = JStr ''custom'' \<and>
       js_member (js_member (JObj r) ''notifications'') ''enabled'' =
         js_member (js_member apps_default ''notifications'') ''enabled'' \<and>
       r ''testMode'' = Some (js_member apps_default ''testMode'') \<and>
       r ''name'' = Some (JStr ''MediFind'')"
proof -
  let ?a = "JObj [''notifications'' \<mapsto> JObj [''provider'' \<mapsto> JStr ''custom'']]"
  let ?os = "[''appId'' \<mapsto> JStr ''b0020b77-3e0c-43c5-b92e-912b1cec1623'',
              ''restApiKey'' \<mapsto> JStr []]"
  let ?n = "[''enabled'' \<mapsto> JBool True, ''provider'' \<mapsto> JStr ''onesignal'',
             ''onesignal'' \<mapsto> JObj ?os]"
  let ?t = "[''autoDetect'' \<mapsto> JBool True, ''bookOnPaymentFailure'' \<mapsto> JBool True]"
  have D: "js_or apps_default (JObj Map.empty) = apps_default"
    by (simp add: js_or_def apps_default_def)
  have n: "js_member apps_default ''notifications'' = JObj ?n"
    by (simp add: apps_default_def)
  have os: "?n ''onesignal'' = Some (JObj ?os)"
    by simp
  have t: "js_member apps_default ''testMode'' = JObj ?t"
    by (simp add: apps_default_def)
  have nm: "overlay_at apps_default ?a ''name'' = Some (JStr ''MediFind'')"
    by (simp add: overlay_at_def apps_default_def)
  have a1: "?a \<noteq> JUndefined" and a2: "?a \<noteq> JNull" and a3: "spread ?a ''testMode'' = None"
    by simp_all
  from mergeWithDefault_overlay [OF a1 a2, where d = apps_default, unfolded D]
  obtain r where r: "mergeWithDefault apps_default ?a = Inr r"
    and top: "\<forall>k. k \<notin> {''notifications'', ''orderUpdate'', ''testMode''} \<longrightarrow>
           r k = overlay_at apps_default ?a k"
    and tm: "\<forall>t. spread ?a ''testMode'' = None \<and> js_member apps_default ''testMode'' = JObj t \<longrightarrow>
            r ''testMode'' = Some (JObj t)"
    and ex: "\<forall>n os. ?a = ?a \<and>
            js_member apps_default ''notifications'' = JObj n \<and> n ''onesignal'' = Some (JObj os) \<longrightarrow>
            r ''notifications'' = Some (JObj (n(''provider'' \<mapsto> JStr ''custom''))) \<and>
            js_member (js_member (JObj r) ''notifications'') ''onesignal'' = JObj os"
    by (elim exE conjE) (rule that)
  from ex n os have rn: "r ''notifications'' = Some (JObj (?n(''provider'' \<mapsto> JStr ''custom'')))"
    and ro: "js_member (js_member (JObj r) ''notifications'') ''onesignal'' = JObj ?os"
    by blast+
  from tm a3 t have rt: "r ''testMode'' = Some (JObj ?t)"
    by blast
  from top have rname: "r ''name'' = overlay_at apps_default ?a ''name''"
    by simp
  show ?thesis
    by (rule exI [of _ r]) (simp add: r rn rt rname nm n t)
qed


end
